(* ===== verification/Prelude.thy ===== *)
theory Prelude
  imports Complex_Main
begin

text \<open>
  Shared vocabulary of the Pong back end model: the identifier types of the
  server (user ids, external auth ids, game ids, socket ids), the presence
  status enum of the user table, the JavaScript container operations the
  gateway relies on (\<open>Array.findIndex\<close>, \<open>Array.splice(i, 1)\<close>, an
  insertion-ordered \<open>Map\<close> and \<open>Set\<close>), and the generic lemmas about
  them that the component theories share through the \<open>model_simps\<close>
  collection.
\<close>

named_theorems model_simps "characteristic equations of the JavaScript containers"

type_synonym userid = nat
type_synonym authid = nat
type_synonym gid = nat
type_synonym sid = string

text \<open>The Prisma enum \<open>Status\<close> of the user table.\<close>

datatype status = ONLINE | OFFLINE | INQUEUE | INGAME

subsection \<open>Arrays\<close>

text \<open>\<open>Array.findIndex\<close>: \<open>None\<close> stands for the result \<open>-1\<close>.\<close>

fun find_index :: "('a \<Rightarrow> bool) \<Rightarrow> 'a list \<Rightarrow> nat option" where
  "find_index P [] = None"
| "find_index P (x # xs) = (if P x then Some 0 else map_option Suc (find_index P xs))"

text \<open>\<open>Array.splice(i, 1)\<close> on an index inside the array.\<close>

definition remove_nth :: "nat \<Rightarrow> 'a list \<Rightarrow> 'a list" where
  "remove_nth i xs = take i xs @ drop (Suc i) xs"

subsection \<open>Insertion-ordered maps and sets\<close>

text \<open>
  A JavaScript \<open>Map\<close> keeps its keys in insertion order: \<open>set\<close> on a present
  key replaces the value in place, on a new key appends; \<open>delete\<close> removes
  the key. It is an association list without repeated keys.
\<close>

fun am_set :: "('k \<times> 'v) list \<Rightarrow> 'k \<Rightarrow> 'v \<Rightarrow> ('k \<times> 'v) list" where
  "am_set [] k v = [(k, v)]"
| "am_set ((k', v') # m) k v = (if k' = k then (k, v) # m else (k', v') # am_set m k v)"

definition am_delete :: "('k \<times> 'v) list \<Rightarrow> 'k \<Rightarrow> ('k \<times> 'v) list" where
  "am_delete m k = filter (\<lambda>(k', _). k' \<noteq> k) m"

text \<open>
  A JavaScript \<open>Set\<close> (a socket.io room) keeps its members in insertion
  order: \<open>add\<close> of a present member changes nothing, \<open>delete\<close> removes it.
\<close>

definition os_add :: "'a \<Rightarrow> 'a list \<Rightarrow> 'a list" where
  "os_add x xs = (if x \<in> set xs then xs else xs @ [x])"

definition os_del :: "'a \<Rightarrow> 'a list \<Rightarrow> 'a list" where
  "os_del x xs = filter (\<lambda>y. y \<noteq> x) xs"

text \<open>The last element of a set in iteration order (the value left by a
  \<open>forEach\<close> that overwrites one variable).\<close>

definition last_opt :: "'a list \<Rightarrow> 'a option" where
  "last_opt xs = (if xs = [] then None else Some (last xs))"

subsection \<open>Lemmas on arrays\<close>

lemma find_index_None [model_simps]: "find_index P xs = None \<longleftrightarrow> (\<forall>x\<in>set xs. \<not> P x)"
  by (induction xs) auto

lemma find_index_Some:
  "find_index P xs = Some i \<Longrightarrow> i < length xs \<and> P (xs ! i) \<and> (\<forall>j<i. \<not> P (xs ! j))"
proof (induction xs arbitrary: i)
  case Nil
  then show ?case by simp
next
  case (Cons x xs)
  show ?case
  proof (cases "P x")
    case True
    with Cons.prems show ?thesis by simp
  next
    case False
    with Cons.prems obtain k where k: "find_index P xs = Some k" "i = Suc k" by auto
    from Cons.IH [OF k(1)] k(2) False show ?thesis
      by (auto simp: less_Suc_eq_0_disj)
  qed
qed

lemma remove_nth_find_index:
  "find_index P xs = Some i \<Longrightarrow> remove_nth i xs = remove1 (xs ! i) xs"
proof (induction xs arbitrary: i)
  case Nil
  then show ?case by simp
next
  case (Cons x xs)
  then show ?case
    by (cases "P x") (auto simp: remove_nth_def dest: find_index_Some)
qed

lemma set_remove_nth: "set (remove_nth i xs) \<subseteq> set xs"
  by (auto simp: remove_nth_def dest: in_set_takeD in_set_dropD)

lemma length_remove_nth [model_simps]:
  "i < length xs \<Longrightarrow> length (remove_nth i xs) = length xs - 1"
  by (simp add: remove_nth_def)

lemma length_remove_nth_le: "length (remove_nth i xs) \<le> length xs"
  by (simp add: remove_nth_def)

lemma length_remove1_le: "length (remove1 x xs) \<le> length xs"
  by (induction xs) auto

lemma distinct_remove_nth: "distinct (map f xs) \<Longrightarrow> distinct (map f (remove_nth i xs))"
proof -
  assume d: "distinct (map f xs)"
  have "set (take i (map f xs)) \<inter> set (drop (Suc i) (map f xs)) = {}"
    using d by (simp add: set_take_disj_set_drop_if_distinct del: take_map drop_map)
  with d show ?thesis
    by (simp add: remove_nth_def take_map [symmetric] drop_map [symmetric] del: take_map drop_map)
qed

text \<open>A lookup by key after an update of the rows with one key (a Prisma
  \<open>update\<close> by unique key) that keeps the key of the rows it changes.\<close>

lemma find_map_upd_key [model_simps]:
  assumes "\<And>x. k x = i \<Longrightarrow> k (f x) = i"
  shows "find (\<lambda>x. k x = j) (map (\<lambda>x. if k x = i then f x else x) xs) =
         (if j = i then map_option f (find (\<lambda>x. k x = i) xs) else find (\<lambda>x. k x = j) xs)"
  by (induction xs) (auto simp: assms)

lemma find_map_keep_key:
  assumes "\<And>x. k (f x) = k x"
  shows "find (\<lambda>x. k x = j) (map (\<lambda>x. if P x then f x else x) xs) =
         map_option (\<lambda>x. if P x then f x else x) (find (\<lambda>x. k x = j) xs)"
  by (induction xs) (auto simp: assms)

lemma find_key_map_upd:
  assumes "\<And>x. K (f x) = K x"
  shows "find (\<lambda>x. K x = j) (map (\<lambda>x. if K x = i then f x else x) xs) =
         map_option (\<lambda>x. if K x = i then f x else x) (find (\<lambda>x. K x = j) xs)"
  by (induction xs) (auto simp: assms)

lemma list_ex_find [model_simps]: "list_ex P xs \<longleftrightarrow> find P xs \<noteq> None"
  by (induction xs) auto

subsection \<open>Lemmas on maps and sets\<close>

lemma map_of_am_set [model_simps]: "map_of (am_set m k v) = (map_of m)(k \<mapsto> v)"
  by (induction m k v rule: am_set.induct) (auto simp: fun_eq_iff)

lemma map_of_am_delete [model_simps]: "map_of (am_delete m k) = (map_of m)(k := None)"
  by (induction m) (auto simp: am_delete_def fun_eq_iff)

lemma keys_am_set [model_simps]: "fst ` set (am_set m k v) = insert k (fst ` set m)"
  by (induction m k v rule: am_set.induct) (auto simp: insert_commute)

lemma distinct_am_set: "distinct (map fst m) \<Longrightarrow> distinct (map fst (am_set m k v))"
  by (induction m k v rule: am_set.induct) (auto simp: keys_am_set)

lemma distinct_am_delete: "distinct (map fst m) \<Longrightarrow> distinct (map fst (am_delete m k))"
  by (induction m) (auto simp: am_delete_def)

lemma distinct_os_del: "distinct xs \<Longrightarrow> distinct (os_del x xs)"
  by (simp add: os_del_def)

lemma set_os_add [model_simps]: "set (os_add x xs) = insert x (set xs)"
  by (auto simp: os_add_def)

lemma set_os_del [model_simps]: "set (os_del x xs) = set xs - {x}"
  by (auto simp: os_del_def)

lemma distinct_os_add: "distinct xs \<Longrightarrow> distinct (os_add x xs)"
  by (simp add: os_add_def)

lemma os_add_idem [model_simps]: "os_add x (os_add x xs) = os_add x xs"
  by (simp add: os_add_def)

lemma last_opt_simps [simp]: "last_opt [] = None" "last_opt (xs @ [x]) = Some x"
  by (simp_all add: last_opt_def)

lemma last_opt_Some_in: "last_opt xs = Some x \<Longrightarrow> x \<in> set xs"
  by (auto simp: last_opt_def split: if_splits)

end
