(* ===== verification/Store.thy ===== *)
theory Store
  imports Prelude
begin

text \<open>
  The persistence collaborator and the two services that wrap it:
  \<open>src/app/backend/src/user/user.service.ts\<close> (presence, win and loss
  counters, lookups) and \<open>src/app/backend/src/game/game.service.ts\<close> (game
  rows: creation, lookup, score write-back, the three ways a match ends).
  The Prisma tables are lists of records; a Prisma \<open>update\<close> of a row that
  does not exist throws, which every service method catches and logs, so in
  the model it leaves the store unchanged.  Rows are kept in creation order,
  which is the \<open>createAt\<close> order \<open>findLastGame\<close> sorts by.
\<close>

subsection \<open>Rows\<close>

text \<open>The Prisma \<open>User\<close> row, restricted to the columns the game reads or writes.\<close>

record user =
  u_id :: userid
  u_authId :: authid
  u_username :: string
  u_status :: status
  wins :: nat
  loses :: nat
  usersBlocked :: "userid list"

text \<open>The Prisma \<open>Game\<close> row: the fields of \<open>GameDto\<close>
  (\<open>game/dto/game.dto.ts\<close>) plus the names and sockets \<open>createGame\<close> stores.
  Nullable columns are options.\<close>

record game =
  game_id :: gid
  gameMode :: "string option"
  leftPlayerId :: authid
  rightPlayerId :: authid
  leftPlayerName :: "string option"
  rightPlayerName :: "string option"
  leftPlayerSocket :: "sid option"
  rightPlayerSocket :: "sid option"
  scoreLeftPlayer :: int
  scoreRightPlayer :: int
  winnerId :: "authid option"
  loserId :: "authid option"
  isFinished :: bool
  hasLeft :: bool
  leftPlayerMap :: bool
  rightPlayerMap :: bool
  leftPlayerMode :: "string option"
  rightPlayerMode :: "string option"
  initialBallSpeed :: "int option"

text \<open>The store: the two tables, the next \<open>autoincrement\<close> game id, and the
  self-relation \<open>friends\<close> of the user table as (user, friend) pairs of user
  ids, the user having added the friend (its inverse is \<open>friendsRelation\<close>).\<close>

record db =
  users :: "user list"
  games :: "game list"
  next_gid :: gid
  friends :: "(userid \<times> userid) list"

subsection \<open>Prisma primitives\<close>

text \<open>\<open>update({where, data})\<close>: \<open>None\<close> is the exception for a missing row.\<close>

definition upd_user :: "(user \<Rightarrow> bool) \<Rightarrow> (user \<Rightarrow> user) \<Rightarrow> db \<Rightarrow> db option" where
  "upd_user P f d =
     (if list_ex P (users d) then Some (d\<lparr>users := map (\<lambda>u. if P u then f u else u) (users d)\<rparr>)
      else None)"

definition upd_game :: "gid \<Rightarrow> (game \<Rightarrow> game) \<Rightarrow> db \<Rightarrow> db option" where
  "upd_game i f d =
     (if list_ex (\<lambda>g. game_id g = i) (games d)
      then Some (d\<lparr>games := map (\<lambda>g. if game_id g = i then f g else g) (games d)\<rparr>)
      else None)"

text \<open>A caught exception leaves the store as it was.\<close>

definition caught :: "db option \<Rightarrow> db \<Rightarrow> db" where
  "caught r d = (case r of None \<Rightarrow> d | Some d' \<Rightarrow> d')"

subsection \<open>UserService\<close>

definition getUserById :: "db \<Rightarrow> userid \<Rightarrow> user option" where
  "getUserById d i = find (\<lambda>u. u_id u = i) (users d)"

definition getUserByAuthId :: "db \<Rightarrow> authid \<Rightarrow> user option" where
  "getUserByAuthId d a = find (\<lambda>u. u_authId u = a) (users d)"

definition getUserNameByAuthId :: "db \<Rightarrow> authid \<Rightarrow> string option" where
  "getUserNameByAuthId d a = map_option u_username (getUserByAuthId d a)"

definition checkStatus :: "db \<Rightarrow> authid \<Rightarrow> status option" where
  "checkStatus d a = map_option u_status (getUserByAuthId d a)"

definition setStatus :: "db \<Rightarrow> userid \<Rightarrow> status \<Rightarrow> db" where
  "setStatus d i s = caught (upd_user (\<lambda>u. u_id u = i) (\<lambda>u. u\<lparr>u_status := s\<rparr>) d) d"

definition setStatusWithauthId :: "db \<Rightarrow> authid \<Rightarrow> status \<Rightarrow> db" where
  "setStatusWithauthId d a s = caught (upd_user (\<lambda>u. u_authId u = a) (\<lambda>u. u\<lparr>u_status := s\<rparr>) d) d"

text \<open>\<open>addWin\<close>/\<open>addLose\<close> read the row, add one and write the column back;
  a missing row is a \<open>TypeError\<close> that the method catches.\<close>

definition addWin :: "db \<Rightarrow> authid \<Rightarrow> db" where
  "addWin d a =
     (case getUserByAuthId d a of
        None \<Rightarrow> d
      | Some u \<Rightarrow> caught (upd_user (\<lambda>v. u_authId v = a) (\<lambda>v. v\<lparr>wins := wins u + 1\<rparr>) d) d)"

definition addLose :: "db \<Rightarrow> authid \<Rightarrow> db" where
  "addLose d a =
     (case getUserByAuthId d a of
        None \<Rightarrow> d
      | Some u \<Rightarrow> caught (upd_user (\<lambda>v. u_authId v = a) (\<lambda>v. v\<lparr>loses := loses u + 1\<rparr>) d) d)"

subsection \<open>GameService\<close>

definition createGame ::
  "db \<Rightarrow> string option \<Rightarrow> string option \<Rightarrow> sid option \<Rightarrow> sid option \<Rightarrow> authid \<Rightarrow> authid \<Rightarrow> db \<times> game"
where
  "createGame d nameLP nameRP socketLP socketRP authIdLP authIdRP =
     (let g = \<lparr>game_id = next_gid d, gameMode = None,
               leftPlayerId = authIdLP, rightPlayerId = authIdRP,
               leftPlayerName = nameLP, rightPlayerName = nameRP,
               leftPlayerSocket = socketLP, rightPlayerSocket = socketRP,
               scoreLeftPlayer = 0, scoreRightPlayer = 0,
               winnerId = None, loserId = None, isFinished = False, hasLeft = False,
               leftPlayerMap = False, rightPlayerMap = False,
               leftPlayerMode = None, rightPlayerMode = None, initialBallSpeed = None\<rparr>
      in (d\<lparr>games := games d @ [g], next_gid := Suc (next_gid d)\<rparr>, g))"

definition getGameById :: "db \<Rightarrow> gid \<Rightarrow> game option" where
  "getGameById d i = find (\<lambda>g. game_id g = i) (games d)"

definition findLastGame :: "db \<Rightarrow> authid \<Rightarrow> game option" where
  "findLastGame d a = last_opt (filter (\<lambda>g. leftPlayerId g = a \<or> rightPlayerId g = a) (games d))"

definition updateGameDB :: "db \<Rightarrow> gid \<Rightarrow> game \<Rightarrow> db \<times> game option" where
  "updateGameDB d i g =
     (case upd_game i (\<lambda>_. g) d of None \<Rightarrow> (d, None) | Some d' \<Rightarrow> (d', Some g))"

definition updateScore :: "db \<Rightarrow> gid \<Rightarrow> int \<Rightarrow> int \<Rightarrow> int \<Rightarrow> db" where
  "updateScore d i scoreLP scoreRP limit =
     (if scoreRP > limit \<or> scoreLP > limit then d
      else case getGameById d i of
        None \<Rightarrow> d
      | Some g \<Rightarrow> fst (updateGameDB d i (g\<lparr>scoreLeftPlayer := scoreLP, scoreRightPlayer := scoreRP\<rparr>)))"

definition endMatchByScore :: "db \<Rightarrow> gid \<Rightarrow> int \<Rightarrow> int \<Rightarrow> int \<Rightarrow> db \<times> game option" where
  "endMatchByScore d i scoreLP scoreRP scoreLimit =
     (case getGameById d i of
        None \<Rightarrow> (d, None)
      | Some g \<Rightarrow>
          (if scoreLP = scoreLimit then
             let g' = g\<lparr>winnerId := Some (leftPlayerId g), loserId := Some (rightPlayerId g),
                        isFinished := True\<rparr>
             in (fst (updateGameDB d i g'), Some g')
           else if scoreRP = scoreLimit then
             let g' = g\<lparr>winnerId := Some (rightPlayerId g), loserId := Some (leftPlayerId g),
                        isFinished := True\<rparr>
             in (fst (updateGameDB d i g'), Some g')
           else (d, Some g)))"

definition endMatchWinner :: "db \<Rightarrow> authid \<Rightarrow> gid \<Rightarrow> db" where
  "endMatchWinner d w i =
     (case getGameById d i of
        None \<Rightarrow> d
      | Some g \<Rightarrow>
          let g' = g\<lparr>winnerId := Some w, hasLeft := True, isFinished := True\<rparr>
          in fst (updateGameDB (addWin d w) i g'))"

definition endMatchLoser :: "db \<Rightarrow> authid \<Rightarrow> gid \<Rightarrow> db" where
  "endMatchLoser d l i =
     (case getGameById d i of
        None \<Rightarrow> d
      | Some g \<Rightarrow>
          let g' = g\<lparr>loserId := Some l, hasLeft := True, isFinished := True\<rparr>
          in fst (updateGameDB (addLose d l) i g'))"

text \<open>\<open>handleLeave(game, payload)\<close>: \<open>game\<close> is the row the caller read,
  \<open>a\<close> the leaver's auth id and \<open>i\<close> the game id of the payload.\<close>

definition handleLeave :: "db \<Rightarrow> game \<Rightarrow> authid \<Rightarrow> gid \<Rightarrow> db" where
  "handleLeave d g a i =
     (if winnerId g = None \<and> loserId g = None then
        (if leftPlayerId g = a then endMatchLoser (endMatchWinner d (rightPlayerId g) i) a i
         else if rightPlayerId g = a then endMatchLoser (endMatchWinner d (leftPlayerId g) i) a i
         else d)
      else d)"

definition gameFinished :: "db \<Rightarrow> gid \<Rightarrow> db" where
  "gameFinished d i = caught (upd_game i (\<lambda>g. g\<lparr>isFinished := True\<rparr>) d) d"

definition checkDuplicateUser :: "(sid \<times> authid) list \<Rightarrow> authid \<Rightarrow> bool" where
  "checkDuplicateUser players a = (2 \<le> length (filter (\<lambda>v. v = a) (map snd players)))"

subsection \<open>Observations\<close>

text \<open>Win and loss counters of an identity, 0 when it has no row.\<close>

definition wins_of :: "db \<Rightarrow> authid \<Rightarrow> nat" where
  "wins_of d a = (case getUserByAuthId d a of None \<Rightarrow> 0 | Some u \<Rightarrow> wins u)"

definition loses_of :: "db \<Rightarrow> authid \<Rightarrow> nat" where
  "loses_of d a = (case getUserByAuthId d a of None \<Rightarrow> 0 | Some u \<Rightarrow> loses u)"

text \<open>Well-formed store: game ids are unique and below the id counter.\<close>

definition db_wf :: "db \<Rightarrow> bool" where
  "db_wf d \<longleftrightarrow> distinct (map game_id (games d)) \<and> (\<forall>g\<in>set (games d). game_id g < next_gid d)"

text \<open>The other player of a game, for the statements about a player who leaves.\<close>

definition opponent :: "game \<Rightarrow> authid \<Rightarrow> authid" where
  "opponent g a = (if a = leftPlayerId g then rightPlayerId g else leftPlayerId g)"

subsection \<open>A sample store\<close>

text \<open>Two users and the open game between them, used to evaluate the
  theorems below on a concrete store.\<close>

definition demo_game :: game where
  "demo_game = \<lparr>game_id = 7, gameMode = None, leftPlayerId = 101, rightPlayerId = 102,
     leftPlayerName = Some ''alice'', rightPlayerName = Some ''bob'',
     leftPlayerSocket = Some ''s1'', rightPlayerSocket = Some ''s2'',
     scoreLeftPlayer = 0, scoreRightPlayer = 0, winnerId = None, loserId = None,
     isFinished = False, hasLeft = False, leftPlayerMap = False, rightPlayerMap = False,
     leftPlayerMode = None, rightPlayerMode = None, initialBallSpeed = None\<rparr>"

definition demo_db :: db where
  "demo_db = \<lparr>users =
      [\<lparr>u_id = 1, u_authId = 101, u_username = ''alice'', u_status = INGAME,
         wins = 0, loses = 0, usersBlocked = []\<rparr>,
       \<lparr>u_id = 2, u_authId = 102, u_username = ''bob'', u_status = INGAME,
         wins = 0, loses = 0, usersBlocked = []\<rparr>],
     games = [demo_game], next_gid = 2, friends = []\<rparr>"

subsection \<open>Store lemmas\<close>

lemma caught_simps [simp]: "caught None d = d" "caught (Some d') d = d'"
  by (simp_all add: caught_def)

lemma getGameById_Some_id: "getGameById d i = Some g \<Longrightarrow> game_id g = i \<and> g \<in> set (games d)"
  by (auto simp: getGameById_def find_Some_iff)

lemma getUserByAuthId_Some_id: "getUserByAuthId d a = Some u \<Longrightarrow> u_authId u = a \<and> u \<in> set (users d)"
  by (auto simp: getUserByAuthId_def find_Some_iff)

text \<open>Updates of one table leave the other alone.\<close>

lemma upd_game_frame:
  "caught (upd_game i f d) d = d\<lparr>games := games (caught (upd_game i f d) d)\<rparr>"
  by (simp add: upd_game_def)

lemma upd_user_frame:
  "caught (upd_user P f d) d = d\<lparr>users := users (caught (upd_user P f d) d)\<rparr>"
  by (simp add: upd_user_def)

lemma users_caught_upd_game [simp]: "users (caught (upd_game i f d) d) = users d"
  by (simp add: upd_game_def)

lemma next_gid_caught_upd_game [simp]: "next_gid (caught (upd_game i f d) d) = next_gid d"
  by (simp add: upd_game_def)

lemma games_caught_upd_user [simp]: "games (caught (upd_user P f d) d) = games d"
  by (simp add: upd_user_def)

lemma next_gid_caught_upd_user [simp]: "next_gid (caught (upd_user P f d) d) = next_gid d"
  by (simp add: upd_user_def)

lemma getGameById_caught_upd_game [model_simps]:
  assumes "\<And>g. game_id g = i \<Longrightarrow> game_id (f g) = i"
  shows "getGameById (caught (upd_game i f d) d) j =
         (if j = i then map_option f (getGameById d i) else getGameById d j)"
  using assms by (auto simp: upd_game_def getGameById_def model_simps)

lemma getUserByAuthId_caught_upd_user [model_simps]:
  assumes "\<And>u. u_authId u = a \<Longrightarrow> u_authId (f u) = a"
  shows "getUserByAuthId (caught (upd_user (\<lambda>u. u_authId u = a) f d) d) b =
         (if b = a then map_option f (getUserByAuthId d a) else getUserByAuthId d b)"
  using assms by (auto simp: upd_user_def getUserByAuthId_def model_simps)

lemma fst_updateGameDB [simp]: "fst (updateGameDB d i g) = caught (upd_game i (\<lambda>_. g) d) d"
  by (simp add: updateGameDB_def split: option.split)

lemma users_fst_updateGameDB: "users (fst (updateGameDB d i g)) = users d"
  by simp

lemma games_addWin [simp]: "games (addWin d a) = games d"
  and games_addLose [simp]: "games (addLose d a) = games d"
  and next_gid_addWin [simp]: "next_gid (addWin d a) = next_gid d"
  and next_gid_addLose [simp]: "next_gid (addLose d a) = next_gid d"
  by (simp_all add: addWin_def addLose_def split: option.split)

lemma games_setStatus [simp]: "games (setStatus d i s) = games d"
  and games_setStatusWithauthId [simp]: "games (setStatusWithauthId d a s) = games d"
  and next_gid_setStatus [simp]: "next_gid (setStatus d i s) = next_gid d"
  and next_gid_setStatusWithauthId [simp]: "next_gid (setStatusWithauthId d a s) = next_gid d"
  by (simp_all add: setStatus_def setStatusWithauthId_def)

lemma getGameById_games_eq: "games d' = games d \<Longrightarrow> getGameById d' = getGameById d"
  by (simp add: getGameById_def fun_eq_iff)

lemma getUserByAuthId_users_eq: "users d' = users d \<Longrightarrow> getUserByAuthId d' = getUserByAuthId d"
  by (simp add: getUserByAuthId_def fun_eq_iff)

lemma counters_users_eq:
  "users d' = users d \<Longrightarrow> wins_of d' = wins_of d \<and> loses_of d' = loses_of d"
  by (simp add: wins_of_def loses_of_def getUserByAuthId_def fun_eq_iff)

text \<open>The counters move by exactly one, for the one identity.\<close>

lemma wins_of_addWin [model_simps]:
  "getUserByAuthId d a \<noteq> None \<Longrightarrow>
   wins_of (addWin d a) b = (if b = a then Suc (wins_of d a) else wins_of d b)"
  by (auto simp: addWin_def wins_of_def model_simps)

lemma loses_of_addWin [model_simps]: "loses_of (addWin d a) b = loses_of d b"
  by (auto simp: addWin_def loses_of_def model_simps split: option.split)

lemma loses_of_addLose [model_simps]:
  "getUserByAuthId d a \<noteq> None \<Longrightarrow>
   loses_of (addLose d a) b = (if b = a then Suc (loses_of d a) else loses_of d b)"
  by (auto simp: addLose_def loses_of_def model_simps)

lemma wins_of_addLose [model_simps]: "wins_of (addLose d a) b = wins_of d b"
  by (auto simp: addLose_def wins_of_def model_simps split: option.split)

lemma getUserByAuthId_addWin_None [simp]:
  "getUserByAuthId (addWin d a) b = None \<longleftrightarrow> getUserByAuthId d b = None"
  by (auto simp: addWin_def model_simps split: option.split)

lemma getUserByAuthId_addLose_None [simp]:
  "getUserByAuthId (addLose d a) b = None \<longleftrightarrow> getUserByAuthId d b = None"
  by (auto simp: addLose_def model_simps split: option.split)

lemma counters_caught_upd_game [simp]:
  "wins_of (caught (upd_game i f d) d) = wins_of d"
  "loses_of (caught (upd_game i f d) d) = loses_of d"
  using counters_users_eq [of "caught (upd_game i f d) d" d] by simp_all

lemma getUserByAuthId_caught_upd_game [simp]:
  "getUserByAuthId (caught (upd_game i f d) d) = getUserByAuthId d"
  by (rule getUserByAuthId_users_eq) simp

lemma getGameById_addWin [simp]: "getGameById (addWin d a) = getGameById d"
  and getGameById_addLose [simp]: "getGameById (addLose d a) = getGameById d"
  by (rule getGameById_games_eq, simp)+

lemma endMatchWinner_effect:
  assumes "getGameById d i = Some g"
  shows "getGameById (endMatchWinner d w i) j =
           (if j = i then Some (g\<lparr>winnerId := Some w, hasLeft := True, isFinished := True\<rparr>)
            else getGameById d j)"
    and "users (endMatchWinner d w i) = users (addWin d w)"
  using assms getGameById_Some_id [OF assms]
  by (simp_all add: endMatchWinner_def model_simps)

lemma endMatchLoser_effect:
  assumes "getGameById d i = Some g"
  shows "getGameById (endMatchLoser d l i) j =
           (if j = i then Some (g\<lparr>loserId := Some l, hasLeft := True, isFinished := True\<rparr>)
            else getGameById d j)"
    and "users (endMatchLoser d l i) = users (addLose d l)"
  using assms getGameById_Some_id [OF assms]
  by (simp_all add: endMatchLoser_def model_simps)

lemma upd_game_idem:
  assumes "\<And>g. game_id (f g) = game_id g" "\<And>g. f (f g) = f g"
  shows "caught (upd_game i f (caught (upd_game i f d) d)) (caught (upd_game i f d) d) =
         caught (upd_game i f d) d"
proof (cases "list_ex (\<lambda>g. game_id g = i) (games d)")
  case True
  then obtain g where g: "g \<in> set (games d)" "game_id g = i" by (auto simp: list_ex_iff)
  then have "f g \<in> set (map (\<lambda>g. if game_id g = i then f g else g) (games d))" by force
  then have "list_ex (\<lambda>g. game_id g = i) (map (\<lambda>g. if game_id g = i then f g else g) (games d))"
    using g(2) assms(1) by (auto simp: list_ex_iff)
  with True show ?thesis
    by (simp add: upd_game_def comp_def assms)
next
  case False
  then show ?thesis by (simp add: upd_game_def)
qed

lemma demo_game_fields [simp]:
  "game_id demo_game = 7" "leftPlayerId demo_game = 101" "rightPlayerId demo_game = 102"
  "winnerId demo_game = None" "loserId demo_game = None"
  by (simp_all add: demo_game_def)

lemma demo_db_lookups [simp]:
  "getGameById demo_db 7 = Some demo_game"
  "getUserByAuthId demo_db 101 \<noteq> None" "getUserByAuthId demo_db 102 \<noteq> None"
  "wins_of demo_db 102 = 0" "loses_of demo_db 101 = 0"
  by (simp_all add: getGameById_def getUserByAuthId_def wins_of_def loses_of_def demo_db_def)

lemma getUserByAuthId_setStatus:
  "getUserByAuthId (setStatus d j s) a =
     map_option (\<lambda>u. if u_id u = j then u\<lparr>u_status := s\<rparr> else u) (getUserByAuthId d a)"
proof (cases "list_ex (\<lambda>u. u_id u = j) (users d)")
  case True
  then show ?thesis
    by (simp add: setStatus_def upd_user_def getUserByAuthId_def find_map_keep_key)
next
  case False
  then have "map_option (\<lambda>u. if u_id u = j then u\<lparr>u_status := s\<rparr> else u) (getUserByAuthId d a) = getUserByAuthId d a"
    by (cases "getUserByAuthId d a")
       (auto simp: getUserByAuthId_def list_ex_iff dest!: find_Some_iff [THEN iffD1] intro: nth_mem)
  with False show ?thesis
    by (simp add: setStatus_def upd_user_def)
qed

lemma getGameById_replace:
  assumes "getGameById d i = Some g" "game_id g' = game_id g"
  shows "getGameById (caught (upd_game i (\<lambda>_. g') d) d) i = Some g'"
  using assms getGameById_Some_id [OF assms(1)]
  by (simp add: getGameById_caught_upd_game)

lemma endMatchByScore_Some:
  assumes "getGameById d i = Some g"
  shows "endMatchByScore d i sl sr lmt =
     (if sl = lmt then
        (caught (upd_game i (\<lambda>_. g\<lparr>winnerId := Some (leftPlayerId g), loserId := Some (rightPlayerId g), isFinished := True\<rparr>) d) d,
         Some (g\<lparr>winnerId := Some (leftPlayerId g), loserId := Some (rightPlayerId g), isFinished := True\<rparr>))
      else if sr = lmt then
        (caught (upd_game i (\<lambda>_. g\<lparr>winnerId := Some (rightPlayerId g), loserId := Some (leftPlayerId g), isFinished := True\<rparr>) d) d,
         Some (g\<lparr>winnerId := Some (rightPlayerId g), loserId := Some (leftPlayerId g), isFinished := True\<rparr>))
      else (d, Some g))"
  using assms by (simp add: endMatchByScore_def Let_def)

lemma checkStatus_setStatusWithauthId:
  "checkStatus (setStatusWithauthId d a s) b =
     (if b = a then map_option (\<lambda>_. s) (getUserByAuthId d a) else checkStatus d b)"
  by (simp add: setStatusWithauthId_def checkStatus_def model_simps option.map_comp comp_def)

subsection \<open>Properties of the game service\<close>

text \<open>C2 (forfeit correctness): when a player of an undecided game leaves,
  \<open>handleLeave\<close> stores the other player as winner and the leaver as loser,
  sets \<open>hasLeft\<close> and \<open>isFinished\<close>, and adds exactly one win to the other
  player and exactly one loss to the leaver; no other counter moves.\<close>

theorem handleLeave_forfeit:
  assumes g: "getGameById d i = Some g"
    and open_game: "winnerId g = None" "loserId g = None"
    and player: "a = leftPlayerId g \<or> a = rightPlayerId g"
    and two: "leftPlayerId g \<noteq> rightPlayerId g"
    and rows: "getUserByAuthId d (leftPlayerId g) \<noteq> None" "getUserByAuthId d (rightPlayerId g) \<noteq> None"
  shows "getGameById (handleLeave d g a i) i =
           Some (g\<lparr>winnerId := Some (opponent g a), loserId := Some a, hasLeft := True, isFinished := True\<rparr>)
       \<and> wins_of (handleLeave d g a i) = (wins_of d)(opponent g a := Suc (wins_of d (opponent g a)))
       \<and> loses_of (handleLeave d g a i) = (loses_of d)(a := Suc (loses_of d a))"
proof -
  define w where "w = opponent g a"
  define d1 where "d1 = endMatchWinner d w i"
  have leave: "handleLeave d g a i = endMatchLoser d1 a i"
    using player open_game by (auto simp: handleLeave_def d1_def w_def opponent_def)
  have g1: "getGameById d1 i = Some (g\<lparr>winnerId := Some w, hasLeft := True, isFinished := True\<rparr>)"
    using endMatchWinner_effect(1) [OF g, of w i] by (simp add: d1_def)
  have ua: "getUserByAuthId d a \<noteq> None" and uw: "getUserByAuthId d w \<noteq> None"
    using player rows by (auto simp: w_def opponent_def)
  have wa: "w \<noteq> a" using player two by (auto simp: w_def opponent_def)
  have u1: "users d1 = users (addWin d w)"
    using endMatchWinner_effect(2) [OF g] by (simp add: d1_def)
  have c1: "wins_of d1 = wins_of (addWin d w)" "loses_of d1 = loses_of (addWin d w)"
    using counters_users_eq [OF u1] by simp_all
  have ua1: "getUserByAuthId d1 a \<noteq> None"
    using ua getUserByAuthId_users_eq [OF u1] by simp
  have u2: "users (endMatchLoser d1 a i) = users (addLose d1 a)"
    using endMatchLoser_effect(2) [OF g1] .
  have c2: "wins_of (endMatchLoser d1 a i) = wins_of (addLose d1 a)"
           "loses_of (endMatchLoser d1 a i) = loses_of (addLose d1 a)"
    using counters_users_eq [OF u2] by simp_all
  show ?thesis
    unfolding leave
    using endMatchLoser_effect(1) [OF g1, of a i] c1 c2 ua1 uw wa
    by (auto simp: fun_eq_iff model_simps w_def)
qed


theorem handleLeave_forfeit_witness:
  "getGameById (handleLeave demo_db demo_game 101 7) 7 =
     Some (demo_game\<lparr>winnerId := Some 102, loserId := Some 101, hasLeft := True, isFinished := True\<rparr>)
   \<and> wins_of (handleLeave demo_db demo_game 101 7) 102 = 1
   \<and> loses_of (handleLeave demo_db demo_game 101 7) 101 = 1"
  using handleLeave_forfeit [of demo_db 7 demo_game 101] by (simp add: opponent_def)

text \<open>C3 (score-limit ending): when one side's score equals the limit,
  \<open>endMatchByScore\<close> stores and returns the game with that side as winner, the
  other as loser and \<open>isFinished\<close> set; the left side wins when both are at
  the limit; the user table is untouched (the counters are not moved here).\<close>

theorem endMatchByScore_outcome:
  assumes g: "getGameById d i = Some g" and reached: "scoreLP = scoreLimit \<or> scoreRP = scoreLimit"
  shows "snd (endMatchByScore d i scoreLP scoreRP scoreLimit) =
           Some (g\<lparr>winnerId := Some (if scoreLP = scoreLimit then leftPlayerId g else rightPlayerId g),
                   loserId := Some (if scoreLP = scoreLimit then rightPlayerId g else leftPlayerId g),
                   isFinished := True\<rparr>)
       \<and> getGameById (fst (endMatchByScore d i scoreLP scoreRP scoreLimit)) i =
           snd (endMatchByScore d i scoreLP scoreRP scoreLimit)
       \<and> users (fst (endMatchByScore d i scoreLP scoreRP scoreLimit)) = users d"
  using g reached getGameById_Some_id [OF g]
  by (auto simp: endMatchByScore_def Let_def model_simps)

theorem endMatchByScore_outcome_witness:
  "snd (endMatchByScore demo_db 7 5 3 5) =
     Some (demo_game\<lparr>winnerId := Some 101, loserId := Some 102, isFinished := True\<rparr>)"
  using endMatchByScore_outcome [of demo_db 7 demo_game 5 5 3] by simp

text \<open>(idempotent finish): \<open>gameFinished\<close> only sets \<open>isFinished\<close> on the
  one game, never touches the user table, and a second call changes nothing.\<close>

theorem gameFinished_idempotent:
  "gameFinished (gameFinished d i) i = gameFinished d i
   \<and> users (gameFinished d i) = users d
   \<and> getGameById (gameFinished d i) j =
        (if j = i then map_option (\<lambda>g. g\<lparr>isFinished := True\<rparr>) (getGameById d i) else getGameById d j)"
proof -
  have "gameFinished (gameFinished d i) i = gameFinished d i"
    unfolding gameFinished_def by (rule upd_game_idem) simp_all
  moreover have "users (gameFinished d i) = users d"
    by (simp add: gameFinished_def)
  moreover have "getGameById (gameFinished d i) j =
        (if j = i then map_option (\<lambda>g. g\<lparr>isFinished := True\<rparr>) (getGameById d i) else getGameById d j)"
    unfolding gameFinished_def by (rule getGameById_caught_upd_game) simp
  ultimately show ?thesis by blast
qed

text \<open>C4 (score write-back bound): the deferred \<open>updateScore\<close> never stores a
  score above the limit it is given: a store whose scores are within the limit
  stays so.\<close>

theorem updateScore_within_limit:
  assumes "\<forall>g\<in>set (games d). scoreLeftPlayer g \<le> limit \<and> scoreRightPlayer g \<le> limit"
  shows "\<forall>g\<in>set (games (updateScore d i scoreLP scoreRP limit)).
           scoreLeftPlayer g \<le> limit \<and> scoreRightPlayer g \<le> limit"
  using assms
  by (auto simp: updateScore_def upd_game_def split: option.split)

theorem updateScore_within_limit_witness:
  "list_all (\<lambda>g. scoreLeftPlayer g \<le> 5 \<and> scoreRightPlayer g \<le> 5)
     (games (updateScore demo_db 7 4 2 5))"
proof -
  have "\<forall>g\<in>set (games demo_db). scoreLeftPlayer g \<le> 5 \<and> scoreRightPlayer g \<le> 5"
    by (simp add: demo_db_def demo_game_def)
  then show ?thesis
    using updateScore_within_limit [of demo_db 5 7 4 2] by (simp add: list_all_iff)
qed

end
