(* ===== verification/Physics.thy ===== *)
theory Physics
  imports Prelude
begin

text \<open>
  The simulation part of \<open>src/app/backend/src/game/game.gateway.ts\<close>: the
  pure computations of the handlers \<open>paddleMove\<close> and \<open>ballMove\<close>, the helper
  \<open>reset\<close>, and \<open>generateRandomBallDirection\<close> with \<open>randomNumberBetween\<close>.
  The server does not tick: every \<open>ballMove\<close> message carries the client's
  whole snapshot (the \<open>allVar\<close> object of \<open>Pong.tsx\<close>), the server runs one
  step on it and broadcasts the result.  JavaScript numbers are modelled as
  exact reals (floating-point rounding is not modelled); the ball speed stays
  an integer in the code (it starts at 40 or 50 and grows by multiples of 15),
  so it is an \<open>int\<close>.  \<open>Math.random()\<close> is an explicit list of draws in
  \<open>[0, 1)\<close>: the rejection loop consumes them one by one and returns
  \<open>None\<close> when they run out before a draw is accepted.
\<close>

subsection \<open>The client snapshot\<close>

text \<open>The \<open>GameStatus\<close> enum of the gateway (codes 0 to 6).\<close>

datatype gameStatus = MAP | INIT | PLAY | WIN | LOSE | LEAVE | FINISHED

text \<open>The fields of the client's \<open>allVar\<close> object the server reads or writes.\<close>

record gamedata =
  gd_gameId :: gid
  gd_leftPlayerId :: authid
  key :: string
  gd_gameStatus :: gameStatus
  width :: real
  height :: real
  paddleW :: real
  paddleH :: real
  leftPaddleX :: real
  leftPaddleY :: real
  rightPaddleX :: real
  rightPaddleY :: real
  ballX :: real
  ballY :: real
  ballRadius :: real
  ballDirection :: "real \<times> real"
  ballSpeed :: int
  ballVelocity :: real
  gd_scoreLeftPlayer :: int
  gd_scoreRightPlayer :: int
  scoreLimit :: int

subsection \<open>Paddles\<close>

definition is_up_key :: "string \<Rightarrow> bool" where
  "is_up_key k \<longleftrightarrow> k = ''ArrowUp'' \<or> k = ''w'' \<or> k = ''W'' \<or> k = ''z'' \<or> k = ''Z''"

definition is_down_key :: "string \<Rightarrow> bool" where
  "is_down_key k \<longleftrightarrow> k = ''ArrowDown'' \<or> k = ''s'' \<or> k = ''S''"

text \<open>The two key branches of \<open>handlePaddleMovement\<close>, each with its clamp.
  \<open>player\<close> is the second argument of the message, the sender's auth id.\<close>

definition paddle_up :: "authid \<Rightarrow> gamedata \<Rightarrow> gamedata" where
  "paddle_up player p =
     (let p1 = (if player = gd_leftPlayerId p then p\<lparr>leftPaddleY := leftPaddleY p - 10\<rparr>
                else p\<lparr>rightPaddleY := rightPaddleY p - 10\<rparr>)
      in if leftPaddleY p1 < 0 then p1\<lparr>leftPaddleY := 0\<rparr>
         else if rightPaddleY p1 < 0 then p1\<lparr>rightPaddleY := 0\<rparr>
         else p1)"

definition paddle_down :: "authid \<Rightarrow> gamedata \<Rightarrow> gamedata" where
  "paddle_down player p =
     (let p1 = (if player = gd_leftPlayerId p then p\<lparr>leftPaddleY := leftPaddleY p + 10\<rparr>
                else p\<lparr>rightPaddleY := rightPaddleY p + 10\<rparr>)
      in if paddleH p1 + leftPaddleY p1 > height p1 then p1\<lparr>leftPaddleY := height p1 - paddleH p1\<rparr>
         else if paddleH p1 + rightPaddleY p1 > height p1 then p1\<lparr>rightPaddleY := height p1 - paddleH p1\<rparr>
         else p1)"

definition movePaddle :: "authid \<Rightarrow> gamedata \<Rightarrow> gamedata" where
  "movePaddle player p =
     (let p1 = (if is_up_key (key p) then paddle_up player p else p)
      in if is_down_key (key p1) then paddle_down player p1 else p1)"

subsection \<open>The ball\<close>

text \<open>\<open>15 * Math.round(Math.sqrt(ballSpeed / 40))\<close>; \<open>Math.round\<close> rounds
  halves up, as \<open>round\<close> does.\<close>

definition speed_gain :: "int \<Rightarrow> int" where
  "speed_gain s = 15 * round (sqrt (real_of_int s / 40))"

definition hits_wall :: "gamedata \<Rightarrow> bool" where
  "hits_wall gd \<longleftrightarrow> ballY gd - ballRadius gd < 0 \<or> ballY gd + ballRadius gd > height gd"

definition hits_left_paddle :: "gamedata \<Rightarrow> bool" where
  "hits_left_paddle gd \<longleftrightarrow>
     ballX gd - ballRadius gd < leftPaddleX gd + paddleW gd \<and>
     ballY gd + ballRadius gd > leftPaddleY gd \<and>
     ballY gd - ballRadius gd < leftPaddleY gd + paddleH gd \<and>
     fst (ballDirection gd) < 0"

definition hits_right_paddle :: "gamedata \<Rightarrow> bool" where
  "hits_right_paddle gd \<longleftrightarrow>
     ballX gd + ballRadius gd > rightPaddleX gd \<and>
     ballY gd + ballRadius gd > rightPaddleY gd \<and>
     ballY gd - ballRadius gd < rightPaddleY gd + paddleH gd \<and>
     fst (ballDirection gd) > 0"

text \<open>The body shared by both paddle branches, for the paddle at height \<open>py\<close>.\<close>

definition paddle_bounce :: "real \<Rightarrow> gamedata \<Rightarrow> gamedata" where
  "paddle_bounce py gd =
     (let dx = fst (ballDirection gd); dy = snd (ballDirection gd);
          dy' = (if ballY gd < py + 5 \<and> dy > 0 then - dy
                 else if ballY gd > py + paddleH gd - 5 \<and> dy < 0 then - dy
                 else dy)
      in gd\<lparr>ballDirection := (- dx, dy'), ballSpeed := ballSpeed gd + speed_gain (ballSpeed gd)\<rparr>)"

text \<open>The collision chain at the start of \<open>ballMove\<close>: wall, left paddle, right paddle.\<close>

definition collide :: "gamedata \<Rightarrow> gamedata" where
  "collide gd =
     (if hits_wall gd then gd\<lparr>ballDirection := (fst (ballDirection gd), - snd (ballDirection gd))\<rparr>
      else if hits_left_paddle gd then paddle_bounce (leftPaddleY gd) gd
      else if hits_right_paddle gd then paddle_bounce (rightPaddleY gd) gd
      else gd)"

definition limit_reached :: "gamedata \<Rightarrow> bool" where
  "limit_reached gd \<longleftrightarrow> gd_scoreLeftPlayer gd = scoreLimit gd \<or> gd_scoreRightPlayer gd = scoreLimit gd"

definition ball_out :: "gamedata \<Rightarrow> bool" where
  "ball_out gd \<longleftrightarrow> ballX gd + ballRadius gd > width gd \<or> ballX gd - ballRadius gd < 0"

definition reset :: "gamedata \<Rightarrow> gamedata" where
  "reset gd = gd\<lparr>ballX := width gd / 2, ballY := height gd / 2, ballDirection := (0, 0)\<rparr>"

text \<open>The scoring branch of \<open>ballMove\<close>: one point, speed back to the
  game's initial speed \<open>s0\<close>, ball back to the centre.\<close>

definition score_point :: "int \<Rightarrow> gamedata \<Rightarrow> gamedata" where
  "score_point s0 gd =
     (let gd1 = (if ballX gd + ballRadius gd > width gd
                 then gd\<lparr>gd_scoreLeftPlayer := gd_scoreLeftPlayer gd + 1\<rparr>
                 else if ballX gd - ballRadius gd < 0
                 then gd\<lparr>gd_scoreRightPlayer := gd_scoreRightPlayer gd + 1\<rparr>
                 else gd)
      in reset (gd1\<lparr>ballSpeed := s0\<rparr>))"

text \<open>The last branch of \<open>ballMove\<close>: one frame of motion.\<close>

definition advance :: "gamedata \<Rightarrow> gamedata" where
  "advance gd =
     (let v = 0.125 * real_of_int (ballSpeed gd)
      in gd\<lparr>ballVelocity := v, ballX := ballX gd + fst (ballDirection gd) * v,
            ballY := ballY gd + snd (ballDirection gd) * v\<rparr>)"

subsection \<open>The initial direction\<close>

text \<open>\<open>randomNumberBetween(min, max)\<close> with the draw \<open>r\<close> of \<open>Math.random()\<close>.\<close>

definition randomNumberBetween :: "real \<Rightarrow> real \<Rightarrow> real \<Rightarrow> real" where
  "randomNumberBetween r lo hi = real_of_int \<lfloor>r * (hi - lo)\<rfloor> + lo"

definition dir_of_draw :: "real \<Rightarrow> real \<times> real" where
  "dir_of_draw r = (let a = randomNumberBetween r 0 (2 * pi) in (cos a, sin a))"

text \<open>The guard of the \<open>while\<close> loop: the direction is rejected.\<close>

definition rejected :: "real \<times> real \<Rightarrow> bool" where
  "rejected d \<longleftrightarrow> \<bar>fst d\<bar> \<le> 0.2 \<or> \<bar>fst d\<bar> \<ge> 0.9"

fun gen_dir_loop :: "real list \<Rightarrow> real \<times> real \<Rightarrow> (real \<times> real) option" where
  "gen_dir_loop [] d = (if rejected d then None else Some d)"
| "gen_dir_loop (r # rs) d = (if rejected d then gen_dir_loop rs (dir_of_draw r) else Some d)"

definition generateRandomBallDirection :: "real list \<Rightarrow> (real \<times> real) option" where
  "generateRandomBallDirection rs = gen_dir_loop rs (0, 0)"

definition paddle_ok :: "gamedata \<Rightarrow> bool" where
  "paddle_ok p \<longleftrightarrow> 0 \<le> paddleH p \<and> paddleH p \<le> height p \<and>
     0 \<le> leftPaddleY p \<and> leftPaddleY p \<le> height p - paddleH p \<and>
     0 \<le> rightPaddleY p \<and> rightPaddleY p \<le> height p - paddleH p"

definition clamp_paddle :: "gamedata \<Rightarrow> real \<Rightarrow> real" where
  "clamp_paddle p y = max 0 (min (height p - paddleH p) y)"

definition paddle_delta :: "string \<Rightarrow> real" where
  "paddle_delta k = (if is_up_key k then -10 else if is_down_key k then 10 else 0)"

definition demo_ball :: gamedata where
  "demo_ball = \<lparr>gd_gameId = 7, gd_leftPlayerId = 101, key = [], gd_gameStatus = PLAY,
     width = 800, height = 600, paddleW = 18, paddleH = 110,
     leftPaddleX = 7, leftPaddleY = 245, rightPaddleX = 775, rightPaddleY = 245,
     ballX = 30, ballY = 247, ballRadius = 10, ballDirection = (-3/5, 4/5),
     ballSpeed = 40, ballVelocity = 0, gd_scoreLeftPlayer = 0, gd_scoreRightPlayer = 0,
     scoreLimit = 5\<rparr>"

lemma up_not_down: "is_up_key k \<Longrightarrow> \<not> is_down_key k"
  by (auto simp: is_up_key_def is_down_key_def)

text \<open>C36 (paddle movement refines a clamped step): on a snapshot whose paddles lie in [0, height - paddleH], a paddleMove moves the sender's paddle by -10 for an up key and +10 for a down key, clamped to that interval, and leaves the other paddle alone; every sender that is not the left player moves the right paddle.\<close>

theorem movePaddle_spec:
  assumes "paddle_ok p"
  shows "movePaddle player p =
           (if player = gd_leftPlayerId p
            then p\<lparr>leftPaddleY := clamp_paddle p (leftPaddleY p + paddle_delta (key p))\<rparr>
            else p\<lparr>rightPaddleY := clamp_paddle p (rightPaddleY p + paddle_delta (key p))\<rparr>)"
  using assms up_not_down [of "key p"]
  by (auto simp: movePaddle_def paddle_up_def paddle_down_def paddle_ok_def clamp_paddle_def
      paddle_delta_def Let_def)

text \<open>(paddle bounds invariant): paddleMove keeps both paddles within [0, height - paddleH].\<close>

theorem movePaddle_bounds:
  "paddle_ok p \<Longrightarrow> paddle_ok (movePaddle player p)"
  by (simp add: movePaddle_spec) (auto simp: paddle_ok_def clamp_paddle_def)

lemma speed_gain_nonneg: "0 \<le> s \<Longrightarrow> 0 \<le> speed_gain s"
proof -
  assume "0 \<le> s"
  then have "round (0::real) \<le> round (sqrt (real_of_int s / 40))"
    by (intro round_mono) simp
  then show ?thesis by (simp add: speed_gain_def)
qed

lemma speed_gain_ge_15: "10 \<le> s \<Longrightarrow> 15 \<le> speed_gain s"
proof -
  assume s: "10 \<le> s"
  have "sqrt (1/4) \<le> sqrt (real_of_int s / 40)"
    using s by (subst real_sqrt_le_iff) simp
  moreover have "sqrt (1/4 :: real) = 1/2"
    by (simp add: real_sqrt_divide)
  ultimately have "round (1/2 :: real) \<le> round (sqrt (real_of_int s / 40))"
    by (intro round_mono) simp
  moreover have "round (1/2 :: real) = 1"
    by (simp add: round_def)
  ultimately show ?thesis by (simp add: speed_gain_def)
qed

lemma speed_gain_40: "speed_gain 40 = 15"
  by (simp add: speed_gain_def)

lemma collide_frame:
  "collide gd = gd\<lparr>ballDirection := ballDirection (collide gd), ballSpeed := ballSpeed (collide gd)\<rparr>"
  by (simp add: collide_def paddle_bounce_def Let_def)

text \<open>(collisions only reflect): the collision step of ballMove keeps the absolute value of both direction components (so a unit direction stays a unit direction), never lowers a non-negative speed, and changes nothing but the direction and the speed.\<close>

theorem collide_reflects:
  "\<bar>fst (ballDirection (collide gd))\<bar> = \<bar>fst (ballDirection gd)\<bar>
   \<and> \<bar>snd (ballDirection (collide gd))\<bar> = \<bar>snd (ballDirection gd)\<bar>
   \<and> (0 \<le> ballSpeed gd \<longrightarrow> ballSpeed gd \<le> ballSpeed (collide gd))
   \<and> collide gd = gd\<lparr>ballDirection := ballDirection (collide gd), ballSpeed := ballSpeed (collide gd)\<rparr>"
  using speed_gain_nonneg [of "ballSpeed gd"] collide_frame [of gd]
  by (auto simp: collide_def paddle_bounce_def Let_def)

text \<open>(edge hit, the scenario of the spec): a ball moving down onto the top 5 units of the left paddle bounces horizontally and vertically, and its speed grows by 15 * round(sqrt(speed / 40)).\<close>

theorem paddle_edge_hit:
  assumes "\<not> hits_wall gd" "hits_left_paddle gd"
    and "ballY gd < leftPaddleY gd + 5" "0 < snd (ballDirection gd)"
  shows "ballDirection (collide gd) = (- fst (ballDirection gd), - snd (ballDirection gd))
       \<and> ballSpeed (collide gd) = ballSpeed gd + speed_gain (ballSpeed gd)"
  using assms by (simp add: collide_def paddle_bounce_def Let_def)

text \<open>(speed grows on every paddle hit): a paddle hit adds 15 * round(sqrt(speed / 40)) to the speed, which is at least 15 once the speed is at least 10 (both initial speeds 40 and 50 are).\<close>

theorem paddle_hit_speed_increase:
  assumes "\<not> hits_wall gd" "hits_left_paddle gd \<or> hits_right_paddle gd" "10 \<le> ballSpeed gd"
  shows "ballSpeed (collide gd) = ballSpeed gd + speed_gain (ballSpeed gd)
       \<and> ballSpeed gd + 15 \<le> ballSpeed (collide gd)"
  using assms speed_gain_ge_15 [OF assms(3)]
  by (auto simp: collide_def paddle_bounce_def Let_def)

theorem paddle_hit_speed_increase_witness:
  "ballSpeed (collide (demo_ball\<lparr>ballSpeed := 55\<rparr>)) = 55 + speed_gain 55
   \<and> 70 \<le> ballSpeed (collide (demo_ball\<lparr>ballSpeed := 55\<rparr>))"
proof -
  have "\<not> hits_wall (demo_ball\<lparr>ballSpeed := 55\<rparr>)"
    "hits_left_paddle (demo_ball\<lparr>ballSpeed := 55\<rparr>) \<or> hits_right_paddle (demo_ball\<lparr>ballSpeed := 55\<rparr>)"
    "10 \<le> ballSpeed (demo_ball\<lparr>ballSpeed := 55\<rparr>)"
    by (simp_all add: demo_ball_def hits_wall_def hits_left_paddle_def)
  from paddle_hit_speed_increase [OF this] show ?thesis by simp
qed

theorem paddle_edge_hit_witness:
  "ballDirection (collide demo_ball) = (3/5, -4/5) \<and> ballSpeed (collide demo_ball) = 55"
proof -
  have "\<not> hits_wall demo_ball" "hits_left_paddle demo_ball"
    "ballY demo_ball < leftPaddleY demo_ball + 5" "0 < snd (ballDirection demo_ball)"
    by (simp_all add: demo_ball_def hits_wall_def hits_left_paddle_def)
  from paddle_edge_hit [OF this] show ?thesis
    by (simp add: demo_ball_def speed_gain_40)
qed

text \<open>(scoring): when the ball leaves the field, exactly one score grows by one (the left player's when the ball is out on the right), the ball returns to the centre with zero direction and the speed returns to the game's initial speed.\<close>

theorem score_point_spec:
  assumes "ball_out gd"
  shows "(gd_scoreLeftPlayer (score_point s0 gd), gd_scoreRightPlayer (score_point s0 gd)) =
           (if ballX gd + ballRadius gd > width gd
            then (gd_scoreLeftPlayer gd + 1, gd_scoreRightPlayer gd)
            else (gd_scoreLeftPlayer gd, gd_scoreRightPlayer gd + 1))
       \<and> ballX (score_point s0 gd) = width gd / 2 \<and> ballY (score_point s0 gd) = height gd / 2
       \<and> ballDirection (score_point s0 gd) = (0, 0) \<and> ballSpeed (score_point s0 gd) = s0"
  using assms by (auto simp: score_point_def reset_def ball_out_def Let_def)

lemma gen_dir_loop_Some:
  "gen_dir_loop rs d = Some d' \<Longrightarrow> \<not> rejected d' \<and> (d' = d \<or> (\<exists>r\<in>set rs. d' = dir_of_draw r))"
  by (induction rs d rule: gen_dir_loop.induct) (auto split: if_splits)

lemma rejected_origin: "rejected (0, 0)"
  by (simp add: rejected_def)

text \<open>(initial direction bounds): a direction returned by generateRandomBallDirection has 0.2 < |x| < 0.9 and x^2 + y^2 = 1.\<close>

theorem generateRandomBallDirection_bounds:
  assumes "generateRandomBallDirection rs = Some (x, y)"
  shows "0.2 < \<bar>x\<bar> \<and> \<bar>x\<bar> < 0.9 \<and> x\<^sup>2 + y\<^sup>2 = 1"
proof -
  from gen_dir_loop_Some [OF assms [unfolded generateRandomBallDirection_def]]
  obtain r where "\<not> rejected (x, y)" "(x, y) = dir_of_draw r"
    using rejected_origin by auto
  then show ?thesis
    by (auto simp: rejected_def dir_of_draw_def Let_def sin_cos_squared_add3 add.commute)
qed

lemma gen_dir_loop_find:
  "rejected d \<Longrightarrow> gen_dir_loop rs d = map_option dir_of_draw (find (\<lambda>r. \<not> rejected (dir_of_draw r)) rs)"
proof (induction rs arbitrary: d)
  case Nil
  then show ?case by simp
next
  case (Cons r rs)
  show ?case
  proof (cases "rejected (dir_of_draw r)")
    case True
    with Cons show ?thesis by simp
  next
    case False
    with Cons.prems show ?thesis by (cases rs) simp_all
  qed
qed

lemma accepted_band: "\<not> rejected d \<longleftrightarrow> 0.2 < \<bar>fst d\<bar> \<and> \<bar>fst d\<bar> < 0.9"
  by (auto simp: rejected_def)

text \<open>C37 (rejection loop): the loop starts from the rejected direction (0, 0), so it never returns without a draw; it returns the direction of the first draw whose x component has 0.2 < |x| < 0.9, and it returns exactly when the draws contain one.\<close>

theorem generateRandomBallDirection_first_accepted:
  "generateRandomBallDirection [] = None
   \<and> generateRandomBallDirection rs =
       map_option dir_of_draw (find (\<lambda>r. 0.2 < \<bar>fst (dir_of_draw r)\<bar> \<and> \<bar>fst (dir_of_draw r)\<bar> < 0.9) rs)
   \<and> (generateRandomBallDirection rs \<noteq> None \<longleftrightarrow>
        list_ex (\<lambda>r. 0.2 < \<bar>fst (dir_of_draw r)\<bar> \<and> \<bar>fst (dir_of_draw r)\<bar> < 0.9) rs)"
proof -
  have band: "(\<lambda>r. 0.2 < \<bar>fst (dir_of_draw r)\<bar> \<and> \<bar>fst (dir_of_draw r)\<bar> < 0.9) = (\<lambda>r. \<not> rejected (dir_of_draw r))"
    by (simp only: accepted_band)
  show ?thesis
    unfolding band using gen_dir_loop_find [OF rejected_origin, of rs]
    by (auto simp: generateRandomBallDirection_def rejected_origin list_ex_find)
qed

text \<open>C38 (integer angles): for a draw in [0, 1), the angle randomNumberBetween(0, 2*pi) is an integer between 0 and 7, because of Math.floor; the loop never samples a uniform angle.\<close>

theorem randomNumberBetween_integer_angle:
  assumes "0 \<le> r" "r < 1"
  shows "\<exists>k::int. 0 \<le> k \<and> k \<le> 7 \<and> randomNumberBetween r 0 (2 * pi) = of_int k"
proof -
  have "0 \<le> r * (2 * pi)" using assms by simp
  moreover have "r * (2 * pi) < 8"
  proof -
    have "r * (2 * pi) \<le> 1 * (2 * pi)" using assms by (intro mult_right_mono) simp_all
    also have "\<dots> < 8" using pi_less_4 by simp
    finally show ?thesis .
  qed
  ultimately show ?thesis
    by (intro exI [of _ "\<lfloor>r * (2 * pi)\<rfloor>"]) (auto simp: randomNumberBetween_def floor_less_iff)
qed

lemma cos_one_bounds: "1/2 \<le> cos (1::real) \<and> cos (1::real) < 3/4"
proof -
  have s: "(sin (1/2::real))\<^sup>2 \<le> 1/4"
  proof -
    have "\<bar>sin (1/2::real)\<bar> \<le> 1/2" using abs_sin_x_le_abs_x [of "1/2::real"] by simp
    then have "\<bar>sin (1/2::real)\<bar>\<^sup>2 \<le> (1/2)\<^sup>2" by (intro power_mono) simp_all
    then show ?thesis by (simp add: power2_eq_square)
  qed
  have c1: "cos (1::real) = 1 - 2 * (sin (1/2))\<^sup>2"
    using cos_double_sin [of "1/2::real"] by simp
  with s have lo: "1/2 \<le> cos (1::real)" by simp
  have "2 * (cos (1::real))\<^sup>2 - 1 < 0"
    using cos_double_cos [of "1::real"] cos_two_less_zero by simp
  then have "(cos (1::real))\<^sup>2 < (3/4)\<^sup>2" by (simp add: power2_eq_square)
  then have "cos (1::real) < 3/4"
    by (rule power_less_imp_less_base) simp
  with lo show ?thesis by simp
qed

lemma dir_of_draw_quarter: "dir_of_draw (1/4) = (cos 1, sin 1)"
proof -
  have "\<lfloor>1/4 * (2 * pi)\<rfloor> = (1::int)"
    using pi_ge_two pi_half_less_two by (simp add: floor_eq_iff)
  then show ?thesis by (simp add: dir_of_draw_def randomNumberBetween_def Let_def)
qed

lemma quarter_accepted: "\<not> rejected (dir_of_draw (1/4))"
  using cos_one_bounds by (simp add: dir_of_draw_quarter rejected_def)

lemma generateRandomBallDirection_quarter: "generateRandomBallDirection [1/4] = Some (cos 1, sin 1)"
  using quarter_accepted
  by (simp add: generateRandomBallDirection_def rejected_origin dir_of_draw_quarter)

theorem generateRandomBallDirection_bounds_witness:
  "0.2 < \<bar>cos (1::real)\<bar> \<and> \<bar>cos (1::real)\<bar> < 0.9 \<and> (cos (1::real))\<^sup>2 + (sin 1)\<^sup>2 = 1"
  using generateRandomBallDirection_bounds [OF generateRandomBallDirection_quarter] .

theorem generateRandomBallDirection_first_accepted_witness:
  "generateRandomBallDirection [0, 1/4] = Some (cos 1, sin 1)"
proof -
  have nb0: "\<not> (0.2 < \<bar>fst (dir_of_draw 0)\<bar> \<and> \<bar>fst (dir_of_draw 0)\<bar> < 0.9)"
    by (simp add: dir_of_draw_def randomNumberBetween_def)
  have b14: "0.2 < \<bar>fst (dir_of_draw (1/4))\<bar> \<and> \<bar>fst (dir_of_draw (1/4))\<bar> < 0.9"
    using quarter_accepted by (simp only: accepted_band)
  have "generateRandomBallDirection [0, 1/4] =
          map_option dir_of_draw (find (\<lambda>r. 0.2 < \<bar>fst (dir_of_draw r)\<bar> \<and> \<bar>fst (dir_of_draw r)\<bar> < 0.9) [0, 1/4])"
    using generateRandomBallDirection_first_accepted [of "[0, 1/4]"] by (elim conjE)
  also have "\<dots> = map_option dir_of_draw (Some (1/4))"
    using nb0 b14 by (simp only: find.simps if_False if_True simp_thms)
  also have "\<dots> = Some (cos 1, sin 1)" by (simp only: option.map dir_of_draw_quarter)
  finally show ?thesis .
qed

theorem randomNumberBetween_integer_angle_witness:
  "\<exists>k::int. 0 \<le> k \<and> k \<le> 7 \<and> randomNumberBetween (1/4) 0 (2 * pi) = of_int k"
  using randomNumberBetween_integer_angle [of "1/4"] by simp

theorem score_point_spec_witness:
  "gd_scoreLeftPlayer (score_point 40 (demo_ball\<lparr>ballX := 795\<rparr>)) = 1
   \<and> ballDirection (score_point 40 (demo_ball\<lparr>ballX := 795\<rparr>)) = (0, 0)"
proof -
  have "ball_out (demo_ball\<lparr>ballX := 795\<rparr>)" by (simp add: ball_out_def demo_ball_def)
  from score_point_spec [OF this, of 40] show ?thesis by (simp add: demo_ball_def)
qed

theorem collide_reflects_witness:
  "\<bar>fst (ballDirection (collide demo_ball))\<bar> = 3/5 \<and> 40 \<le> ballSpeed (collide demo_ball)"
  using collide_reflects [of demo_ball] by (simp add: demo_ball_def)

theorem movePaddle_spec_witness:
  "leftPaddleY (movePaddle 101 (demo_ball\<lparr>key := ''ArrowUp''\<rparr>)) = 235"
proof -
  have "paddle_ok (demo_ball\<lparr>key := ''ArrowUp''\<rparr>)" by (simp add: paddle_ok_def demo_ball_def)
  from movePaddle_spec [OF this, of 101] show ?thesis
    by (simp add: demo_ball_def clamp_paddle_def paddle_delta_def is_up_key_def)
qed

theorem movePaddle_bounds_witness:
  "paddle_ok (movePaddle 102 (demo_ball\<lparr>key := ''s'', rightPaddleY := 485\<rparr>))"
proof -
  have "paddle_ok (demo_ball\<lparr>key := ''s'', rightPaddleY := 485\<rparr>)"
    by (simp add: paddle_ok_def demo_ball_def)
  then show ?thesis by (rule movePaddle_bounds)
qed

end
