(* ===== verification/ChatStore.thy ===== *)
theory ChatStore
  imports Store "HOL-Library.Monad_Syntax" "HOL-Library.List_Lexorder" "HOL-Library.Char_ord" "HOL-Library.Multiset"
begin

text \<open>
  The chat tables of the Prisma store and the two services over them:
  \<open>src/app/backend/src/chat/channel.service.ts\<close> (channels, membership,
  roles, bans and mutes, direct conversations) and
  \<open>src/app/backend/src/chat/chat.service.ts\<close> (messages, blocking, online
  users), with the block-list methods of \<open>user.service.ts\<close> they call.
  An awaited Prisma call that throws is \<open>None\<close>; the option monad sequences
  the awaits of one method, so a throw ends the method with no later effect,
  as the \<open>async\<close> code does (the gateway catches it).  The clock
  \<open>new Date()\<close> is the parameter \<open>now\<close> (milliseconds).  The Prisma schema
  is not part of the sources: the enum values, the column defaults (a fresh
  membership row is a \<open>USER\<close>, present, neither banned nor muted) and the
  referential action of a required relation (a channel that still has
  membership rows cannot be deleted) are the Prisma defaults.
\<close>

subsection \<open>Rows\<close>

datatype channelType = PUBLIC | PRIVATE | DM

datatype roleType = OWNER | ADMIN | USER

text \<open>A stored password: the plain value \<open>create\<close> spreads from its DTO, or
  the \<open>bcrypt\<close> hash that replaces it.  \<open>bcrypt.compare(p, hash(q))\<close> holds
  exactly when \<open>p = q\<close>.\<close>

datatype pwd = Plain string | Hashed string

record channel =
  ch_id :: nat
  ch_name :: string
  ch_type :: channelType
  ch_password :: "pwd option"
  ch_ownerId :: "userid option"

record channelUser =
  cu_channelId :: nat
  cu_userId :: userid
  cu_role :: roleType
  cu_hasLeft :: bool
  banEnd :: int
  muteEnd :: int
  createdAt :: int

record message =
  m_id :: nat
  m_fromId :: userid
  m_toId :: nat
  m_fromUsername :: string
  m_dm :: bool
  m_content :: string

record chatdb =
  channels :: "channel list"
  cusers :: "channelUser list"
  messages :: "message list"
  next_cid :: nat
  next_mid :: nat

definition empty_chat :: chatdb where
  "empty_chat = \<lparr>channels = [], cusers = [], messages = [], next_cid = 1, next_mid = 1\<rparr>"

text \<open>JavaScript truthiness of a stored password: a hash is never empty.\<close>

fun pwd_set :: "pwd option \<Rightarrow> bool" where
  "pwd_set None = False"
| "pwd_set (Some (Plain p)) = (p \<noteq> [])"
| "pwd_set (Some (Hashed h)) = True"

fun bcrypt_compare :: "string \<Rightarrow> pwd \<Rightarrow> bool" where
  "bcrypt_compare p (Hashed h) = (p = h)"
| "bcrypt_compare p (Plain q) = False"

definition str_truthy :: "string option \<Rightarrow> bool" where
  "str_truthy s = (case s of None \<Rightarrow> False | Some x \<Rightarrow> x \<noteq> [])"

subsection \<open>Prisma primitives on the chat tables\<close>

definition same_cu :: "nat \<Rightarrow> userid \<Rightarrow> channelUser \<Rightarrow> bool" where
  "same_cu cid uid u \<longleftrightarrow> cu_channelId u = cid \<and> cu_userId u = uid"

text \<open>\<open>findUserInChannel\<close> (lines 493-503): the row of the composite key.\<close>

definition findUserInChannel :: "chatdb \<Rightarrow> nat \<Rightarrow> userid \<Rightarrow> channelUser option" where
  "findUserInChannel c cid uid = find (same_cu cid uid) (cusers c)"

definition getChannelByName :: "chatdb \<Rightarrow> string \<Rightarrow> channel option" where
  "getChannelByName c n = find (\<lambda>ch. ch_name ch = n) (channels c)"

definition getChannelById :: "chatdb \<Rightarrow> nat \<Rightarrow> channel option" where
  "getChannelById c i = find (\<lambda>ch. ch_id ch = i) (channels c)"

definition new_cu :: "nat \<Rightarrow> userid \<Rightarrow> roleType \<Rightarrow> int \<Rightarrow> channelUser" where
  "new_cu cid uid r now = \<lparr>cu_channelId = cid, cu_userId = uid, cu_role = r, cu_hasLeft = False,
      banEnd = 0, muteEnd = 0, createdAt = now\<rparr>"

text \<open>\<open>channelUser.create\<close>: the key is unique and both foreign keys must exist.\<close>

definition cu_insert :: "db \<Rightarrow> channelUser \<Rightarrow> chatdb \<Rightarrow> chatdb option" where
  "cu_insert d u c =
     (if list_ex (same_cu (cu_channelId u) (cu_userId u)) (cusers c)
         \<or> getChannelById c (cu_channelId u) = None \<or> getUserById d (cu_userId u) = None
      then None else Some (c\<lparr>cusers := cusers c @ [u]\<rparr>))"

text \<open>\<open>channel.create\<close> with nested membership rows, all or nothing; the
  name is unique.\<close>

definition ch_insert :: "db \<Rightarrow> string \<Rightarrow> channelType \<Rightarrow> pwd option \<Rightarrow> userid option \<Rightarrow>
    (userid \<times> roleType) list \<Rightarrow> int \<Rightarrow> chatdb \<Rightarrow> (chatdb \<times> channel) option" where
  "ch_insert d n t p ow us now c =
     (let ch = \<lparr>ch_id = next_cid c, ch_name = n, ch_type = t, ch_password = p, ch_ownerId = ow\<rparr>;
          c1 = c\<lparr>channels := channels c @ [ch], next_cid := Suc (next_cid c)\<rparr>
      in if getChannelByName c n \<noteq> None then None
         else map_option (\<lambda>c2. (c2, ch))
                (fold (\<lambda>(u, r) acc. Option.bind acc (cu_insert d (new_cu (ch_id ch) u r now))) us (Some c1)))"

definition cu_update :: "nat \<Rightarrow> userid \<Rightarrow> (channelUser \<Rightarrow> channelUser) \<Rightarrow> chatdb \<Rightarrow> chatdb option" where
  "cu_update cid uid f c =
     (if list_ex (same_cu cid uid) (cusers c)
      then Some (c\<lparr>cusers := map (\<lambda>u. if same_cu cid uid u then f u else u) (cusers c)\<rparr>) else None)"

definition cu_delete :: "nat \<Rightarrow> userid \<Rightarrow> chatdb \<Rightarrow> chatdb option" where
  "cu_delete cid uid c =
     (if list_ex (same_cu cid uid) (cusers c)
      then Some (c\<lparr>cusers := filter (\<lambda>u. \<not> same_cu cid uid u) (cusers c)\<rparr>) else None)"

definition ch_update :: "nat \<Rightarrow> (channel \<Rightarrow> channel) \<Rightarrow> chatdb \<Rightarrow> chatdb option" where
  "ch_update cid f c =
     (if list_ex (\<lambda>ch. ch_id ch = cid) (channels c)
      then Some (c\<lparr>channels := map (\<lambda>ch. if ch_id ch = cid then f ch else ch) (channels c)\<rparr>) else None)"

text \<open>\<open>channel.delete\<close>: the row must exist and no membership row may
  reference it.\<close>

definition ch_delete :: "nat \<Rightarrow> chatdb \<Rightarrow> chatdb option" where
  "ch_delete cid c =
     (if list_ex (\<lambda>ch. ch_id ch = cid) (channels c) \<and> \<not> list_ex (\<lambda>u. cu_channelId u = cid) (cusers c)
      then Some (c\<lparr>channels := filter (\<lambda>ch. ch_id ch \<noteq> cid) (channels c)\<rparr>) else None)"

text \<open>\<open>setPassword\<close>, \<open>setHasLeft\<close>, \<open>setRole\<close> (lines 383-423).\<close>

definition setPassword :: "nat \<Rightarrow> pwd option \<Rightarrow> chatdb \<Rightarrow> chatdb option" where
  "setPassword cid p c = ch_update cid (\<lambda>ch. ch\<lparr>ch_password := p\<rparr>) c"

definition setHasLeft :: "nat \<Rightarrow> userid \<Rightarrow> bool \<Rightarrow> chatdb \<Rightarrow> chatdb option" where
  "setHasLeft cid uid v c = cu_update cid uid (\<lambda>u. u\<lparr>cu_hasLeft := v\<rparr>) c"

definition setRole :: "nat \<Rightarrow> userid \<Rightarrow> roleType \<Rightarrow> chatdb \<Rightarrow> chatdb option" where
  "setRole cid uid r c = cu_update cid uid (\<lambda>u. u\<lparr>cu_role := r\<rparr>) c"

subsection \<open>ChannelService\<close>

text \<open>\<open>joinGeneral\<close> (lines 20-54): create \<open>general\<close> on first use, else
  add the user once.\<close>

definition joinGeneral :: "db \<Rightarrow> chatdb \<Rightarrow> userid \<Rightarrow> int \<Rightarrow> chatdb option" where
  "joinGeneral d c uid now =
     (case getChannelByName c ''general'' of
        Some ch \<Rightarrow> (case findUserInChannel c (ch_id ch) uid of
                     None \<Rightarrow> cu_insert d (new_cu (ch_id ch) uid USER now) c
                   | Some _ \<Rightarrow> Some c)
      | None \<Rightarrow> map_option fst (ch_insert d ''general'' PUBLIC None None [(uid, USER)] now c))"

text \<open>\<open>create\<close> (lines 56-87): the DTO is spread into the row, so a given
  password is first stored as it is and then replaced by its hash when it is
  truthy.  The answer is an alert text, or \<open>None\<close> for success.\<close>

definition channel_create :: "db \<Rightarrow> chatdb \<Rightarrow> string \<Rightarrow> channelType \<Rightarrow> string option \<Rightarrow> userid \<Rightarrow> int \<Rightarrow>
    (chatdb \<times> string option) option" where
  "channel_create d c name t pw owner now =
     (if name = [] then Some (c, Some ''No name provided'')
      else if getChannelByName c name \<noteq> None then Some (c, Some ''Channel name already taken'')
      else do {
        (c1, ch) \<leftarrow> ch_insert d name t (map_option Plain pw) (Some owner) [(owner, OWNER)] now c;
        c2 \<leftarrow> (if str_truthy pw then setPassword (ch_id ch) (map_option Hashed pw) c1 else Some c1);
        Some (c2, None)
      })"

text \<open>The password test of \<open>join\<close> (lines 107-117).\<close>

definition check_password :: "pwd option \<Rightarrow> string option \<Rightarrow> string option" where
  "check_password p pw =
     (if \<not> pwd_set p then None
      else case (p, pw) of
             (Some h, Some x) \<Rightarrow> if x = [] then Some ''Password required''
                                else if bcrypt_compare x h then None else Some ''Wrong password''
           | _ \<Rightarrow> Some ''Password required'')"

text \<open>\<open>join\<close> (lines 89-134): status 1 is an alert, 2 already in, 3 joined.
  The ban is only looked at for a row that has left.\<close>

definition channel_join :: "db \<Rightarrow> chatdb \<Rightarrow> string \<Rightarrow> userid \<Rightarrow> string option \<Rightarrow> int \<Rightarrow>
    (chatdb \<times> nat \<times> string option) option" where
  "channel_join d c name uid pw now =
     (case getChannelByName c name of
        None \<Rightarrow> Some (c, 1, Some ''No such channel'')
      | Some ch \<Rightarrow>
          if ch_type ch = DM then Some (c, 1, Some ''Cannot join this channel'')
          else (case findUserInChannel c (ch_id ch) uid of
                  Some u \<Rightarrow>
                    if \<not> cu_hasLeft u then Some (c, 2, None)
                    else (case check_password (ch_password ch) pw of
                            Some e \<Rightarrow> Some (c, 1, Some e)
                          | None \<Rightarrow>
                              if banEnd u > now then Some (c, 1, Some ''You are banned from this channel'')
                              else do { c1 \<leftarrow> setHasLeft (ch_id ch) uid False c; Some (c1, 3, None) })
                | None \<Rightarrow>
                    (case check_password (ch_password ch) pw of
                       Some e \<Rightarrow> Some (c, 1, Some e)
                     | None \<Rightarrow> do { c1 \<leftarrow> cu_insert d (new_cu (ch_id ch) uid USER now) c; Some (c1, 3, None) })))"

definition getChannelUsersByRole :: "chatdb \<Rightarrow> nat \<Rightarrow> roleType \<Rightarrow> channelUser list" where
  "getChannelUsersByRole c cid r = filter (\<lambda>u. cu_channelId u = cid \<and> cu_role u = r) (cusers c)"

text \<open>The \<open>forEach\<close> of \<open>checkOwnership\<close>: the first row with the
  smallest \<open>createdAt\<close>.\<close>

definition oldest :: "channelUser \<Rightarrow> channelUser list \<Rightarrow> channelUser" where
  "oldest s ss = fold (\<lambda>sub nw. if createdAt sub < createdAt nw then sub else nw) ss s"

text \<open>\<open>checkOwnership\<close> (lines 166-197): when the owner leaves, the oldest
  admin, or else the oldest user, of the channel becomes owner; \<open>True\<close> is
  the \<open>1\<close> it then returns.  The candidates are all rows of the channel,
  including rows that have left it.\<close>

definition checkOwnership :: "chatdb \<Rightarrow> nat \<Rightarrow> userid \<Rightarrow> (chatdb \<times> bool) option" where
  "checkOwnership c cid uid =
     (case getChannelById c cid of
        None \<Rightarrow> None
      | Some ch \<Rightarrow>
          if ch_ownerId ch = Some uid then
            (let admins = getChannelUsersByRole c cid ADMIN;
                 subs = (if admins = [] then getChannelUsersByRole c cid USER else admins)
             in case subs of
                  [] \<Rightarrow> Some (c, False)
                | s # _ \<Rightarrow>
                    let nw = oldest s subs in
                    do { c1 \<leftarrow> ch_update cid (\<lambda>x. x\<lparr>ch_ownerId := Some (cu_userId nw)\<rparr>) c;
                         c2 \<leftarrow> setRole cid (cu_userId nw) OWNER c1;
                         Some (c2, True) })
          else Some (c, False))"

text \<open>\<open>updateChannel\<close> (lines 200-222): a channel whose rows have all left
  is deleted.\<close>

definition updateChannel :: "chatdb \<Rightarrow> nat \<Rightarrow> chatdb option" where
  "updateChannel c cid =
     (if list_all cu_hasLeft (filter (\<lambda>u. cu_channelId u = cid) (cusers c)) then ch_delete cid c else Some c)"

text \<open>\<open>leave\<close> (lines 136-163).  The row read first decides between deleting
  it and marking it as left.\<close>

definition channel_leave :: "chatdb \<Rightarrow> nat \<Rightarrow> userid \<Rightarrow> int \<Rightarrow> (chatdb \<times> nat \<times> string option) option" where
  "channel_leave c cid uid now =
     (case findUserInChannel c cid uid of
        None \<Rightarrow> Some (c, 1, None)
      | Some u \<Rightarrow>
          if cu_hasLeft u then Some (c, 1, None)
          else do {
            (c1, res) \<leftarrow> checkOwnership c cid uid;
            c2 \<leftarrow> (if banEnd u < now \<and> muteEnd u < now then cu_delete cid uid c1 else setHasLeft cid uid True c1);
            c3 \<leftarrow> updateChannel c2 cid;
            Some (c3, if res then 2 else 3, if res then Some ''You are the new owner of this channel'' else None)
          })"

text \<open>\<open>handlePassword\<close> (lines 224-251): only a row with role \<open>OWNER\<close>.\<close>

definition handlePassword :: "chatdb \<Rightarrow> userid \<Rightarrow> nat \<Rightarrow> string option \<Rightarrow> (chatdb \<times> string) option" where
  "handlePassword c uid cid pw =
     (case getChannelById c cid of
        None \<Rightarrow> Some (c, ''No such channel'')
      | Some ch \<Rightarrow>
          (case findUserInChannel c cid uid of
             None \<Rightarrow> Some (c, ''User not in channel'')
           | Some u \<Rightarrow>
               if cu_role u = OWNER then
                 (if pwd_set (ch_password ch) \<and> \<not> str_truthy pw
                  then do { c1 \<leftarrow> setPassword cid None c; Some (c1, ''Password unset'') }
                  else if str_truthy pw
                  then do { c1 \<leftarrow> setPassword cid (map_option Hashed pw) c; Some (c1, ''Password set'') }
                  else Some (c, ''No password set''))
               else Some (c, ''You are not allowed to configure password'')))"

text \<open>\<open>handleAdmin\<close> (lines 253-273): the channel's \<open>ownerId\<close> toggles a
  row between \<open>ADMIN\<close> and \<open>USER\<close>.\<close>

definition handleAdmin :: "chatdb \<Rightarrow> userid \<Rightarrow> nat \<Rightarrow> userid \<Rightarrow> (chatdb \<times> nat \<times> string) option" where
  "handleAdmin c owner cid uid =
     (case getChannelById c cid of
        None \<Rightarrow> Some (c, 1, ''No such channel'')
      | Some ch \<Rightarrow>
          if ch_ownerId ch = Some owner then
            (case findUserInChannel c cid uid of
               None \<Rightarrow> Some (c, 1, ''User not in channel'')
             | Some u \<Rightarrow>
                 if cu_role u = ADMIN
                 then do { c1 \<leftarrow> setRole cid uid USER c; Some (c1, 2, ''Administrator rights revoked'') }
                 else do { c1 \<leftarrow> setRole cid uid ADMIN c; Some (c1, 2, ''Administrator rights granted'') })
          else Some (c, 1, ''You are not the owner of this channel''))"

text \<open>The three role tests shared by \<open>kickUser\<close>, \<open>banUser\<close> and
  \<open>muteUser\<close>, with the verb of their messages.\<close>

definition mod_check :: "string \<Rightarrow> channelUser \<Rightarrow> channelUser \<Rightarrow> string option" where
  "mod_check verb u t =
     (if cu_role u = USER then Some (''You do not have the rights to '' @ verb @ '' a user'')
      else if cu_role u = ADMIN \<and> cu_role t = ADMIN then Some (''You cannot '' @ verb @ '' another admin'')
      else if cu_role t = OWNER then Some (''You cannot '' @ verb @ '' the channel owner'')
      else None)"

text \<open>The two-minute ban and mute.\<close>

definition penalty :: int where
  "penalty = 2 * 60000"

definition moderate :: "string \<Rightarrow> (channelUser \<Rightarrow> chatdb \<Rightarrow> chatdb option) \<Rightarrow>
    chatdb \<Rightarrow> userid \<Rightarrow> nat \<Rightarrow> userid \<Rightarrow> (chatdb \<times> string option) option" where
  "moderate verb act c uid cid tid =
     (case (findUserInChannel c cid uid, findUserInChannel c cid tid) of
        (Some u, Some t) \<Rightarrow>
          (case mod_check verb u t of
             Some e \<Rightarrow> Some (c, Some e)
           | None \<Rightarrow> do { c1 \<leftarrow> act t c; Some (c1, None) })
      | _ \<Rightarrow> Some (c, None))"

text \<open>\<open>kickUser\<close> (lines 275-310): a row that is neither banned nor muted
  is deleted, otherwise marked as left.\<close>

definition kickUser :: "chatdb \<Rightarrow> userid \<Rightarrow> nat \<Rightarrow> userid \<Rightarrow> int \<Rightarrow> (chatdb \<times> string option) option" where
  "kickUser c uid cid tid now =
     moderate ''kick'' (\<lambda>t. if banEnd t < now \<and> muteEnd t < now then cu_delete cid tid else setHasLeft cid tid True)
       c uid cid tid"

text \<open>\<open>banUser\<close> (lines 312-346).\<close>

definition banUser :: "chatdb \<Rightarrow> userid \<Rightarrow> nat \<Rightarrow> userid \<Rightarrow> int \<Rightarrow> (chatdb \<times> string option) option" where
  "banUser c uid cid tid now =
     moderate ''ban'' (\<lambda>t. cu_update cid tid (\<lambda>x. x\<lparr>cu_hasLeft := True, banEnd := now + penalty\<rparr>)) c uid cid tid"

text \<open>\<open>muteUser\<close> (lines 348-381).\<close>

definition muteUser :: "chatdb \<Rightarrow> userid \<Rightarrow> nat \<Rightarrow> userid \<Rightarrow> int \<Rightarrow> (chatdb \<times> string option) option" where
  "muteUser c uid cid tid now =
     moderate ''mute'' (\<lambda>t. cu_update cid tid (\<lambda>x. x\<lparr>muteEnd := now + penalty\<rparr>)) c uid cid tid"

text \<open>\<open>getPublicChannels\<close> (lines 439-452).\<close>

definition getPublicChannels :: "chatdb \<Rightarrow> (nat \<times> string) list" where
  "getPublicChannels c = map (\<lambda>ch. (ch_id ch, ch_name ch)) (filter (\<lambda>ch. ch_type ch = PUBLIC) (channels c))"

text \<open>\<open>getChannelsJoined\<close> (lines 454-491): \<open>undefined\<close> (\<open>None\<close>) for an
  unknown user and for a user who is in no channel.\<close>

definition getChannelsJoined :: "db \<Rightarrow> chatdb \<Rightarrow> userid \<Rightarrow> channel list option" where
  "getChannelsJoined d c uid =
     (if getUserById d uid = None then None
      else let js = List.map_filter (\<lambda>u. if cu_userId u = uid \<and> \<not> cu_hasLeft u
                                          then (case getChannelById c (cu_channelId u) of
                                                  Some ch \<Rightarrow> if ch_type ch \<noteq> DM then Some ch else None
                                                | None \<Rightarrow> None)
                                          else None) (cusers c)
           in if js = [] then None else Some js)"

text \<open>The inner \<open>for ... break\<close> loop of \<open>filterUsersBlocked\<close> and
  \<open>getOnlineUsers\<close>.\<close>

fun blocked_loop :: "userid list \<Rightarrow> userid \<Rightarrow> bool" where
  "blocked_loop [] x = False"
| "blocked_loop (v # vs) x = (if v = x then True else blocked_loop vs x)"

text \<open>\<open>toLowerCase\<close> on the ASCII letters.\<close>

definition lower_char :: "char \<Rightarrow> char" where
  "lower_char ch = (if CHR ''A'' \<le> ch \<and> ch \<le> CHR ''Z'' then char_of (of_char ch + (32::nat)) else ch)"

definition lower :: "string \<Rightarrow> string" where
  "lower s = map lower_char s"

text \<open>\<open>filterUsersBlocked\<close> (lines 542-559): the members that have not
  blocked the caller, by lower-cased name (a stable sort: the comparator of
  the source answers -1 for equal names, so their order is the engine's).\<close>

definition filterUsersBlocked :: "(userid \<times> roleType \<times> user) list \<Rightarrow> userid \<Rightarrow> (userid \<times> roleType \<times> user) list" where
  "filterUsersBlocked xs uid =
     sort_key (\<lambda>(_, _, u). lower (u_username u)) (filter (\<lambda>(_, _, u). \<not> blocked_loop (usersBlocked u) uid) xs)"

text \<open>\<open>getChannelUsers\<close> (lines 515-540): present members whose user is not
  \<open>OFFLINE\<close>.\<close>

definition getChannelUsers :: "db \<Rightarrow> chatdb \<Rightarrow> userid \<Rightarrow> nat \<Rightarrow> (userid \<times> roleType \<times> user) list" where
  "getChannelUsers d c uid cid =
     filterUsersBlocked
       (List.map_filter (\<lambda>m. if cu_channelId m = cid \<and> \<not> cu_hasLeft m
                              then (case getUserById d (cu_userId m) of
                                      Some u \<Rightarrow> if u_status u \<noteq> OFFLINE then Some (cu_userId m, cu_role m, u) else None
                                    | None \<Rightarrow> None)
                              else None) (cusers c)) uid"

text \<open>A number written in decimal, as \<open>'#dm' + id\<close> converts it.\<close>

function string_of_nat :: "nat \<Rightarrow> string" where
  "string_of_nat n = (if n < 10 then [char_of (48 + n)] else string_of_nat (n div 10) @ [char_of (48 + n mod 10)])"
  by pat_completeness auto
termination
  by (relation "measure id") auto

definition dm_name :: "userid \<Rightarrow> userid \<Rightarrow> string" where
  "dm_name u1 u2 = ''#dm'' @ string_of_nat u1 @ string_of_nat u2"

text \<open>\<open>startPrivateConvo\<close> (lines 561-593).\<close>

definition startPrivateConvo :: "db \<Rightarrow> chatdb \<Rightarrow> userid \<Rightarrow> userid \<Rightarrow> int \<Rightarrow> (chatdb \<times> channel) option" where
  "startPrivateConvo d c u1 u2 now = ch_insert d (dm_name u1 u2) DM None None [(u1, USER), (u2, USER)] now c"

definition members :: "chatdb \<Rightarrow> nat \<Rightarrow> channelUser list" where
  "members c cid = filter (\<lambda>u. cu_channelId u = cid) (cusers c)"

text \<open>\<open>findPrivateConvo\<close> (lines 595-627): the first conversation every row
  of which is one of the two users.\<close>

definition findPrivateConvo :: "chatdb \<Rightarrow> userid \<Rightarrow> userid \<Rightarrow> channel option" where
  "findPrivateConvo c u1 u2 =
     find (\<lambda>ch. ch_type ch = DM \<and> list_all (\<lambda>m. cu_userId m = u1 \<or> cu_userId m = u2) (members c (ch_id ch)))
       (channels c)"

definition findPrivateConvoById :: "chatdb \<Rightarrow> nat \<Rightarrow> channel option" where
  "findPrivateConvoById c i = find (\<lambda>ch. ch_id ch = i \<and> ch_type ch = DM) (channels c)"

definition getPrivateConvo :: "chatdb \<Rightarrow> userid \<Rightarrow> channel list" where
  "getPrivateConvo c u =
     filter (\<lambda>ch. ch_type ch = DM \<and> list_ex (\<lambda>m. cu_userId m = u) (members c (ch_id ch))) (channels c)"

subsection \<open>UserService block lists\<close>

text \<open>\<open>isBlocked\<close>, \<open>blockUser\<close>, \<open>unblockUser\<close> of \<open>user.service.ts\<close>
  (lines 162-201); the updates are not caught.\<close>

definition isBlocked :: "db \<Rightarrow> userid \<Rightarrow> userid \<Rightarrow> bool" where
  "isBlocked d uid x = list_ex (\<lambda>u. u_id u = uid \<and> x \<in> set (usersBlocked u)) (users d)"

definition blockUser :: "db \<Rightarrow> userid \<Rightarrow> userid \<Rightarrow> db option" where
  "blockUser d uid x = upd_user (\<lambda>u. u_id u = uid) (\<lambda>u. u\<lparr>usersBlocked := usersBlocked u @ [x]\<rparr>) d"

definition unblockUser :: "db \<Rightarrow> userid \<Rightarrow> userid list \<Rightarrow> db option" where
  "unblockUser d uid xs = upd_user (\<lambda>u. u_id u = uid) (\<lambda>u. u\<lparr>usersBlocked := xs\<rparr>) d"

subsection \<open>ChatService\<close>

text \<open>\<open>sendMessage\<close> (lines 33-40).\<close>

definition sendMessage :: "chatdb \<Rightarrow> userid \<Rightarrow> nat \<Rightarrow> string \<Rightarrow> bool \<Rightarrow> string \<Rightarrow> chatdb \<times> message" where
  "sendMessage c fromId toId name dm content =
     (let m = \<lparr>m_id = next_mid c, m_fromId = fromId, m_toId = toId, m_fromUsername = name,
               m_dm = dm, m_content = content\<rparr>
      in (c\<lparr>messages := messages c @ [m], next_mid := Suc (next_mid c)\<rparr>, m))"

definition getMessages :: "chatdb \<Rightarrow> nat \<Rightarrow> message list" where
  "getMessages c cid = filter (\<lambda>m. m_toId m = cid) (messages c)"

definition updateUsername :: "db \<Rightarrow> chatdb \<Rightarrow> userid \<Rightarrow> chatdb option" where
  "updateUsername d c uid =
     (case getUserById d uid of
        None \<Rightarrow> None
      | Some u \<Rightarrow> Some (c\<lparr>messages := map (\<lambda>m. if m_fromId m = uid then m\<lparr>m_fromUsername := u_username u\<rparr> else m)
                                          (messages c)\<rparr>))"

text \<open>\<open>blockUser\<close> of the chat service (lines 99-120): a toggle.  The
  target is fetched without \<open>await\<close>, so the test on it never fails; the
  two answers are swapped.\<close>

definition chat_blockUser :: "db \<Rightarrow> userid \<Rightarrow> userid \<Rightarrow> (db \<times> string) option" where
  "chat_blockUser d uid tid =
     (case getUserById d uid of
        None \<Rightarrow> Some (d, ''Cannot block user'')
      | Some u \<Rightarrow>
          if isBlocked d uid tid
          then do { d1 \<leftarrow> unblockUser d uid (filter (\<lambda>x. x \<noteq> tid) (usersBlocked u)); Some (d1, ''User blocked'') }
          else do { d1 \<leftarrow> blockUser d uid tid; Some (d1, ''User unblocked'') })"

text \<open>\<open>getOnlineUsers\<close> (lines 122-152), ordered by name.\<close>

definition getOnlineUsers :: "db \<Rightarrow> userid \<Rightarrow> user list" where
  "getOnlineUsers d uid =
     filter (\<lambda>u. \<not> blocked_loop (usersBlocked u) uid) (sort_key u_username (filter (\<lambda>u. u_status u \<noteq> OFFLINE) (users d)))"

subsection \<open>Reference definitions and a sample channel\<close>

text \<open>The first row of minimal \<open>createdAt\<close>, the reference for \<open>oldest\<close>.\<close>

definition first_min :: "channelUser list \<Rightarrow> channelUser" where
  "first_min xs = hd (filter (\<lambda>x. list_all (\<lambda>y. createdAt x \<le> createdAt y) xs) xs)"

text \<open>Channel \<open>room\<close> owned by user 1, with a banned admin 2 who has
  left and an admin 3.\<close>

definition demo_chat :: chatdb where
  "demo_chat = \<lparr>channels = [\<lparr>ch_id = 1, ch_name = ''room'', ch_type = PUBLIC, ch_password = Some (Hashed ''pw''),
                              ch_ownerId = Some 1\<rparr>],
     cusers = [\<lparr>cu_channelId = 1, cu_userId = 1, cu_role = OWNER, cu_hasLeft = False, banEnd = 0, muteEnd = 0,
                createdAt = 10\<rparr>,
               \<lparr>cu_channelId = 1, cu_userId = 2, cu_role = ADMIN, cu_hasLeft = True, banEnd = 500000, muteEnd = 0,
                createdAt = 20\<rparr>,
               \<lparr>cu_channelId = 1, cu_userId = 3, cu_role = ADMIN, cu_hasLeft = False, banEnd = 0, muteEnd = 0,
                createdAt = 30\<rparr>],
     messages = [], next_cid = 2, next_mid = 1\<rparr>"

subsection \<open>Service lemmas\<close>

lemma same_cu_key: "same_cu cid uid u \<longleftrightarrow> (cu_channelId u, cu_userId u) = (cid, uid)"
  by (auto simp: same_cu_def)

lemma findUserInChannel_cu_update:
  assumes "cu_update cid uid f c = Some c'"
    and "\<And>x. cu_channelId (f x) = cu_channelId x" "\<And>x. cu_userId (f x) = cu_userId x"
  shows "findUserInChannel c' cid' uid' =
           map_option (\<lambda>x. if same_cu cid uid x then f x else x) (findUserInChannel c cid' uid')"
  using assms find_key_map_upd [of "\<lambda>x. (cu_channelId x, cu_userId x)" f "(cid', uid')" "(cid, uid)" "cusers c"]
  by (auto simp: cu_update_def findUserInChannel_def same_cu_def [abs_def] split: if_splits)

lemma findUserInChannel_Some:
  "findUserInChannel c cid uid = Some u \<Longrightarrow> cu_channelId u = cid \<and> cu_userId u = uid \<and> u \<in> set (cusers c)"
  by (auto simp: findUserInChannel_def same_cu_def find_Some_iff)

lemma cu_update_Some:
  "findUserInChannel c cid uid \<noteq> None \<Longrightarrow> \<exists>c'. cu_update cid uid f c = Some c'"
  by (auto simp: cu_update_def findUserInChannel_def list_ex_iff find_None_iff)

text \<open>C28 (join after leaving, banned): for a member row that has left a non-DM channel and a password that passes, join answers 'You are banned from this channel' and changes nothing while the ban runs, and otherwise marks the row present again.\<close>

theorem channel_join_rejoin:
  assumes ch: "getChannelByName c name = Some ch" "ch_type ch \<noteq> DM"
    and u: "findUserInChannel c (ch_id ch) uid = Some u" "cu_hasLeft u"
    and pw: "check_password (ch_password ch) pw = None"
  shows "if now < banEnd u
         then channel_join d c name uid pw now = Some (c, 1, Some ''You are banned from this channel'')
         else (\<exists>c'. channel_join d c name uid pw now = Some (c', 3, None)
                    \<and> findUserInChannel c' (ch_id ch) uid = Some (u\<lparr>cu_hasLeft := False\<rparr>))"
proof (cases "now < banEnd u")
  case True
  then show ?thesis using assms by (simp add: channel_join_def)
next
  case False
  obtain c' where c': "setHasLeft (ch_id ch) uid False c = Some c'"
    using cu_update_Some [of c "ch_id ch" uid] u by (auto simp: setHasLeft_def)
  have "findUserInChannel c' (ch_id ch) uid = Some (u\<lparr>cu_hasLeft := False\<rparr>)"
    using findUserInChannel_cu_update [OF c' [unfolded setHasLeft_def]] u findUserInChannel_Some [OF u(1)]
    by (simp add: same_cu_def)
  with False c' show ?thesis using assms by (simp add: channel_join_def)
qed

lemma moderate_refused:
  assumes "findUserInChannel c cid uid = Some u" "findUserInChannel c cid tid = Some t"
    and "mod_check verb u t \<noteq> None"
  shows "map_option fst (moderate verb act c uid cid tid) = Some c"
  using assms by (auto simp: moderate_def)

lemma mod_check_refuses:
  "cu_role u = USER \<or> cu_role t = OWNER \<or> (cu_role u = ADMIN \<and> cu_role t = ADMIN) \<Longrightarrow> mod_check verb u t \<noteq> None"
  by (auto simp: mod_check_def)

text \<open>C27 (moderation rights): kickUser, banUser and muteUser change nothing when the actor is a plain USER, when the target is the channel OWNER, or when an ADMIN targets another ADMIN.\<close>

theorem moderation_protects:
  assumes "findUserInChannel c cid uid = Some u" "findUserInChannel c cid tid = Some t"
    and "cu_role u = USER \<or> cu_role t = OWNER \<or> (cu_role u = ADMIN \<and> cu_role t = ADMIN)"
  shows "map_option fst (kickUser c uid cid tid now) = Some c
       \<and> map_option fst (banUser c uid cid tid now) = Some c
       \<and> map_option fst (muteUser c uid cid tid now) = Some c"
  using moderate_refused [OF assms(1,2) mod_check_refuses [OF assms(3)]]
  by (simp add: kickUser_def banUser_def muteUser_def)

lemma first_min_drop:
  assumes "\<exists>z\<in>set xs. createdAt z < createdAt x"
  shows "first_min (x # xs) = hd (filter (\<lambda>v. list_all (\<lambda>y. createdAt v \<le> createdAt y) (x # xs)) xs)"
  using assms by (auto simp: first_min_def list_all_iff)

lemma fold_oldest:
  "fold (\<lambda>sub nw. if createdAt sub < createdAt nw then sub else nw) ss s = first_min (s # ss)"
proof (induction ss arbitrary: s)
  case Nil
  then show ?case by (simp add: first_min_def)
next
  case (Cons y ys)
  show ?case
  proof (cases "createdAt y < createdAt s")
    case True
    have "filter (\<lambda>v. list_all (\<lambda>z. createdAt v \<le> createdAt z) (s # y # ys)) (y # ys)
        = filter (\<lambda>v. list_all (\<lambda>z. createdAt v \<le> createdAt z) (y # ys)) (y # ys)"
      using True by (intro filter_cong) (auto simp: list_all_iff)
    then show ?thesis
      using True Cons.IH [of y] first_min_drop [of "y # ys" s] by (simp add: first_min_def)
  next
    case False
    show ?thesis
    proof (cases "\<exists>z\<in>set ys. createdAt z < createdAt s")
      case True
      have "filter (\<lambda>v. list_all (\<lambda>z. createdAt v \<le> createdAt z) (s # y # ys)) (y # ys)
          = filter (\<lambda>v. list_all (\<lambda>z. createdAt v \<le> createdAt z) (s # ys)) ys"
        using True False by (auto simp: list_all_iff not_le intro!: filter_cong)
      then show ?thesis
        using True False Cons.IH [of s] first_min_drop [of "y # ys" s] first_min_drop [of ys s] by simp
    next
      case no: False
      then show ?thesis
        using False Cons.IH [of s] by (auto simp: first_min_def list_all_iff not_less)
    qed
  qed
qed

text \<open>(selection loop): the forEach of checkOwnership computes the first row of minimal createdAt.\<close>

theorem oldest_first_min:
  "oldest s ss = hd (filter (\<lambda>x. list_all (\<lambda>y. createdAt x \<le> createdAt y) (s # ss)) (s # ss))"
  by (simp add: oldest_def fold_oldest first_min_def)

lemma oldest_in: "oldest s ss \<in> set (s # ss)"
proof -
  have "fold (\<lambda>sub nw. if createdAt sub < createdAt nw then sub else nw) ss s' \<in> insert s' (set ss)" for s'
  proof (induction ss arbitrary: s')
    case Nil
    then show ?case by simp
  next
    case (Cons y ys)
    then show ?case
      by (cases "createdAt y < createdAt s'") (use Cons.IH [of y] Cons.IH [of s'] in auto)
  qed
  then show ?thesis by (simp add: oldest_def)
qed

lemma getChannelById_ch_update:
  assumes "ch_update cid f c = Some c'" "\<And>x. ch_id (f x) = ch_id x"
  shows "getChannelById c' i = map_option (\<lambda>x. if ch_id x = cid then f x else x) (getChannelById c i)"
  using assms find_key_map_upd [of ch_id f i cid "channels c"]
  by (auto simp: ch_update_def getChannelById_def split: if_splits)

lemma getChannelById_Some: "getChannelById c i = Some ch \<Longrightarrow> ch_id ch = i \<and> ch \<in> set (channels c)"
  by (auto simp: getChannelById_def find_Some_iff)

lemma ch_update_Some: "getChannelById c cid \<noteq> None \<Longrightarrow> \<exists>c'. ch_update cid f c = Some c'"
  by (auto simp: ch_update_def getChannelById_def list_ex_iff find_None_iff)

lemma cusers_ch_update: "ch_update cid f c = Some c' \<Longrightarrow> cusers c' = cusers c"
  by (auto simp: ch_update_def split: if_splits)

lemma findUserInChannel_in: "u \<in> set (cusers c) \<Longrightarrow> findUserInChannel c (cu_channelId u) (cu_userId u) \<noteq> None"
  by (auto simp: findUserInChannel_def find_None_iff same_cu_def)

text \<open>C26 (ownership hand-over): when the owner of a channel with admin rows leaves, the admin row with the smallest createdAt (the first such row in table order) becomes owner of the channel and gets role OWNER; rows that have left the channel, banned ones included, are candidates.\<close>

theorem checkOwnership_oldest_admin:
  assumes ch: "getChannelById c cid = Some ch" "ch_ownerId ch = Some uid"
    and adm: "getChannelUsersByRole c cid ADMIN = a # as"
  shows "\<exists>c'. checkOwnership c cid uid = Some (c', True)
            \<and> getChannelById c' cid = Some (ch\<lparr>ch_ownerId := Some (cu_userId (first_min (a # as)))\<rparr>)
            \<and> map_option cu_role (findUserInChannel c' cid (cu_userId (first_min (a # as)))) = Some OWNER"
proof -
  define nw where "nw = oldest a (a # as)"
  have nw_min: "nw = first_min (a # as)"
    by (simp add: nw_def oldest_def fold_oldest first_min_def)
  have "nw \<in> set (getChannelUsersByRole c cid ADMIN)"
    using oldest_in [of a "a # as"] adm by (simp add: nw_def)
  then have nw_in: "nw \<in> set (cusers c)" "cu_channelId nw = cid"
    by (auto simp: getChannelUsersByRole_def)
  obtain c1 where c1: "ch_update cid (\<lambda>x. x\<lparr>ch_ownerId := Some (cu_userId nw)\<rparr>) c = Some c1"
    using ch_update_Some ch by blast
  have g1: "getChannelById c1 cid = Some (ch\<lparr>ch_ownerId := Some (cu_userId nw)\<rparr>)"
    using getChannelById_ch_update [OF c1] ch getChannelById_Some [OF ch(1)] by auto
  have in1: "findUserInChannel c1 cid (cu_userId nw) \<noteq> None"
    using findUserInChannel_in [OF nw_in(1)] nw_in(2) cusers_ch_update [OF c1]
    by (simp add: findUserInChannel_def)
  obtain c2 where c2: "setRole cid (cu_userId nw) OWNER c1 = Some c2"
    using cu_update_Some [OF in1] by (auto simp: setRole_def)
  obtain y where y: "findUserInChannel c1 cid (cu_userId nw) = Some y" using in1 by auto
  have "map_option cu_role (findUserInChannel c2 cid (cu_userId nw)) = Some OWNER"
    using findUserInChannel_cu_update [OF c2 [unfolded setRole_def]] y findUserInChannel_Some [OF y]
    by (simp add: same_cu_def)
  moreover have "getChannelById c2 cid = getChannelById c1 cid"
    using c2 by (auto simp: setRole_def cu_update_def getChannelById_def split: if_splits)
  moreover have "checkOwnership c cid uid = Some (c2, True)"
    using ch adm c1 c2 by (simp add: checkOwnership_def nw_def Let_def)
  ultimately show ?thesis using g1 by (simp add: nw_min)
qed

lemma dm_name_123: "dm_name 1 23 = ''#dm123''" "dm_name 12 3 = ''#dm123''"
  by code_simp+

text \<open>C29 (conversation names clash): the conversation name is '#dm' followed by the two ids with no separator, so the pairs (1, 23) and (12, 3) both get #dm123; once a channel of that name exists, startPrivateConvo fails for both pairs, and the users of the second pair can never talk privately.\<close>

theorem startPrivateConvo_name_clash:
  assumes "getChannelByName c ''#dm123'' \<noteq> None"
  shows "startPrivateConvo d c 1 23 now = None \<and> startPrivateConvo d c 12 3 now = None"
  using assms unfolding startPrivateConvo_def dm_name_123 by (simp add: ch_insert_def Let_def)

lemma unique_user_row:
  assumes "distinct (map u_id (users d))" "getUserById d uid = Some u" "v \<in> set (users d)" "u_id v = uid"
  shows "v = u"
proof -
  have "u \<in> set (users d)" "u_id u = uid"
    using assms(2) by (auto simp: getUserById_def find_Some_iff)
  then show ?thesis
    using assms(1,3,4) by (auto simp: distinct_map inj_on_def)
qed

lemma isBlocked_row:
  "distinct (map u_id (users d)) \<Longrightarrow> getUserById d uid = Some u \<Longrightarrow> isBlocked d uid x \<longleftrightarrow> x \<in> set (usersBlocked u)"
  using unique_user_row [of d uid u]
  by (auto simp: isBlocked_def list_ex_iff getUserById_def find_Some_iff)

lemma upd_user_row:
  assumes "getUserById d uid = Some u"
  shows "upd_user (\<lambda>v. u_id v = uid) f d = Some (d\<lparr>users := map (\<lambda>v. if u_id v = uid then f v else v) (users d)\<rparr>)"
  using assms by (auto simp: upd_user_def getUserById_def list_ex_iff find_Some_iff)

text \<open>C30 (block toggle): with unique user ids, blocking a user and then calling blockUser again restores the store exactly; the first call answers 'User unblocked' and the second 'User blocked', the reverse of what they do.\<close>

theorem chat_blockUser_toggle:
  assumes dist: "distinct (map u_id (users d))" and u: "getUserById d uid = Some u"
    and nb: "tid \<notin> set (usersBlocked u)"
  shows "\<exists>d1. chat_blockUser d uid tid = Some (d1, ''User unblocked'') \<and> isBlocked d1 uid tid
            \<and> chat_blockUser d1 uid tid = Some (d, ''User blocked'')"
proof -
  define d1 where "d1 = d\<lparr>users := map (\<lambda>v. if u_id v = uid then v\<lparr>usersBlocked := usersBlocked v @ [tid]\<rparr> else v) (users d)\<rparr>"
  have b1: "chat_blockUser d uid tid = Some (d1, ''User unblocked'')"
    using u nb isBlocked_row [OF dist u] by (simp add: chat_blockUser_def blockUser_def upd_user_row d1_def)
  have "map u_id (users d1) = map u_id (users d)" unfolding d1_def by (auto simp: map_eq_conv)
  then have dist1: "distinct (map u_id (users d1))" using dist by simp
  have u1: "getUserById d1 uid = Some (u\<lparr>usersBlocked := usersBlocked u @ [tid]\<rparr>)"
    using u find_key_map_upd [of u_id "\<lambda>v. v\<lparr>usersBlocked := usersBlocked v @ [tid]\<rparr>" uid uid "users d"]
      find_Some_iff [THEN iffD1, OF u [unfolded getUserById_def]]
    by (auto simp: d1_def getUserById_def)
  have fl: "filter (\<lambda>x. x \<noteq> tid) (usersBlocked u @ [tid]) = usersBlocked u"
    using nb by (auto simp: filter_id_conv)
  have restore: "map (\<lambda>v. if u_id v = uid then v\<lparr>usersBlocked := usersBlocked u\<rparr> else v) (users d1) = users d"
    unfolding d1_def using unique_user_row [OF dist u] by (auto intro!: map_idI)
  have "chat_blockUser d1 uid tid = Some (d, ''User blocked'')"
    using u1 isBlocked_row [OF dist1 u1] fl restore
    by (simp add: chat_blockUser_def unblockUser_def upd_user_row d1_def)
  with b1 isBlocked_row [OF dist1 u1] show ?thesis by auto
qed

lemma blocked_loop_iff [simp]: "blocked_loop vs x \<longleftrightarrow> x \<in> set vs"
  by (induction vs) auto

theorem channel_join_rejoin_witness:
  "channel_join demo_db demo_chat ''room'' 2 (Some ''pw'') 1000 = Some (demo_chat, 1, Some ''You are banned from this channel'')"
  using channel_join_rejoin [of demo_chat "''room''" "hd (channels demo_chat)" 2 "cusers demo_chat ! 1" "Some ''pw''"
      1000 demo_db]
  by (simp add: demo_chat_def getChannelByName_def findUserInChannel_def same_cu_def check_password_def)

theorem moderation_protects_witness:
  "map_option fst (kickUser demo_chat 3 1 1 1000) = Some demo_chat
   \<and> map_option fst (banUser demo_chat 3 1 1 1000) = Some demo_chat
   \<and> map_option fst (muteUser demo_chat 3 1 1 1000) = Some demo_chat"
  using moderation_protects [of demo_chat 1 3 "cusers demo_chat ! 2" 1 "cusers demo_chat ! 0" 1000]
  by (simp add: demo_chat_def findUserInChannel_def same_cu_def)

theorem checkOwnership_oldest_admin_witness:
  "\<exists>c'. checkOwnership demo_chat 1 1 = Some (c', True)
      \<and> getChannelById c' 1 = Some \<lparr>ch_id = 1, ch_name = ''room'', ch_type = PUBLIC,
                                    ch_password = Some (Hashed ''pw''), ch_ownerId = Some 2\<rparr>
      \<and> map_option cu_role (findUserInChannel c' 1 2) = Some OWNER"
  using checkOwnership_oldest_admin [of demo_chat 1 "hd (channels demo_chat)" 1 "cusers demo_chat ! 1"
      "[cusers demo_chat ! 2]"]
  by (simp add: demo_chat_def getChannelById_def getChannelUsersByRole_def first_min_def)

theorem startPrivateConvo_name_clash_witness:
  "startPrivateConvo demo_db (demo_chat\<lparr>channels := channels demo_chat @
      [\<lparr>ch_id = 2, ch_name = ''#dm123'', ch_type = DM, ch_password = None, ch_ownerId = None\<rparr>]\<rparr>) 12 3 0 = None"
  using startPrivateConvo_name_clash [of "demo_chat\<lparr>channels := channels demo_chat @
      [\<lparr>ch_id = 2, ch_name = ''#dm123'', ch_type = DM, ch_password = None, ch_ownerId = None\<rparr>]\<rparr>" demo_db 0]
  by (simp add: getChannelByName_def demo_chat_def)

theorem chat_blockUser_toggle_witness:
  "\<exists>d1. chat_blockUser demo_db 1 2 = Some (d1, ''User unblocked'') \<and> isBlocked d1 1 2
      \<and> chat_blockUser d1 1 2 = Some (demo_db, ''User blocked'')"
  using chat_blockUser_toggle [of demo_db 1 "hd (users demo_db)" 2]
  by (simp add: demo_db_def getUserById_def)

end
