(* ===== verification/Gateway.thy ===== *)
theory Gateway
  imports Store Physics ChatStore
begin

text \<open>
  The state of \<open>GameGateway\<close> (\<open>src/app/backend/src/game/game.gateway.ts\<close>),
  of \<open>ChatGateway\<close> (\<open>src/app/backend/src/chat/chat.gateway.ts\<close>) and of the
  socket.io server both talk through; the chat tables of the store are
  \<open>chat\<close>, the user a chat socket authenticated as is \<open>sock_user\<close>
  (\<open>client.data.user\<close>).  The gateway keeps three
  process-wide collections: \<open>waitingQueue\<close> (an array of \<open>IUser\<close>),
  \<open>invitations\<close> (an array of \<open>IInvite\<close>) and \<open>players\<close> (a \<open>Map\<close> from
  socket id to auth id).  socket.io keeps the room memberships; an emitted
  event is recorded in \<open>outbox\<close> with its target, so that what the clients are
  told is part of the state.  The persistence collaborator is the \<open>store\<close>.
  A \<open>setTimeout\<close> callback waits in \<open>timers\<close> until the timer fires.  A
  \<open>TypeError\<close> that escapes a handler stops it where it is thrown: the effects
  before it stay, the error is recorded in \<open>thrown\<close>.
  Handlers run atomically: the interleavings at \<open>await\<close> points are not
  modelled, only the order of whole messages.
\<close>

subsection \<open>State\<close>

text \<open>\<open>IUser\<close> and \<open>IInvite\<close> (lines 17-28).  The invited user's socket is
  \<open>getKeyByValue(players, authId)\<close>, which may be \<open>undefined\<close>.\<close>

record iuser =
  iu_id :: userid
  iu_authId :: authid
  iu_username :: "string option"
  iu_status :: "status option"
  socketId :: "sid option"

record invite =
  inviter :: iuser
  invited :: iuser

text \<open>socket.io rooms: a socket's own room, \<open>'#game' + id\<close>, \<open>'#user' + id\<close>,
  \<open>'#channel' + id\<close> and a conversation's name.\<close>

datatype room = SockRoom sid | GameRoom gid | UserRoom userid | ChanRoom nat | NameRoom string

datatype target = Everyone | ToRooms "room list"

text \<open>The server-to-client events of the two gateways (\<open>update\<close> with a
  channel id is \<open>UpdateChan\<close>).\<close>

datatype msg =
    Update nat
  | MatchFound gid
  | Invitation userid "string option"
  | InviteAcceptedMsg iuser gid
  | InitGameRejected
  | InitGameMsg game string string
  | CheckGameMsg bool bool "string option"
  | MapSelected
  | ModeSelected "string option"
  | GameStatusMsg gameStatus
  | GameStatusSelectMsg gameStatus
  | PaddleUpdate gamedata
  | BallUpdate gamedata
  | ScoreUpdate gamedata
  | GameStartMsg gamedata
  | ErrorMsg
  | UpdateChan nat nat
  | Alert string
  | Announcement string nat
  | NewMessage message

text \<open>A pending \<open>setTimeout(() => updateScore(...), 100)\<close> of \<open>ballMove\<close>.\<close>

datatype timer = ScoreWrite gid int int int

record world =
  store :: db
  sockets :: "sid list"
  players :: "(sid \<times> authid) list"
  waitingQueue :: "iuser list"
  invitations :: "invite list"
  rooms :: "room \<Rightarrow> sid list"
  timers :: "timer list"
  outbox :: "(target \<times> msg) list"
  thrown :: "string list"
  chat :: chatdb
  sock_user :: "(sid \<times> userid) list"

definition init_world :: "db \<Rightarrow> world" where
  "init_world d = \<lparr>store = d, sockets = [], players = [], waitingQueue = [], invitations = [],
     rooms = (\<lambda>_. []), timers = [], outbox = [], thrown = [],
     chat = empty_chat, sock_user = []\<rparr>"

subsection \<open>socket.io and helpers\<close>

definition emit :: "target \<Rightarrow> msg \<Rightarrow> world \<Rightarrow> world" where
  "emit t m w = w\<lparr>outbox := outbox w @ [(t, m)]\<rparr>"

text \<open>\<open>server.to(s1).to(s2)...\<close> with socket ids that may be \<open>undefined\<close>:
  an \<open>undefined\<close> room has no member.\<close>

definition to_socks :: "sid option list \<Rightarrow> target" where
  "to_socks ss = ToRooms (List.map_filter (map_option SockRoom) ss)"

definition join :: "sid \<Rightarrow> room \<Rightarrow> world \<Rightarrow> world" where
  "join s r w = w\<lparr>rooms := (rooms w)(r := os_add s (rooms w r))\<rparr>"

definition leave :: "sid \<Rightarrow> room \<Rightarrow> world \<Rightarrow> world" where
  "leave s r w = w\<lparr>rooms := (rooms w)(r := os_del s (rooms w r))\<rparr>"

text \<open>What socket.io does to a socket before its \<open>disconnect\<close> handlers run.\<close>

definition leave_all :: "sid \<Rightarrow> world \<Rightarrow> world" where
  "leave_all s w = w\<lparr>rooms := (\<lambda>r. os_del s (rooms w r))\<rparr>"

definition throw :: "string \<Rightarrow> world \<Rightarrow> world" where
  "throw e w = w\<lparr>thrown := thrown w @ [e]\<rparr>"

definition on_store :: "(db \<Rightarrow> db) \<Rightarrow> world \<Rightarrow> world" where
  "on_store f w = w\<lparr>store := f (store w)\<rparr>"

text \<open>\<open>getKeyByValue\<close> (lines 870-875): the first key in insertion order.\<close>

definition getKeyByValue :: "(sid \<times> authid) list \<Rightarrow> authid \<Rightarrow> sid option" where
  "getKeyByValue m v = map_option fst (find (\<lambda>(k, v'). v' = v) m)"

text \<open>The socket left by \<open>room.forEach((socketId) => socketWinner = socketId)\<close>.\<close>

definition last_in_room :: "world \<Rightarrow> room \<Rightarrow> sid option" where
  "last_in_room w r = last_opt (rooms w r)"

text \<open>Who receives an event: every connected socket, or the members of the rooms.\<close>

fun recipients :: "world \<Rightarrow> target \<Rightarrow> sid set" where
  "recipients w Everyone = set (sockets w)"
| "recipients w (ToRooms rs) =
     (\<Union>r\<in>set rs. (case r of SockRoom s \<Rightarrow> {s} \<inter> set (sockets w) | _ \<Rightarrow> set (rooms w r)))"

text \<open>The events a socket has been sent so far.\<close>

definition received :: "world \<Rightarrow> sid \<Rightarrow> msg list" where
  "received w s = map snd (filter (\<lambda>(t, m). s \<in> recipients w t) (outbox w))"

subsection \<open>A sample store\<close>

text \<open>Three online users; \<open>carol\<close> has blocked \<open>alice\<close>.\<close>

definition lobby_db :: db where
  "lobby_db = \<lparr>users =
      [\<lparr>u_id = 1, u_authId = 101, u_username = ''alice'', u_status = ONLINE,
         wins = 0, loses = 0, usersBlocked = []\<rparr>,
       \<lparr>u_id = 2, u_authId = 102, u_username = ''bob'', u_status = ONLINE,
         wins = 0, loses = 0, usersBlocked = []\<rparr>,
       \<lparr>u_id = 3, u_authId = 103, u_username = ''carol'', u_status = ONLINE,
         wins = 0, loses = 0, usersBlocked = [1]\<rparr>],
     games = [], next_gid = 7, friends = []\<rparr>"

text \<open>The three users connected on sockets \<open>s1\<close>, \<open>s2\<close>, \<open>s3\<close>.\<close>

definition lobby_world :: world where
  "lobby_world = (init_world lobby_db)\<lparr>sockets := [''s1'', ''s2'', ''s3''],
      players := [(''s1'', 101), (''s2'', 102), (''s3'', 103)]\<rparr>"

subsection \<open>Frame lemmas\<close>

lemma emit_simps [simp]:
  "store (emit t m w) = store w" "sockets (emit t m w) = sockets w" "players (emit t m w) = players w"
  "waitingQueue (emit t m w) = waitingQueue w" "invitations (emit t m w) = invitations w"
  "rooms (emit t m w) = rooms w" "timers (emit t m w) = timers w" "thrown (emit t m w) = thrown w"
  "outbox (emit t m w) = outbox w @ [(t, m)]"
  "chat (emit t m w) = chat w" "sock_user (emit t m w) = sock_user w"
  by (simp_all add: emit_def)

lemma throw_simps [simp]:
  "store (throw e w) = store w" "sockets (throw e w) = sockets w" "players (throw e w) = players w"
  "waitingQueue (throw e w) = waitingQueue w" "invitations (throw e w) = invitations w"
  "rooms (throw e w) = rooms w" "timers (throw e w) = timers w" "outbox (throw e w) = outbox w"
  "thrown (throw e w) = thrown w @ [e]"
  "chat (throw e w) = chat w" "sock_user (throw e w) = sock_user w"
  by (simp_all add: throw_def)

lemma on_store_simps [simp]:
  "store (on_store f w) = f (store w)" "sockets (on_store f w) = sockets w"
  "players (on_store f w) = players w"
  "waitingQueue (on_store f w) = waitingQueue w" "invitations (on_store f w) = invitations w"
  "rooms (on_store f w) = rooms w" "timers (on_store f w) = timers w" "outbox (on_store f w) = outbox w"
  "thrown (on_store f w) = thrown w"
  "chat (on_store f w) = chat w" "sock_user (on_store f w) = sock_user w"
  by (simp_all add: on_store_def)

lemma join_simps [simp]:
  "store (join s r w) = store w" "sockets (join s r w) = sockets w" "players (join s r w) = players w"
  "waitingQueue (join s r w) = waitingQueue w" "invitations (join s r w) = invitations w"
  "timers (join s r w) = timers w" "outbox (join s r w) = outbox w" "thrown (join s r w) = thrown w"
  "rooms (join s r w) = (rooms w)(r := os_add s (rooms w r))"
  "chat (join s r w) = chat w" "sock_user (join s r w) = sock_user w"
  by (simp_all add: join_def)

lemma leave_simps [simp]:
  "store (leave s r w) = store w" "sockets (leave s r w) = sockets w" "players (leave s r w) = players w"
  "waitingQueue (leave s r w) = waitingQueue w" "invitations (leave s r w) = invitations w"
  "timers (leave s r w) = timers w" "outbox (leave s r w) = outbox w" "thrown (leave s r w) = thrown w"
  "rooms (leave s r w) = (rooms w)(r := os_del s (rooms w r))"
  "chat (leave s r w) = chat w" "sock_user (leave s r w) = sock_user w"
  by (simp_all add: leave_def)

lemma leave_all_simps [simp]:
  "store (leave_all s w) = store w" "sockets (leave_all s w) = sockets w"
  "players (leave_all s w) = players w"
  "waitingQueue (leave_all s w) = waitingQueue w" "invitations (leave_all s w) = invitations w"
  "timers (leave_all s w) = timers w" "outbox (leave_all s w) = outbox w"
  "thrown (leave_all s w) = thrown w"
  "rooms (leave_all s w) = (\<lambda>r. os_del s (rooms w r))"
  "chat (leave_all s w) = chat w" "sock_user (leave_all s w) = sock_user w"
  by (simp_all add: leave_all_def)

lemma getKeyByValue_Some: "getKeyByValue m v = Some k \<Longrightarrow> (k, v) \<in> set m"
  by (auto simp: getKeyByValue_def find_Some_iff dest: nth_mem)

lemma getKeyByValue_None: "getKeyByValue m v = None \<longleftrightarrow> v \<notin> snd ` set m"
  by (force simp: getKeyByValue_def find_None_iff)

lemma lobby_world_facts:
  "map_of (players lobby_world) ''s1'' = Some 101"
  "getUserByAuthId (store lobby_world) 101 = Some \<lparr>u_id = 1, u_authId = 101, u_username = ''alice'',
      u_status = ONLINE, wins = 0, loses = 0, usersBlocked = []\<rparr>"
  "getUserById (store lobby_world) 2 = Some \<lparr>u_id = 2, u_authId = 102, u_username = ''bob'',
      u_status = ONLINE, wins = 0, loses = 0, usersBlocked = []\<rparr>"
  "getUserById (store lobby_world) 3 = Some \<lparr>u_id = 3, u_authId = 103, u_username = ''carol'',
      u_status = ONLINE, wins = 0, loses = 0, usersBlocked = [1]\<rparr>"
  "getUserByAuthId (store lobby_world) 103 = Some \<lparr>u_id = 3, u_authId = 103, u_username = ''carol'',
      u_status = ONLINE, wins = 0, loses = 0, usersBlocked = [1]\<rparr>"
  "checkStatus (store lobby_world) 102 = Some ONLINE"
  "getKeyByValue (players lobby_world) 102 = Some ''s2''"
  "invitations lobby_world = []"
  by (simp_all add: lobby_world_def init_world_def lobby_db_def getUserByAuthId_def getUserById_def
      checkStatus_def getKeyByValue_def)

end
