(* ===== verification/Matchmaking.thy ===== *)
theory Matchmaking
  imports Gateway
begin

text \<open>
  The matchmaking queue of \<open>GameGateway\<close>: the handlers \<open>join-room\<close>
  (\<open>joinRoom\<close>, lines 631-697) and \<open>leaveQueue\<close> (lines 293-307).  A join
  appends the caller to \<open>waitingQueue\<close>; as soon as two entries wait, the two
  oldest are removed and a game is created with the older one on the left.
  The theorems show the strict FIFO pairing, that a second join of a queued
  identity does not change the queue, and that the queue never holds more than
  one entry.
\<close>

text \<open>The \<open>IUser\<close> object \<open>joinRoom\<close> builds for the caller.\<close>

definition queue_entry :: "sid \<Rightarrow> userid \<Rightarrow> authid \<Rightarrow> db \<Rightarrow> iuser" where
  "queue_entry client userId userAuthId d =
     \<lparr>iu_id = userId, iu_authId = userAuthId, iu_username = getUserNameByAuthId d userAuthId,
      iu_status = checkStatus d userAuthId, socketId = Some client\<rparr>"

definition joinRoom :: "sid \<Rightarrow> userid \<Rightarrow> authid \<Rightarrow> world \<Rightarrow> world" where
  "joinRoom client userId userAuthId w =
     (let d = store w;
          user = queue_entry client userId userAuthId d
      in if checkStatus d userAuthId = Some INGAME \<or> checkStatus d userAuthId = Some INQUEUE
         then emit (ToRooms [SockRoom client]) ErrorMsg w
         else
           let w1 = emit Everyone (Update 28) (on_store (\<lambda>d. setStatus d userId INQUEUE) w)
           in if list_ex (\<lambda>u. iu_authId u = userAuthId) (waitingQueue w1) then w1
              else
                let q = waitingQueue w1 @ [user]
                in if length q < 2 then w1\<lparr>waitingQueue := q\<rparr>
                   else
                     let user1 = q ! 0; user2 = q ! 1;
                         (d2, g) = createGame (store w1) (iu_username user1) (iu_username user2)
                                     (socketId user1) (socketId user2) (iu_authId user1) (iu_authId user2)
                     in emit (to_socks [socketId user1, socketId user2]) (MatchFound (game_id g))
                          (w1\<lparr>waitingQueue := drop 2 q, store := d2\<rparr>))"

definition leaveQueue :: "sid \<Rightarrow> authid \<Rightarrow> world \<Rightarrow> world" where
  "leaveQueue client userAuthId w =
     (case find_index (\<lambda>u. socketId u = Some client) (waitingQueue w) of
        None \<Rightarrow> w
      | Some i \<Rightarrow>
          if socketId (waitingQueue w ! i) = Some client then
            let w1 = emit Everyone (Update 28) (on_store (\<lambda>d. setStatusWithauthId d userAuthId ONLINE) w)
            in w1\<lparr>waitingQueue := remove_nth i (waitingQueue w1)\<rparr>
          else w)"

definition alice_waiting :: world where
  "alice_waiting = joinRoom ''s1'' 1 101 (init_world lobby_db)"

lemma joinRoom_busy:
  "checkStatus (store w) a = Some INGAME \<or> checkStatus (store w) a = Some INQUEUE \<Longrightarrow>
   joinRoom c uid a w = emit (ToRooms [SockRoom c]) ErrorMsg w"
  by (auto simp: joinRoom_def)

lemma joinRoom_queued:
  "checkStatus (store w) a \<notin> {Some INGAME, Some INQUEUE} \<Longrightarrow> a \<in> iu_authId ` set (waitingQueue w) \<Longrightarrow>
   joinRoom c uid a w = emit Everyone (Update 28) (on_store (\<lambda>d. setStatus d uid INQUEUE) w)"
  by (auto simp: joinRoom_def list_ex_iff Let_def)

lemma joinRoom_fresh:
  assumes "checkStatus (store w) a \<notin> {Some INGAME, Some INQUEUE}" "a \<notin> iu_authId ` set (waitingQueue w)"
  shows "joinRoom c uid a w =
    (let w1 = emit Everyone (Update 28) (on_store (\<lambda>d. setStatus d uid INQUEUE) w);
         q = waitingQueue w @ [queue_entry c uid a (store w)]
     in if length q < 2 then w1\<lparr>waitingQueue := q\<rparr>
        else let (d2, g) = createGame (store w1) (iu_username (q ! 0)) (iu_username (q ! 1))
                              (socketId (q ! 0)) (socketId (q ! 1)) (iu_authId (q ! 0)) (iu_authId (q ! 1))
             in emit (to_socks [socketId (q ! 0), socketId (q ! 1)]) (MatchFound (game_id g))
                  (w1\<lparr>waitingQueue := drop 2 q, store := d2\<rparr>))"
  using assms by (auto simp: joinRoom_def list_ex_iff Let_def)

text \<open>C5 (strict FIFO pairing): when an identity that is neither in game nor queued joins a non-empty queue, the two oldest entries of the queue extended by the caller are removed, a new game row is created with the oldest entry as left player and the next one as right player (scores 0, no winner, not finished), and both of their sockets are sent match-found with the new game's id.\<close>

theorem joinRoom_fifo:
  assumes ok: "checkStatus (store w) a \<notin> {Some INGAME, Some INQUEUE}"
    and fresh: "a \<notin> iu_authId ` set (waitingQueue w)"
    and waiting: "waitingQueue w \<noteq> []"
  shows "let q = waitingQueue w @ [queue_entry c uid a (store w)]; w' = joinRoom c uid a w
         in waitingQueue w' = drop 2 q
          \<and> (\<exists>g. games (store w') = games (store w) @ [g]
                 \<and> game_id g = next_gid (store w)
                 \<and> leftPlayerId g = iu_authId (q ! 0) \<and> rightPlayerId g = iu_authId (q ! 1)
                 \<and> leftPlayerSocket g = socketId (q ! 0) \<and> rightPlayerSocket g = socketId (q ! 1)
                 \<and> scoreLeftPlayer g = 0 \<and> scoreRightPlayer g = 0
                 \<and> winnerId g = None \<and> loserId g = None \<and> \<not> isFinished g)
          \<and> outbox w' = outbox w @ [(Everyone, Update 28),
                (to_socks [socketId (q ! 0), socketId (q ! 1)], MatchFound (next_gid (store w)))]"
  using waiting
  by (simp add: joinRoom_fresh [OF ok fresh] Let_def createGame_def)

text \<open>(no double queue): a join-room from an identity that already waits leaves the queue and the game table unchanged.\<close>

theorem joinRoom_no_double_queue:
  assumes "a \<in> iu_authId ` set (waitingQueue w)"
  shows "waitingQueue (joinRoom c uid a w) = waitingQueue w
       \<and> games (store (joinRoom c uid a w)) = games (store w)"
proof (cases "checkStatus (store w) a = Some INGAME \<or> checkStatus (store w) a = Some INQUEUE")
  case True
  then show ?thesis by (simp add: joinRoom_busy)
next
  case False
  with assms show ?thesis by (simp add: joinRoom_queued)
qed

lemma joinRoom_queue_le1:
  assumes "length (waitingQueue w) \<le> 1"
  shows "length (waitingQueue (joinRoom c uid a w)) \<le> 1"
proof (cases "checkStatus (store w) a \<notin> {Some INGAME, Some INQUEUE} \<and> a \<notin> iu_authId ` set (waitingQueue w)")
  case True
  then show ?thesis
    using assms by (auto simp: joinRoom_fresh Let_def split: prod.split)
next
  case False
  then consider "checkStatus (store w) a = Some INGAME \<or> checkStatus (store w) a = Some INQUEUE"
    | "checkStatus (store w) a \<notin> {Some INGAME, Some INQUEUE}" "a \<in> iu_authId ` set (waitingQueue w)"
    by auto
  then show ?thesis
  proof cases
    case 1
    with assms show ?thesis by (simp add: joinRoom_busy)
  next
    case 2
    with assms show ?thesis by (simp add: joinRoom_queued)
  qed
qed

lemma leaveQueue_found:
  "find_index (\<lambda>u. socketId u = Some c) (waitingQueue w) = Some i \<Longrightarrow>
   leaveQueue c a w = (emit Everyone (Update 28) (on_store (\<lambda>d. setStatusWithauthId d a ONLINE) w))
                        \<lparr>waitingQueue := remove_nth i (waitingQueue w)\<rparr>"
  using find_index_Some [of "\<lambda>u. socketId u = Some c" "waitingQueue w" i]
  by (simp add: leaveQueue_def Let_def)

lemma leaveQueue_absent:
  "find_index (\<lambda>u. socketId u = Some c) (waitingQueue w) = None \<Longrightarrow> leaveQueue c a w = w"
  by (simp add: leaveQueue_def)

lemma leaveQueue_queue_subset: "set (waitingQueue (leaveQueue c a w)) \<subseteq> set (waitingQueue w)"
  by (cases "find_index (\<lambda>u. socketId u = Some c) (waitingQueue w)")
     (simp_all add: leaveQueue_found leaveQueue_absent set_remove_nth)

lemma leaveQueue_queue_le1:
  "length (waitingQueue w) \<le> 1 \<Longrightarrow> length (waitingQueue (leaveQueue c a w)) \<le> 1"
  by (cases "find_index (\<lambda>u. socketId u = Some c) (waitingQueue w)")
     (auto simp: leaveQueue_found leaveQueue_absent remove_nth_find_index
       intro: order_trans [OF length_remove1_le])

text \<open>C6 (leaving the queue): with distinct sockets in the queue, leaveQueue removes exactly the caller's entry and, when there was one, sets the payload identity's presence to ONLINE.\<close>

theorem leaveQueue_removes_caller:
  assumes "distinct (map socketId (waitingQueue w))"
  shows "set (waitingQueue (leaveQueue c a w)) = {u \<in> set (waitingQueue w). socketId u \<noteq> Some c}
       \<and> ((\<exists>u\<in>set (waitingQueue w). socketId u = Some c) \<longrightarrow> getUserByAuthId (store w) a \<noteq> None \<longrightarrow>
            checkStatus (store (leaveQueue c a w)) a = Some ONLINE)"
proof (cases "find_index (\<lambda>u. socketId u = Some c) (waitingQueue w)")
  case None
  then show ?thesis by (auto simp: leaveQueue_absent model_simps)
next
  case (Some i)
  have i: "i < length (waitingQueue w)" "socketId (waitingQueue w ! i) = Some c"
    using find_index_Some [OF Some] by auto
  have "set (remove1 (waitingQueue w ! i) (waitingQueue w)) = set (waitingQueue w) - {waitingQueue w ! i}"
    using assms by (simp add: distinct_map set_remove1_eq)
  moreover have "{u \<in> set (waitingQueue w). socketId u = Some c} = {waitingQueue w ! i}"
    using assms i by (auto simp: distinct_map inj_on_def in_set_conv_nth) (metis nth_mem)
  ultimately have "set (remove_nth i (waitingQueue w)) = {u \<in> set (waitingQueue w). socketId u \<noteq> Some c}"
    by (auto simp: remove_nth_find_index [OF Some])
  then show ?thesis
    by (auto simp: leaveQueue_found [OF Some] checkStatus_setStatusWithauthId)
qed

lemma alice_waiting_facts:
  "waitingQueue alice_waiting = [queue_entry ''s1'' 1 101 lobby_db]"
  "checkStatus (store alice_waiting) 102 = Some ONLINE"
  "getUserByAuthId (store alice_waiting) 101 \<noteq> None"
  "next_gid (store alice_waiting) = 7" "games (store alice_waiting) = []"
  by (simp_all add: alice_waiting_def joinRoom_def init_world_def Let_def checkStatus_def
      getUserByAuthId_def lobby_db_def setStatus_def upd_user_def)

theorem joinRoom_fifo_witness:
  "waitingQueue (joinRoom ''s2'' 2 102 (joinRoom ''s1'' 1 101 (init_world lobby_db))) = []
   \<and> map (\<lambda>g. (leftPlayerId g, rightPlayerId g))
       (games (store (joinRoom ''s2'' 2 102 (joinRoom ''s1'' 1 101 (init_world lobby_db))))) = [(101, 102)]
   \<and> last (outbox (joinRoom ''s2'' 2 102 (joinRoom ''s1'' 1 101 (init_world lobby_db)))) =
       (to_socks [Some ''s1'', Some ''s2''], MatchFound 7)"
proof -
  define w1 where "w1 = joinRoom ''s1'' 1 101 (init_world lobby_db)"
  have q1: "waitingQueue w1 = [queue_entry ''s1'' 1 101 lobby_db]"
    by (simp add: w1_def joinRoom_def init_world_def Let_def checkStatus_def getUserByAuthId_def lobby_db_def)
  have s1: "checkStatus (store w1) 102 = Some ONLINE" "next_gid (store w1) = 7" "games (store w1) = []"
    by (simp_all add: w1_def joinRoom_def init_world_def Let_def checkStatus_def getUserByAuthId_def
        lobby_db_def setStatus_def upd_user_def)
  have ok: "checkStatus (store w1) 102 \<notin> {Some INGAME, Some INQUEUE}" using s1 by simp
  have fresh: "(102::nat) \<notin> iu_authId ` set (waitingQueue w1)" by (simp add: q1 queue_entry_def)
  from joinRoom_fifo [OF ok fresh, of "''s2''" 2] q1 s1 show ?thesis
    by (auto simp: w1_def Let_def queue_entry_def)
qed

theorem joinRoom_no_double_queue_witness:
  "waitingQueue (joinRoom ''s3'' 1 101 alice_waiting) = [queue_entry ''s1'' 1 101 lobby_db]"
proof -
  have "(101::nat) \<in> iu_authId ` set (waitingQueue alice_waiting)"
    by (simp add: alice_waiting_facts queue_entry_def)
  from joinRoom_no_double_queue [OF this, of "''s3''" 1] show ?thesis
    by (simp add: alice_waiting_facts)
qed

theorem leaveQueue_removes_caller_witness:
  "waitingQueue (leaveQueue ''s1'' 101 alice_waiting) = []
   \<and> checkStatus (store (leaveQueue ''s1'' 101 alice_waiting)) 101 = Some ONLINE"
proof -
  have "distinct (map socketId (waitingQueue alice_waiting))" by (simp add: alice_waiting_facts)
  moreover have "find_index (\<lambda>u. socketId u = Some ''s1'') (waitingQueue alice_waiting) = Some 0"
    by (simp add: alice_waiting_facts queue_entry_def)
  ultimately show ?thesis
    using leaveQueue_removes_caller [of alice_waiting "''s1''" 101]
    by (simp add: leaveQueue_found alice_waiting_facts remove_nth_def queue_entry_def)
qed

end
