(* ===== verification/Invites.thy ===== *)
theory Invites
  imports Gateway
begin

text \<open>
  The invite broker of \<open>GameGateway\<close>: \<open>inviteInit\<close> (lines 708-784),
  \<open>inviteAccepted\<close> (lines 786-836) and \<open>inviteDeclined\<close> (lines 838-857)
  over the \<open>invitations\<close> array.  The theorems show the guards of
  \<open>inviteInit\<close> (a blocked or busy invitee gets nothing), that no two pending
  invitations have the same ordered pair of identities, what an acceptance
  creates and removes, and that \<open>inviteDeclined\<close> ignores its payload: it
  always removes the first pending invitation.
\<close>

text \<open>The \<open>IUser\<close> built from a user row; \<open>status\<close> is read again by
  \<open>checkStatus\<close>.\<close>

definition iuser_of :: "db \<Rightarrow> user \<Rightarrow> sid option \<Rightarrow> iuser" where
  "iuser_of d u s = \<lparr>iu_id = u_id u, iu_authId = u_authId u, iu_username = Some (u_username u),
                     iu_status = checkStatus d (u_authId u), socketId = s\<rparr>"

text \<open>\<open>!invited.username\<close>: an empty string is falsy.\<close>

definition falsy_name :: "string option \<Rightarrow> bool" where
  "falsy_name n \<longleftrightarrow> n = None \<or> n = Some []"

definition same_pair :: "iuser \<Rightarrow> iuser \<Rightarrow> invite \<Rightarrow> bool" where
  "same_pair a b iv \<longleftrightarrow> iu_authId (invited iv) = iu_authId b \<and> iu_authId (inviter iv) = iu_authId a"

text \<open>\<open>invitedBlockList.usersBlocked.includes(inviter.id)\<close>; the row is there
  whenever this disjunct is reached (a missing row makes \<open>statusInvited\<close>
  undefined, and the guard returns earlier).\<close>

definition blocked_by :: "db \<Rightarrow> iuser \<Rightarrow> iuser \<Rightarrow> bool" where
  "blocked_by d a b = (case getUserByAuthId d (iu_authId b) of
                          None \<Rightarrow> False | Some u \<Rightarrow> iu_id a \<in> set (usersBlocked u))"

definition inviteInit :: "sid \<Rightarrow> userid \<Rightarrow> world \<Rightarrow> world" where
  "inviteInit client target w =
     (let d = store w in
      case map_of (players w) client of
        None \<Rightarrow> w
      | Some a \<Rightarrow>
          (case (getUserByAuthId d a, getUserById d target) of
             (Some inviterTmp, Some invitedTmp) \<Rightarrow>
               let inviter = iuser_of d inviterTmp (Some client);
                   invited = iuser_of d invitedTmp (getKeyByValue (players w) (u_authId invitedTmp));
                   statusInvited = checkStatus d (iu_authId invited)
               in if falsy_name (iu_username invited) \<or> statusInvited \<noteq> Some ONLINE
                     \<or> list_ex (same_pair inviter invited) (invitations w)
                     \<or> iu_authId inviter = iu_authId invited \<or> blocked_by d inviter invited
                  then w
                  else emit (to_socks [socketId invited]) (Invitation (iu_id inviter) (iu_username inviter))
                         (w\<lparr>invitations := invitations w @ [\<lparr>inviter = inviter, invited = invited\<rparr>]\<rparr>)
           | _ \<Rightarrow> w))"

definition inviteAccepted :: "userid \<Rightarrow> userid \<Rightarrow> world \<Rightarrow> world" where
  "inviteAccepted invitedId inviterId w =
     (case find (\<lambda>iv. iu_id (invited iv) = invitedId \<and> iu_id (inviter iv) = inviterId) (invitations w) of
        None \<Rightarrow> w
      | Some iv \<Rightarrow>
          let w1 = w\<lparr>invitations := filter (\<lambda>i. iu_id (inviter i) \<noteq> inviterId) (invitations w)\<rparr>;
              a = inviter iv; b = invited iv;
              (d, g) = createGame (store w1) (iu_username a) (iu_username b) (socketId a) (socketId b)
                         (iu_authId a) (iu_authId b);
              d' = setStatus (setStatus d (iu_id a) INGAME) (iu_id b) INGAME
          in emit (to_socks [socketId b]) (InviteAcceptedMsg b (game_id g))
               (emit (to_socks [socketId a]) (InviteAcceptedMsg a (game_id g))
                 (emit Everyone (Update 28) (w1\<lparr>store := d'\<rparr>))))"

text \<open>The loop takes the first invitation whatever the payload says, and the
  filter removes every invitation with that invitation's pair of user ids.\<close>

definition inviteDeclined :: "userid \<Rightarrow> userid \<Rightarrow> world \<Rightarrow> world" where
  "inviteDeclined invitedId inviterId w =
     (case invitations w of
        [] \<Rightarrow> w
      | iv # _ \<Rightarrow>
          w\<lparr>invitations := filter (\<lambda>i. iu_id (inviter i) \<noteq> iu_id (inviter iv)
                                        \<or> iu_id (invited i) \<noteq> iu_id (invited iv)) (invitations w)\<rparr>)"


text \<open>No two pending invitations have the same (inviter, invited) pair of auth ids.\<close>

definition invites_unique :: "world \<Rightarrow> bool" where
  "invites_unique w \<longleftrightarrow> distinct (map (\<lambda>i. (iu_authId (inviter i), iu_authId (invited i))) (invitations w))"

text \<open>Two sample invitations to \<open>bob\<close>.\<close>

definition iv_alice_bob :: invite where
  "iv_alice_bob = \<lparr>inviter = \<lparr>iu_id = 1, iu_authId = 101, iu_username = Some ''alice'',
                               iu_status = Some ONLINE, socketId = Some ''s1''\<rparr>,
                   invited = \<lparr>iu_id = 2, iu_authId = 102, iu_username = Some ''bob'',
                               iu_status = Some ONLINE, socketId = Some ''s2''\<rparr>\<rparr>"

definition iv_carol_bob :: invite where
  "iv_carol_bob = \<lparr>inviter = \<lparr>iu_id = 3, iu_authId = 103, iu_username = Some ''carol'',
                               iu_status = Some ONLINE, socketId = Some ''s3''\<rparr>,
                   invited = \<lparr>iu_id = 2, iu_authId = 102, iu_username = Some ''bob'',
                               iu_status = Some ONLINE, socketId = Some ''s2''\<rparr>\<rparr>"



lemma invites_unique_filter:
  "invites_unique w \<Longrightarrow> invitations w' = filter P (invitations w) \<Longrightarrow> invites_unique w'"
  by (simp add: invites_unique_def distinct_map_filter)

lemma inviteInit_cases:
  "inviteInit c t w = w \<or>
   (\<exists>a b. \<not> list_ex (same_pair a b) (invitations w) \<and>
          inviteInit c t w = emit (to_socks [socketId b]) (Invitation (iu_id a) (iu_username a))
                               (w\<lparr>invitations := invitations w @ [\<lparr>inviter = a, invited = b\<rparr>]\<rparr>))"
  by (auto simp: inviteInit_def Let_def split: option.split)

lemma inviteInit_unique:
  assumes "invites_unique w"
  shows "invites_unique (inviteInit c t w)"
proof -
  from inviteInit_cases [of c t w] show ?thesis
  proof
    assume "inviteInit c t w = w"
    then show ?thesis using assms by simp
  next
    assume "\<exists>a b. \<not> list_ex (same_pair a b) (invitations w) \<and>
          inviteInit c t w = emit (to_socks [socketId b]) (Invitation (iu_id a) (iu_username a))
                               (w\<lparr>invitations := invitations w @ [\<lparr>inviter = a, invited = b\<rparr>]\<rparr>)"
    then obtain a b where fresh: "\<not> list_ex (same_pair a b) (invitations w)"
      and eq: "inviteInit c t w = emit (to_socks [socketId b]) (Invitation (iu_id a) (iu_username a))
                               (w\<lparr>invitations := invitations w @ [\<lparr>inviter = a, invited = b\<rparr>]\<rparr>)"
      by blast
    from fresh have "(iu_authId a, iu_authId b) \<notin> (\<lambda>i. (iu_authId (inviter i), iu_authId (invited i))) ` set (invitations w)"
      by (force simp: list_ex_iff same_pair_def)
    with assms show ?thesis by (simp add: eq invites_unique_def)
  qed
qed

lemma inviteAccepted_unique: "invites_unique w \<Longrightarrow> invites_unique (inviteAccepted x y w)"
  by (auto simp: inviteAccepted_def Let_def invites_unique_def distinct_map_filter
      split: option.split prod.split)

lemma inviteDeclined_unique: "invites_unique w \<Longrightarrow> invites_unique (inviteDeclined x y w)"
  by (auto simp: inviteDeclined_def invites_unique_def distinct_map_filter split: list.split)

text \<open>C34 (inviteInit, blocked invitee): when the invited user's row lists the inviter's user id among \<open>usersBlocked\<close>, \<open>inviteInit\<close> changes nothing: no invitation is stored and nothing is emitted.\<close>

theorem inviteInit_blocked:
  assumes "map_of (players w) c = Some a"
    and "getUserByAuthId (store w) a = Some ur" "getUserById (store w) t = Some ut"
    and "getUserByAuthId (store w) (u_authId ut) = Some ub" "u_id ur \<in> set (usersBlocked ub)"
  shows "inviteInit c t w = w"
  using assms by (simp add: inviteInit_def Let_def blocked_by_def iuser_of_def)

text \<open>(inviteInit, accepted request): when the invitee exists, has a non-empty name, is ONLINE, is not the inviter, has not blocked the inviter and no invitation with the same pair is pending, \<open>inviteInit\<close> appends exactly one invitation and sends \<open>invitation\<close> with the inviter's id and name to the invitee's socket only.\<close>

theorem inviteInit_sends:
  assumes "map_of (players w) c = Some a"
    and "getUserByAuthId (store w) a = Some ur" "getUserById (store w) t = Some ut"
    and "u_username ut \<noteq> []" "checkStatus (store w) (u_authId ut) = Some ONLINE"
    and "\<forall>i\<in>set (invitations w). (iu_authId (inviter i), iu_authId (invited i)) \<noteq> (u_authId ur, u_authId ut)"
    and "u_authId ur \<noteq> u_authId ut"
    and "\<not> blocked_by (store w) (iuser_of (store w) ur (Some c)) (iuser_of (store w) ut None)"
  shows "inviteInit c t w =
           emit (to_socks [getKeyByValue (players w) (u_authId ut)]) (Invitation (u_id ur) (Some (u_username ur)))
             (w\<lparr>invitations := invitations w @
                 [\<lparr>inviter = iuser_of (store w) ur (Some c),
                   invited = iuser_of (store w) ut (getKeyByValue (players w) (u_authId ut))\<rparr>]\<rparr>)"
  using assms
  by (auto simp: inviteInit_def Let_def blocked_by_def iuser_of_def falsy_name_def list_ex_iff same_pair_def)

text \<open>C33 (inviteAccepted): when a pending invitation matches the payload, accepting it drops every invitation of that inviter, creates one game with the inviter on the left and the invited user on the right, puts both users INGAME, and emits \<open>update\<close> then \<open>inviteAccepted\<close> to each of the two sockets.\<close>

theorem inviteAccepted_spec:
  assumes "find (\<lambda>iv. iu_id (invited iv) = x \<and> iu_id (inviter iv) = y) (invitations w) = Some iv"
  shows "invitations (inviteAccepted x y w) = filter (\<lambda>i. iu_id (inviter i) \<noteq> y) (invitations w)
       \<and> (\<exists>g. games (store (inviteAccepted x y w)) = games (store w) @ [g]
              \<and> game_id g = next_gid (store w)
              \<and> leftPlayerId g = iu_authId (inviter iv) \<and> rightPlayerId g = iu_authId (invited iv))
       \<and> (\<forall>u\<in>set (users (store (inviteAccepted x y w))).
            u_id u = iu_id (inviter iv) \<or> u_id u = iu_id (invited iv) \<longrightarrow> u_status u = INGAME)
       \<and> outbox (inviteAccepted x y w) = outbox w @
           [(Everyone, Update 28),
            (to_socks [socketId (inviter iv)], InviteAcceptedMsg (inviter iv) (next_gid (store w))),
            (to_socks [socketId (invited iv)], InviteAcceptedMsg (invited iv) (next_gid (store w)))]"
  using assms
  by (auto simp: inviteAccepted_def Let_def createGame_def setStatus_def upd_user_def list_ex_iff)

text \<open>C35 (inviteDeclined ignores its payload): declining a pending invitation that is not the first one removes the first invitation instead and leaves the one named by the payload pending.\<close>

theorem inviteDeclined_ignores_payload:
  assumes "invitations w = i1 # rest" "i2 \<in> set rest"
    and "(iu_id (inviter i2), iu_id (invited i2)) \<noteq> (iu_id (inviter i1), iu_id (invited i1))"
  shows "i2 \<in> set (invitations (inviteDeclined (iu_id (invited i2)) (iu_id (inviter i2)) w))
       \<and> i1 \<notin> set (invitations (inviteDeclined (iu_id (invited i2)) (iu_id (inviter i2)) w))"
  using assms by (auto simp: inviteDeclined_def)



theorem inviteInit_blocked_witness: "inviteInit ''s1'' 3 lobby_world = lobby_world"
proof -
  have "getUserByAuthId (store lobby_world) (u_authId \<lparr>u_id = 3, u_authId = 103, u_username = ''carol'',
      u_status = ONLINE, wins = 0, loses = 0, usersBlocked = [1]\<rparr>) = Some \<lparr>u_id = 3, u_authId = 103,
      u_username = ''carol'', u_status = ONLINE, wins = 0, loses = 0, usersBlocked = [1]\<rparr>"
    using lobby_world_facts(5) by simp
  from inviteInit_blocked [OF lobby_world_facts(1,2,4) this] show ?thesis by simp
qed

theorem inviteInit_sends_witness:
  "map (\<lambda>i. (iu_authId (inviter i), iu_authId (invited i))) (invitations (inviteInit ''s1'' 2 lobby_world)) = [(101, 102)]
   \<and> last (outbox (inviteInit ''s1'' 2 lobby_world)) = (to_socks [Some ''s2''], Invitation 1 (Some ''alice''))"
proof -
  have nb: "\<not> blocked_by (store lobby_world)
              (iuser_of (store lobby_world) \<lparr>u_id = 1, u_authId = 101, u_username = ''alice'',
                 u_status = ONLINE, wins = 0, loses = 0, usersBlocked = []\<rparr> (Some ''s1''))
              (iuser_of (store lobby_world) \<lparr>u_id = 2, u_authId = 102, u_username = ''bob'',
                 u_status = ONLINE, wins = 0, loses = 0, usersBlocked = []\<rparr> None)"
    by (simp add: blocked_by_def iuser_of_def lobby_world_def init_world_def lobby_db_def getUserByAuthId_def)
  show ?thesis
    using inviteInit_sends [of lobby_world "''s1''" 101 "\<lparr>u_id = 1, u_authId = 101, u_username = ''alice'',
                 u_status = ONLINE, wins = 0, loses = 0, usersBlocked = []\<rparr>" 2 "\<lparr>u_id = 2, u_authId = 102,
                 u_username = ''bob'', u_status = ONLINE, wins = 0, loses = 0, usersBlocked = []\<rparr>"] nb
    by (simp add: lobby_world_facts iuser_of_def)
qed



theorem inviteDeclined_ignores_payload_witness:
  "invitations (inviteDeclined 2 3 (lobby_world\<lparr>invitations := [iv_alice_bob, iv_carol_bob]\<rparr>)) = [iv_carol_bob]"
proof -
  have "iv_carol_bob \<in> set (invitations (inviteDeclined 2 3 (lobby_world\<lparr>invitations := [iv_alice_bob, iv_carol_bob]\<rparr>)))
      \<and> iv_alice_bob \<notin> set (invitations (inviteDeclined 2 3 (lobby_world\<lparr>invitations := [iv_alice_bob, iv_carol_bob]\<rparr>)))"
    using inviteDeclined_ignores_payload [of "lobby_world\<lparr>invitations := [iv_alice_bob, iv_carol_bob]\<rparr>"
        iv_alice_bob "[iv_carol_bob]" iv_carol_bob]
    by (simp add: iv_alice_bob_def iv_carol_bob_def)
  then show ?thesis
    by (simp add: inviteDeclined_def iv_alice_bob_def iv_carol_bob_def)
qed

theorem inviteAccepted_spec_witness:
  "invitations (inviteAccepted 2 1 (lobby_world\<lparr>invitations := [iv_alice_bob, iv_carol_bob]\<rparr>)) = [iv_carol_bob]
   \<and> map (\<lambda>g. (leftPlayerId g, rightPlayerId g))
       (games (store (inviteAccepted 2 1 (lobby_world\<lparr>invitations := [iv_alice_bob, iv_carol_bob]\<rparr>)))) = [(101, 102)]"
proof -
  have f: "find (\<lambda>iv. iu_id (invited iv) = 2 \<and> iu_id (inviter iv) = 1)
             (invitations (lobby_world\<lparr>invitations := [iv_alice_bob, iv_carol_bob]\<rparr>)) = Some iv_alice_bob"
    by (simp add: iv_alice_bob_def)
  have g: "games (store lobby_world) = []" by (simp add: lobby_world_def init_world_def lobby_db_def)
  from inviteAccepted_spec [OF f] g show ?thesis
    by (auto simp: iv_alice_bob_def iv_carol_bob_def)
qed

end
