(* ===== verification/Session.thy ===== *)
theory Session
  imports Gateway
begin

text \<open>
  The game-session handlers of \<open>GameGateway\<close>
  (\<open>src/app/backend/src/game/game.gateway.ts\<close>): \<open>initGame\<close>,
  \<open>checkGame\<close>, \<open>leaveGame\<close>, \<open>mapSelect\<close>, \<open>gameMode\<close>, \<open>updateUser\<close>,
  \<open>paddleMove\<close>, \<open>ballMove\<close>, \<open>gameStart\<close> and \<open>gameFinished\<close>, and the
  deferred score write that \<open>ballMove\<close> schedules.  Each handler is a function
  from the world to the world; a handler that may loop returns an option.
  The theorems give each handler's behaviour on its branches: who is
  rejected, what the store and the rooms become, which events are sent in
  which order.
\<close>

subsection \<open>Reading a game\<close>

text \<open>\<open>initGame\<close> (lines 180-223).  A missing row or user row makes the
  handler stop; an outsider or a finished game is answered \<open>{payload: -1}\<close>
  on the caller's socket.  The snapshot is built before the socket joins the
  room, so a missing user row throws before any effect.\<close>

definition initGame :: "sid \<Rightarrow> authid \<Rightarrow> gid \<Rightarrow> world \<Rightarrow> world" where
  "initGame c uid i w =
     (case getGameById (store w) i of
        None \<Rightarrow> w
      | Some g \<Rightarrow>
          if isFinished g \<or> (uid \<noteq> rightPlayerId g \<and> uid \<noteq> leftPlayerId g)
          then emit (ToRooms [SockRoom c]) InitGameRejected w
          else (case (getUserByAuthId (store w) (leftPlayerId g), getUserByAuthId (store w) (rightPlayerId g)) of
                  (Some ul, Some ur) \<Rightarrow>
                    emit (ToRooms [GameRoom i]) (InitGameMsg g (u_username ul) (u_username ur))
                      (emit Everyone (Update 28)
                        (on_store (\<lambda>d. setStatus (setStatus d (u_id ul) INGAME) (u_id ur) INGAME)
                          (join c (GameRoom i) w)))
                | _ \<Rightarrow> throw ''TypeError'' w))"

text \<open>\<open>checkGame\<close> (lines 225-236): reads the row without a guard.\<close>

definition checkGame :: "gid \<Rightarrow> world \<Rightarrow> world" where
  "checkGame i w =
     (case getGameById (store w) i of
        None \<Rightarrow> throw ''TypeError'' w
      | Some g \<Rightarrow> emit (ToRooms [GameRoom i]) (CheckGameMsg (hasLeft g) (isFinished g) (gameMode g)) w)"

text \<open>\<open>leaveGame\<close> (lines 238-291).  The caller leaves the room first; the
  \<open>LEAVE\<close> notices go to the last socket still in the room, or to nobody.\<close>

definition leaveGame :: "sid \<Rightarrow> authid \<Rightarrow> gid \<Rightarrow> gameStatus \<Rightarrow> world \<Rightarrow> world" where
  "leaveGame c uid i st w =
     (let w1 = leave c (GameRoom i) w in
      case getGameById (store w1) i of
        None \<Rightarrow> w1
      | Some g \<Rightarrow>
          if isFinished g then emit Everyone (Update 28) (on_store (\<lambda>d. setStatusWithauthId d uid ONLINE) w1)
          else
            let w2 = on_store (\<lambda>d. handleLeave d g uid i) w1;
                w3 = (if st \<noteq> FINISHED
                      then emit Everyone (Update 28) (on_store (\<lambda>d. setStatusWithauthId d uid ONLINE) w2)
                      else w2);
                sw = last_in_room w3 (GameRoom (game_id g))
            in emit (to_socks [sw]) (GameStatusSelectMsg LEAVE) (emit (to_socks [sw]) (GameStatusMsg LEAVE) w3))"

subsection \<open>Map and mode selection\<close>

text \<open>The socket of the other player, \<open>undefined\<close> for a caller who is
  neither (the variable is called \<open>socketWinner\<close> in the source).\<close>

definition other_socket :: "world \<Rightarrow> game \<Rightarrow> authid \<Rightarrow> sid option" where
  "other_socket w g uid =
     (if uid = leftPlayerId g then getKeyByValue (players w) (rightPlayerId g)
      else if uid = rightPlayerId g then getKeyByValue (players w) (leftPlayerId g)
      else None)"

text \<open>The caller's side of a game row, set by \<open>prisma.game.update\<close>; a
  caller who is neither player changes nothing.\<close>

definition set_side :: "authid \<Rightarrow> (game \<Rightarrow> game) \<Rightarrow> (game \<Rightarrow> game) \<Rightarrow> game \<Rightarrow> game" where
  "set_side uid fl fr g =
     (if uid = leftPlayerId g then fl g else if uid = rightPlayerId g then fr g else g)"

text \<open>\<open>mapSelect\<close> (lines 309-362).\<close>

definition mapSelect :: "authid \<Rightarrow> gid \<Rightarrow> world \<Rightarrow> world" where
  "mapSelect uid i w =
     (case getGameById (store w) i of
        None \<Rightarrow> w
      | Some g \<Rightarrow>
          let f = set_side uid (\<lambda>x. x\<lparr>leftPlayerMap := True\<rparr>) (\<lambda>x. x\<lparr>rightPlayerMap := True\<rparr>);
              g1 = f g;
              w1 = on_store (\<lambda>d. caught (upd_game i f d) d) w;
              w2 = (if hasLeft g1 then emit (to_socks [other_socket w g1 uid]) (GameStatusMsg LEAVE) w1 else w1)
          in if leftPlayerMap g1 \<and> rightPlayerMap g1 then emit (ToRooms [GameRoom i]) MapSelected w2 else w2)"

text \<open>JavaScript truthiness of a nullable string.\<close>

definition truthy :: "string option \<Rightarrow> bool" where
  "truthy s = (case s of None \<Rightarrow> False | Some x \<Rightarrow> x \<noteq> [])"

text \<open>\<open>gameModes[Math.floor(Math.random() * gameModes.length)]\<close> for a draw
  \<open>r\<close>; an index out of range reads \<open>undefined\<close>.\<close>

definition pick_mode :: "real \<Rightarrow> string option" where
  "pick_mode r = (let k = \<lfloor>r * 2\<rfloor> in
                  if 0 \<le> k \<and> k < 2 then Some ([''normal'', ''hard''] ! nat k) else None)"

definition resolve_mode :: "real \<Rightarrow> game \<Rightarrow> game" where
  "resolve_mode r g =
     (let m = (if leftPlayerMode g = rightPlayerMode g then leftPlayerMode g else pick_mode r)
      in g\<lparr>gameMode := m, initialBallSpeed := Some (if m = Some ''normal'' then 40 else 50)\<rparr>)"

text \<open>\<open>gameModeSelect\<close> (lines 364-432), with the random draw \<open>r\<close>.\<close>

definition gameModeSelect :: "authid \<Rightarrow> gid \<Rightarrow> string \<Rightarrow> real \<Rightarrow> world \<Rightarrow> world" where
  "gameModeSelect uid i mode r w =
     (case getGameById (store w) i of
        None \<Rightarrow> w
      | Some g \<Rightarrow>
          let f = set_side uid (\<lambda>x. x\<lparr>leftPlayerMode := Some mode\<rparr>) (\<lambda>x. x\<lparr>rightPlayerMode := Some mode\<rparr>);
              g1 = f g;
              w1 = on_store (\<lambda>d. caught (upd_game i f d) d) w;
              w2 = (if hasLeft g1 then emit (to_socks [other_socket w g1 uid]) (GameStatusMsg LEAVE) w1 else w1);
              g2 = resolve_mode r g1;
              w3 = on_store (\<lambda>d. fst (updateGameDB d i g2)) w2
          in if truthy (leftPlayerMode g2) \<and> truthy (rightPlayerMode g2)
             then emit (ToRooms [GameRoom i]) (ModeSelected (gameMode g2)) w3 else w3)"

subsection \<open>Counters\<close>

text \<open>\<open>updateUser\<close> (lines 434-456): the client reports the end of its game;
  every report that is not \<open>INIT\<close> counts.\<close>

definition updateUser :: "authid \<Rightarrow> gid \<Rightarrow> gameStatus \<Rightarrow> world \<Rightarrow> world" where
  "updateUser uid i st w =
     (case getGameById (store w) i of
        None \<Rightarrow> w
      | Some g \<Rightarrow>
          if \<not> hasLeft g \<and> st \<noteq> INIT then
            (if winnerId g = Some uid then on_store (\<lambda>d. addWin d uid) w
             else if loserId g = Some uid then on_store (\<lambda>d. addLose d uid) w
             else w)
          else w)"

subsection \<open>Gameplay\<close>

text \<open>\<open>handlePaddleMovement\<close> (lines 464-503).\<close>

definition paddleMove :: "gamedata \<Rightarrow> authid \<Rightarrow> world \<Rightarrow> world" where
  "paddleMove p player w = emit (ToRooms [GameRoom (gd_gameId p)]) (PaddleUpdate (movePaddle player p)) w"

text \<open>The score-limit block of \<open>ballMove\<close> (lines 555-574): \<open>Inl\<close> when a
  \<open>TypeError\<close> ends the handler.  The winner is told before the loser's row
  is dereferenced.\<close>

definition end_phase :: "gamedata \<Rightarrow> world \<Rightarrow> world + world" where
  "end_phase gd w =
     (if limit_reached gd then
        (let (d', r) = endMatchByScore (store w) (gd_gameId gd) (gd_scoreLeftPlayer gd)
                         (gd_scoreRightPlayer gd) (scoreLimit gd);
             w1 = w\<lparr>store := d'\<rparr>
         in case r of
              None \<Rightarrow> Inl (throw ''TypeError'' w1)
            | Some gm \<Rightarrow>
                (case (Option.bind (winnerId gm) (getUserByAuthId d'), Option.bind (loserId gm) (getUserByAuthId d')) of
                   (Some uw, Some ul) \<Rightarrow>
                     Inr (emit (ToRooms [UserRoom (u_id ul)]) (GameStatusMsg LOSE)
                           (emit (ToRooms [UserRoom (u_id uw)]) (GameStatusMsg WIN) w1))
                 | (Some uw, None) \<Rightarrow>
                     Inl (throw ''TypeError'' (emit (ToRooms [UserRoom (u_id uw)]) (GameStatusMsg WIN) w1))
                 | (None, _) \<Rightarrow> Inl (throw ''TypeError'' w1)))
      else Inr w)"

text \<open>The scoring block (lines 576-606).  \<open>game\<close> is the row read when the
  handler started; its \<open>initialBallSpeed\<close> is \<open>null\<close> until a mode has been
  chosen, which every later arithmetic use reads as 0.  The deferred write
  captures the scores of this frame.\<close>

definition score_phase :: "game option \<Rightarrow> gamedata \<Rightarrow> world \<Rightarrow> world" where
  "score_phase game gd w =
     (case game of
        None \<Rightarrow> throw ''TypeError'' w
      | Some g \<Rightarrow>
          let gd2 = score_point (case initialBallSpeed g of None \<Rightarrow> 0 | Some s \<Rightarrow> s) gd;
              rm = ToRooms [GameRoom (gd_gameId gd2)];
              w1 = (if gd_scoreRightPlayer gd2 \<noteq> scoreLimit gd2 \<or> gd_scoreLeftPlayer gd2 \<noteq> scoreLimit gd2
                    then emit rm (GameStatusMsg INIT) w else w);
              w2 = w1\<lparr>timers := timers w1 @ [ScoreWrite (gd_gameId gd2) (gd_scoreLeftPlayer gd2)
                                              (gd_scoreRightPlayer gd2) (scoreLimit gd2)]\<rparr>
          in emit rm (ScoreUpdate gd2) (emit rm (BallUpdate gd2) w2))"

text \<open>\<open>ballMove\<close> (lines 505-613): collision, score-limit check, then either
  the scoring block or one step of motion.\<close>

definition ballMove :: "gamedata \<Rightarrow> world \<Rightarrow> world" where
  "ballMove gd w =
     (let game = getGameById (store w) (gd_gameId gd);
          gd1 = collide gd
      in case end_phase gd1 w of
           Inl w' \<Rightarrow> w'
         | Inr w1 \<Rightarrow>
             if ball_out gd1 then score_phase game gd1 w1
             else emit (ToRooms [GameRoom (gd_gameId gd1)]) (BallUpdate (advance gd1)) w1)"

text \<open>\<open>gameStart\<close> (lines 615-626).  The draws feed the rejection loop of
  \<open>generateRandomBallDirection\<close>; \<open>None\<close> is a loop that has not ended
  within them.\<close>

definition gameStart :: "gamedata \<Rightarrow> real list \<Rightarrow> world \<Rightarrow> world option" where
  "gameStart gd rs w =
     (if gd_gameStatus gd = INIT then
        (case generateRandomBallDirection rs of
           None \<Rightarrow> None
         | Some dir \<Rightarrow>
             let p = gd\<lparr>ballDirection := dir, gd_gameStatus := PLAY\<rparr>
             in Some (emit (ToRooms [GameRoom (gd_gameId gd)]) (GameStatusMsg PLAY)
                       (emit (ToRooms [GameRoom (gd_gameId gd)]) (GameStartMsg p) w)))
      else Some w)"

text \<open>\<open>gameFinished\<close> (lines 699-702).\<close>

definition gameFinishedH :: "gid \<Rightarrow> world \<Rightarrow> world" where
  "gameFinishedH i w = on_store (\<lambda>d. gameFinished d i) w"

text \<open>A pending \<open>setTimeout\<close> callback fires: the oldest one runs
  \<open>updateScore\<close>.\<close>

fun fire :: "timer \<Rightarrow> world \<Rightarrow> world" where
  "fire (ScoreWrite i sl sr lmt) w = on_store (\<lambda>d. updateScore d i sl sr lmt) w"

definition tick :: "world \<Rightarrow> world" where
  "tick w = (case timers w of [] \<Rightarrow> w | t # ts \<Rightarrow> fire t (w\<lparr>timers := ts\<rparr>))"

subsection \<open>A sample match\<close>

text \<open>The game of \<open>demo_game\<close> between \<open>alice\<close> (socket \<open>s1\<close>) and \<open>bob\<close>
  (socket \<open>s2\<close>), both in its room.\<close>

definition match_world :: "game \<Rightarrow> world" where
  "match_world g = lobby_world\<lparr>store := demo_db\<lparr>games := [g]\<rparr>,
      rooms := (\<lambda>r. if r = GameRoom 7 then [''s1'', ''s2''] else [])\<rparr>"

subsection \<open>Handler lemmas\<close>

lemma collide_fields [simp]:
  "ballX (collide gd) = ballX gd" "ballY (collide gd) = ballY gd" "ballRadius (collide gd) = ballRadius gd"
  "width (collide gd) = width gd" "height (collide gd) = height gd" "gd_gameId (collide gd) = gd_gameId gd"
  "gd_scoreLeftPlayer (collide gd) = gd_scoreLeftPlayer gd"
  "gd_scoreRightPlayer (collide gd) = gd_scoreRightPlayer gd" "scoreLimit (collide gd) = scoreLimit gd"
  by (simp_all add: collide_def paddle_bounce_def Let_def)

lemma collide_tests [simp]:
  "limit_reached (collide gd) = limit_reached gd" "ball_out (collide gd) = ball_out gd"
  by (simp_all add: limit_reached_def ball_out_def)

lemma end_phase_no_limit [simp]: "\<not> limit_reached gd \<Longrightarrow> end_phase gd w = Inr w"
  by (simp add: end_phase_def)

lemma score_point_fields [simp]:
  "gd_gameId (score_point s gd) = gd_gameId gd" "scoreLimit (score_point s gd) = scoreLimit gd"
  by (simp_all add: score_point_def reset_def Let_def)

lemma score_phase_Some:
  "score_phase (Some g) gd w =
     (let gd2 = score_point (case initialBallSpeed g of None \<Rightarrow> 0 | Some s \<Rightarrow> s) gd;
          rm = ToRooms [GameRoom (gd_gameId gd)]
      in emit rm (ScoreUpdate gd2) (emit rm (BallUpdate gd2)
           ((if gd_scoreRightPlayer gd2 \<noteq> scoreLimit gd \<or> gd_scoreLeftPlayer gd2 \<noteq> scoreLimit gd
             then emit rm (GameStatusMsg INIT) w else w)
            \<lparr>timers := timers w @ [ScoreWrite (gd_gameId gd) (gd_scoreLeftPlayer gd2)
                                              (gd_scoreRightPlayer gd2) (scoreLimit gd)]\<rparr>)))"
  by (simp add: score_phase_def Let_def)

lemma store_score_phase [simp]: "store (score_phase go gd w) = store w"
  by (simp add: score_phase_def Let_def split: option.split)

text \<open>(ballMove, ordinary frame): when no score is at the limit and the ball is inside the field, ballMove only sends ballUpdate with the collided and advanced ball to the game room.\<close>

theorem ballMove_step:
  assumes "\<not> limit_reached gd" "\<not> ball_out gd"
  shows "ballMove gd w = emit (ToRooms [GameRoom (gd_gameId gd)]) (BallUpdate (advance (collide gd))) w"
  using assms by (simp add: ballMove_def)

text \<open>C8 (ballMove, the deciding point): in the frame where the left side scores its last point, ballMove does not finish the game (the store is unchanged), still sends INIT to the game room because its guard uses || where && was meant, and schedules the write of the final score.\<close>

theorem ballMove_point_at_limit:
  assumes "\<not> limit_reached gd" "ballX gd + ballRadius gd > width gd"
    and "gd_scoreLeftPlayer gd + 1 = scoreLimit gd"
    and "getGameById (store w) (gd_gameId gd) = Some g"
  shows "store (ballMove gd w) = store w
       \<and> (ToRooms [GameRoom (gd_gameId gd)], GameStatusMsg INIT) \<in> set (outbox (ballMove gd w))
       \<and> timers (ballMove gd w) = timers w @ [ScoreWrite (gd_gameId gd) (scoreLimit gd)
                                                (gd_scoreRightPlayer gd) (scoreLimit gd)]"
proof -
  have out: "ball_out gd" using assms(2) by (simp add: ball_out_def)
  have lim: "gd_scoreRightPlayer gd \<noteq> scoreLimit gd" using assms(1) by (simp add: limit_reached_def)
  show ?thesis
    using assms out lim
    by (simp add: ballMove_def score_phase_Some Let_def score_point_def reset_def)
qed



text \<open>C7 (ballMove, end of a match): when a frame arrives with one side's score equal to the limit and the game and both user rows exist, ballMove stores the game as finished with that side as winner (the left side when both are at the limit) and the other as loser, and tells the winner's user room WIN and then the loser's user room LOSE before anything else it sends.\<close>

theorem ballMove_ends_at_limit:
  assumes lim: "limit_reached gd" and g: "getGameById (store w) (gd_gameId gd) = Some g"
    and ul: "getUserByAuthId (store w) (leftPlayerId g) = Some ul"
    and ur: "getUserByAuthId (store w) (rightPlayerId g) = Some ur"
  shows "let left_won = (gd_scoreLeftPlayer gd = scoreLimit gd);
             gw = g\<lparr>winnerId := Some (if left_won then leftPlayerId g else rightPlayerId g),
                    loserId := Some (if left_won then rightPlayerId g else leftPlayerId g), isFinished := True\<rparr>
         in getGameById (store (ballMove gd w)) (gd_gameId gd) = Some gw
          \<and> (\<exists>rest. outbox (ballMove gd w) = outbox w @
               [(ToRooms [UserRoom (u_id (if left_won then ul else ur))], GameStatusMsg WIN),
                (ToRooms [UserRoom (u_id (if left_won then ur else ul))], GameStatusMsg LOSE)] @ rest)"
proof -
  define left_won where "left_won = (gd_scoreLeftPlayer gd = scoreLimit gd)"
  define gw where "gw = g\<lparr>winnerId := Some (if left_won then leftPlayerId g else rightPlayerId g),
                    loserId := Some (if left_won then rightPlayerId g else leftPlayerId g), isFinished := True\<rparr>"
  define d' where "d' = caught (upd_game (gd_gameId gd) (\<lambda>_. gw) (store w)) (store w)"
  have em: "endMatchByScore (store w) (gd_gameId gd) (gd_scoreLeftPlayer gd) (gd_scoreRightPlayer gd) (scoreLimit gd)
              = (d', Some gw)"
    using lim by (auto simp: endMatchByScore_Some [OF g] d'_def gw_def left_won_def limit_reached_def)
  have gd': "getGameById d' (gd_gameId gd) = Some gw"
    unfolding d'_def by (rule getGameById_replace [OF g]) (simp add: gw_def)
  have us: "getUserByAuthId d' = getUserByAuthId (store w)"
    by (rule getUserByAuthId_users_eq) (simp add: d'_def)
  have ep: "end_phase (collide gd) w =
      Inr (emit (ToRooms [UserRoom (u_id (if left_won then ur else ul))]) (GameStatusMsg LOSE)
            (emit (ToRooms [UserRoom (u_id (if left_won then ul else ur))]) (GameStatusMsg WIN) (w\<lparr>store := d'\<rparr>)))"
    using lim em ul ur by (simp add: end_phase_def us gw_def)
  have "store (ballMove gd w) = d'"
    by (simp add: ballMove_def ep Let_def)
  moreover have "\<exists>rest. outbox (ballMove gd w) = outbox w @
               [(ToRooms [UserRoom (u_id (if left_won then ul else ur))], GameStatusMsg WIN),
                (ToRooms [UserRoom (u_id (if left_won then ur else ul))], GameStatusMsg LOSE)] @ rest"
    by (auto simp: ballMove_def ep Let_def score_phase_def split: option.split)
  ultimately show ?thesis
    using gd' by (simp add: Let_def left_won_def gw_def)
qed



text \<open>C11 (updateUser counts every report): two reports of the same finished game by its winner add two wins: the counter is not protected against repeated or forged reports.\<close>

theorem updateUser_counts_each_report:
  assumes g: "getGameById (store w) i = Some g" and "\<not> hasLeft g" "st \<noteq> INIT"
    and "winnerId g = Some a" and u: "getUserByAuthId (store w) a \<noteq> None"
  shows "wins_of (store (updateUser a i st (updateUser a i st w))) a = wins_of (store w) a + 2"
proof -
  have w1: "updateUser a i st w = on_store (\<lambda>d. addWin d a) w"
    using assms by (simp add: updateUser_def)
  have "getGameById (store (updateUser a i st w)) i = Some g" using g by (simp add: w1)
  then have w2: "updateUser a i st (updateUser a i st w) = on_store (\<lambda>d. addWin d a) (updateUser a i st w)"
    using assms by (simp add: updateUser_def)
  show ?thesis using u unfolding w2 by (simp add: w1 model_simps)
qed

lemma pick_mode_unit:
  assumes "0 \<le> r" "r < 1"
  shows "pick_mode r = Some (if r < 1/2 then ''normal'' else ''hard'')"
proof (cases "r < 1/2")
  case True
  then have "\<lfloor>r * 2\<rfloor> = 0" using assms by (simp add: floor_eq_iff)
  with True show ?thesis by (simp add: pick_mode_def)
next
  case False
  then have "\<lfloor>r * 2\<rfloor> = 1" using assms by (simp add: floor_eq_iff)
  with False show ?thesis by (simp add: pick_mode_def)
qed

lemma set_side_id [simp]: "game_id (set_side uid fl fr g) = game_id g \<longleftrightarrow>
    (uid = leftPlayerId g \<longrightarrow> game_id (fl g) = game_id g) \<and>
    (uid \<noteq> leftPlayerId g \<and> uid = rightPlayerId g \<longrightarrow> game_id (fr g) = game_id g)"
  by (simp add: set_side_def)

lemma gameModeSelect_row:
  assumes g: "getGameById (store w) i = Some g"
  shows "getGameById (store (gameModeSelect uid i m r w)) i =
           Some (resolve_mode r (set_side uid (\<lambda>x. x\<lparr>leftPlayerMode := Some m\<rparr>)
                                              (\<lambda>x. x\<lparr>rightPlayerMode := Some m\<rparr>) g))"
proof -
  have gi: "game_id g = i" using getGameById_Some_id [OF g] by simp
  let ?f = "set_side uid (\<lambda>x. x\<lparr>leftPlayerMode := Some m\<rparr>) (\<lambda>x. x\<lparr>rightPlayerMode := Some m\<rparr>)"
  have g1: "getGameById (caught (upd_game i ?f (store w)) (store w)) i = Some (?f g)"
    using g by (simp add: getGameById_caught_upd_game set_side_def)
  have "game_id (resolve_mode r (?f g)) = game_id (?f g)" by (simp add: resolve_mode_def Let_def)
  then show ?thesis
    using g getGameById_replace [OF g1]
    by (simp add: gameModeSelect_def Let_def)
qed

text \<open>(mode tie-break under agreement): when the second player chooses the mode the first already chose, the stored game gets that mode and the matching initial ball speed (40 for normal, 50 otherwise), and modeSelected with that mode is the last event sent to the game room, whatever the random draw.\<close>

theorem gameModeSelect_agreement:
  assumes g: "getGameById (store w) i = Some g"
    and "uid = rightPlayerId g" "uid \<noteq> leftPlayerId g" "leftPlayerMode g = Some m" "m \<noteq> []"
  shows "getGameById (store (gameModeSelect uid i m r w)) i =
           Some (g\<lparr>rightPlayerMode := Some m, gameMode := Some m,
                   initialBallSpeed := Some (if m = ''normal'' then 40 else 50)\<rparr>)
       \<and> last (outbox (gameModeSelect uid i m r w)) = (ToRooms [GameRoom i], ModeSelected (Some m))"
  using assms
  by (simp add: gameModeSelect_row [OF g] resolve_mode_def set_side_def Let_def)
     (simp add: gameModeSelect_def Let_def set_side_def resolve_mode_def truthy_def)

text \<open>C9 (mode tie-break under disagreement): when the second player chooses a mode different from the first's, the stored mode is normal for a draw below 1/2 and hard otherwise, with initial speed 40 or 50.\<close>

theorem gameModeSelect_disagreement:
  assumes g: "getGameById (store w) i = Some g"
    and "uid = rightPlayerId g" "uid \<noteq> leftPlayerId g" "leftPlayerMode g \<noteq> Some m"
    and "0 \<le> r" "r < 1"
  shows "map_option (\<lambda>x. (gameMode x, initialBallSpeed x)) (getGameById (store (gameModeSelect uid i m r w)) i) =
           Some (Some (if r < 1/2 then ''normal'' else ''hard''), Some (if r < 1/2 then 40 else 50))"
  using assms
  by (simp add: gameModeSelect_row [OF g] resolve_mode_def set_side_def Let_def pick_mode_unit)

text \<open>C12 (gameMode has no authorization): a gameMode message from a user who is neither player of a game whose players disagree rewrites the stored mode and ball speed with a fresh random draw.\<close>

theorem gameModeSelect_outsider_rerolls:
  assumes g: "getGameById (store w) i = Some g"
    and "uid \<noteq> rightPlayerId g" "uid \<noteq> leftPlayerId g" "leftPlayerMode g \<noteq> rightPlayerMode g"
    and "0 \<le> r" "r < 1"
  shows "getGameById (store (gameModeSelect uid i m r w)) i =
           Some (g\<lparr>gameMode := Some (if r < 1/2 then ''normal'' else ''hard''),
                   initialBallSpeed := Some (if r < 1/2 then 40 else 50)\<rparr>)"
  using assms
  by (simp add: gameModeSelect_row [OF g] resolve_mode_def set_side_def Let_def pick_mode_unit)

text \<open>(mapSelect): the right player's map selection sets its flag in the stored game and sends mapSelected to the game room exactly when the left player was already ready.\<close>

theorem mapSelect_second_ready:
  assumes g: "getGameById (store w) i = Some g"
    and "uid = rightPlayerId g" "uid \<noteq> leftPlayerId g" "\<not> hasLeft g"
  shows "getGameById (store (mapSelect uid i w)) i = Some (g\<lparr>rightPlayerMap := True\<rparr>)
       \<and> outbox (mapSelect uid i w) = outbox w @ (if leftPlayerMap g then [(ToRooms [GameRoom i], MapSelected)] else [])"
  using assms getGameById_Some_id [OF g]
  by (simp add: mapSelect_def Let_def set_side_def getGameById_caught_upd_game)

text \<open>C10 (initGame rejects outsiders): for a finished game, or a caller who is neither player, initGame only answers {payload: -1} on the caller's socket: the caller joins no room and the store is unchanged.\<close>

theorem initGame_rejects:
  assumes "getGameById (store w) i = Some g"
    and "isFinished g \<or> (uid \<noteq> leftPlayerId g \<and> uid \<noteq> rightPlayerId g)"
  shows "initGame c uid i w = emit (ToRooms [SockRoom c]) InitGameRejected w"
  using assms by (auto simp: initGame_def)

text \<open>(initGame for a player): a player of an unfinished game joins the game room, both players become INGAME, and update then the initGame snapshot are sent.\<close>

theorem initGame_player:
  assumes g: "getGameById (store w) i = Some g" and "\<not> isFinished g"
    and "uid = leftPlayerId g \<or> uid = rightPlayerId g"
    and ul: "getUserByAuthId (store w) (leftPlayerId g) = Some ul"
    and ur: "getUserByAuthId (store w) (rightPlayerId g) = Some ur"
  shows "c \<in> set (rooms (initGame c uid i w) (GameRoom i))
       \<and> checkStatus (store (initGame c uid i w)) (leftPlayerId g) = Some INGAME
       \<and> checkStatus (store (initGame c uid i w)) (rightPlayerId g) = Some INGAME
       \<and> outbox (initGame c uid i w) = outbox w @
           [(Everyone, Update 28), (ToRooms [GameRoom i], InitGameMsg g (u_username ul) (u_username ur))]"
proof -
  have w': "initGame c uid i w =
      emit (ToRooms [GameRoom i]) (InitGameMsg g (u_username ul) (u_username ur))
        (emit Everyone (Update 28)
          (on_store (\<lambda>d. setStatus (setStatus d (u_id ul) INGAME) (u_id ur) INGAME) (join c (GameRoom i) w)))"
    using assms by (auto simp: initGame_def)
  show ?thesis
    using ul ur by (simp add: w' checkStatus_def getUserByAuthId_setStatus set_os_add)
qed

text \<open>(leaveGame forfeit): a player leaving an unfinished game leaves the room, the store becomes handleLeave followed by the caller going ONLINE, and update then two LEAVE notices go to the last socket still in the room.\<close>

theorem leaveGame_forfeit_notice:
  assumes g: "getGameById (store w) i = Some g" and "\<not> isFinished g" and "st \<noteq> FINISHED"
  shows "let sw = last_opt (os_del c (rooms w (GameRoom i))); w' = leaveGame c uid i st w
         in c \<notin> set (rooms w' (GameRoom i))
          \<and> store w' = setStatusWithauthId (handleLeave (store w) g uid i) uid ONLINE
          \<and> outbox w' = outbox w @ [(Everyone, Update 28), (to_socks [sw], GameStatusMsg LEAVE),
                                    (to_socks [sw], GameStatusSelectMsg LEAVE)]"
  using assms getGameById_Some_id [OF g]
  by (simp add: leaveGame_def Let_def last_in_room_def set_os_del)

lemma generateRandomBallDirection_accepts:
  assumes "\<exists>r\<in>set rs. \<not> rejected (dir_of_draw r)"
  obtains r where "generateRandomBallDirection rs = Some (dir_of_draw r)" "\<not> rejected (dir_of_draw r)"
proof -
  obtain r where "find (\<lambda>r. \<not> rejected (dir_of_draw r)) rs = Some r"
    using assms by (cases "find (\<lambda>r. \<not> rejected (dir_of_draw r)) rs") (auto simp: find_None_iff)
  moreover from this have "\<not> rejected (dir_of_draw r)" by (auto simp: find_Some_iff)
  ultimately show ?thesis
    using that by (simp add: generateRandomBallDirection_def gen_dir_loop_find rejected_origin)
qed

text \<open>C13 (gameStart liveness): for a snapshot in INIT and draws that contain an accepted direction, gameStart returns, sending gameStart with status PLAY and a direction with 0.2 < |x| < 0.9, then gameStatus PLAY, to the game room.\<close>

theorem gameStart_starts:
  assumes "gd_gameStatus gd = INIT" and "\<exists>r\<in>set rs. \<not> rejected (dir_of_draw r)"
  shows "\<exists>w' p. gameStart gd rs w = Some w'
            \<and> outbox w' = outbox w @ [(ToRooms [GameRoom (gd_gameId gd)], GameStartMsg p),
                                      (ToRooms [GameRoom (gd_gameId gd)], GameStatusMsg PLAY)]
            \<and> gd_gameStatus p = PLAY \<and> 0.2 < \<bar>fst (ballDirection p)\<bar> \<and> \<bar>fst (ballDirection p)\<bar> < 0.9"
proof -
  obtain r where r: "generateRandomBallDirection rs = Some (dir_of_draw r)" "\<not> rejected (dir_of_draw r)"
    using generateRandomBallDirection_accepts [OF assms(2)] by blast
  then show ?thesis
    using assms(1) by (auto simp: gameStart_def rejected_def)
qed

lemma match_world_facts [simp]:
  "store (match_world g) = demo_db\<lparr>games := [g]\<rparr>"
  "game_id g = 7 \<Longrightarrow> getGameById (demo_db\<lparr>games := [g]\<rparr>) 7 = Some g"
  "getUserByAuthId (demo_db\<lparr>games := [g]\<rparr>) 101 = Some \<lparr>u_id = 1, u_authId = 101, u_username = ''alice'',
      u_status = INGAME, wins = 0, loses = 0, usersBlocked = []\<rparr>"
  "getUserByAuthId (demo_db\<lparr>games := [g]\<rparr>) 102 = Some \<lparr>u_id = 2, u_authId = 102, u_username = ''bob'',
      u_status = INGAME, wins = 0, loses = 0, usersBlocked = []\<rparr>"
  "players (match_world g) = [(''s1'', 101), (''s2'', 102), (''s3'', 103)]"
  "rooms (match_world g) (GameRoom 7) = [''s1'', ''s2'']"
  "outbox (match_world g) = []" "timers (match_world g) = []"
  by (simp_all add: match_world_def lobby_world_def init_world_def demo_db_def getGameById_def getUserByAuthId_def)

theorem ballMove_step_witness:
  "ballMove demo_ball (match_world demo_game) =
     emit (ToRooms [GameRoom 7]) (BallUpdate (advance (collide demo_ball))) (match_world demo_game)"
  using ballMove_step [of demo_ball "match_world demo_game"]
  by (simp add: demo_ball_def limit_reached_def ball_out_def)

theorem ballMove_point_at_limit_witness:
  "store (ballMove (demo_ball\<lparr>ballX := 795, ballDirection := (3/5, 4/5), gd_scoreLeftPlayer := 4\<rparr>) (match_world demo_game))
     = store (match_world demo_game)
   \<and> (ToRooms [GameRoom 7], GameStatusMsg INIT) \<in> set (outbox (ballMove (demo_ball\<lparr>ballX := 795,
        ballDirection := (3/5, 4/5), gd_scoreLeftPlayer := 4\<rparr>) (match_world demo_game)))
   \<and> timers (ballMove (demo_ball\<lparr>ballX := 795, ballDirection := (3/5, 4/5), gd_scoreLeftPlayer := 4\<rparr>)
        (match_world demo_game)) = [ScoreWrite 7 5 0 5]"
  using ballMove_point_at_limit [of "demo_ball\<lparr>ballX := 795, ballDirection := (3/5, 4/5), gd_scoreLeftPlayer := 4\<rparr>"
      "match_world demo_game" demo_game]
  by (simp add: demo_ball_def limit_reached_def)

theorem ballMove_ends_at_limit_witness:
  "getGameById (store (ballMove (demo_ball\<lparr>gd_scoreLeftPlayer := 5, gd_scoreRightPlayer := 3\<rparr>) (match_world demo_game))) 7
     = Some (demo_game\<lparr>winnerId := Some 101, loserId := Some 102, isFinished := True\<rparr>)
   \<and> (\<exists>rest. outbox (ballMove (demo_ball\<lparr>gd_scoreLeftPlayer := 5, gd_scoreRightPlayer := 3\<rparr>) (match_world demo_game))
        = [(ToRooms [UserRoom 1], GameStatusMsg WIN), (ToRooms [UserRoom 2], GameStatusMsg LOSE)] @ rest)"
  using ballMove_ends_at_limit [of "demo_ball\<lparr>gd_scoreLeftPlayer := 5, gd_scoreRightPlayer := 3\<rparr>"
      "match_world demo_game" demo_game "\<lparr>u_id = 1, u_authId = 101, u_username = ''alice'',
      u_status = INGAME, wins = 0, loses = 0, usersBlocked = []\<rparr>" "\<lparr>u_id = 2, u_authId = 102, u_username = ''bob'',
      u_status = INGAME, wins = 0, loses = 0, usersBlocked = []\<rparr>"]
  by (simp add: demo_ball_def limit_reached_def Let_def)

theorem updateUser_counts_each_report_witness:
  "wins_of (store (updateUser 101 7 WIN (updateUser 101 7 WIN
      (match_world (demo_game\<lparr>winnerId := Some 101, loserId := Some 102, isFinished := True\<rparr>))))) 101 = 2"
  using updateUser_counts_each_report [of "match_world (demo_game\<lparr>winnerId := Some 101, loserId := Some 102,
      isFinished := True\<rparr>)" 7 "demo_game\<lparr>winnerId := Some 101, loserId := Some 102, isFinished := True\<rparr>" WIN 101]
  by (simp add: demo_game_def wins_of_def)

theorem gameModeSelect_agreement_witness:
  "getGameById (store (gameModeSelect 102 7 ''normal'' 0 (match_world (demo_game\<lparr>leftPlayerMode := Some ''normal''\<rparr>)))) 7
     = Some (demo_game\<lparr>leftPlayerMode := Some ''normal'', rightPlayerMode := Some ''normal'',
                        gameMode := Some ''normal'', initialBallSpeed := Some 40\<rparr>)
   \<and> last (outbox (gameModeSelect 102 7 ''normal'' 0 (match_world (demo_game\<lparr>leftPlayerMode := Some ''normal''\<rparr>))))
     = (ToRooms [GameRoom 7], ModeSelected (Some ''normal''))"
  using gameModeSelect_agreement [of "match_world (demo_game\<lparr>leftPlayerMode := Some ''normal''\<rparr>)" 7
      "demo_game\<lparr>leftPlayerMode := Some ''normal''\<rparr>" 102 "''normal''" 0]
  by simp

theorem gameModeSelect_disagreement_witness:
  "map_option (\<lambda>x. (gameMode x, initialBallSpeed x))
     (getGameById (store (gameModeSelect 102 7 ''hard'' (3/4) (match_world (demo_game\<lparr>leftPlayerMode := Some ''normal''\<rparr>)))) 7)
   = Some (Some ''hard'', Some 50)"
  using gameModeSelect_disagreement [of "match_world (demo_game\<lparr>leftPlayerMode := Some ''normal''\<rparr>)" 7
      "demo_game\<lparr>leftPlayerMode := Some ''normal''\<rparr>" 102 "''hard''" "3/4"]
  by simp

theorem gameModeSelect_outsider_rerolls_witness:
  "getGameById (store (gameModeSelect 103 7 ''hard'' (1/4)
      (match_world (demo_game\<lparr>leftPlayerMode := Some ''normal'', rightPlayerMode := Some ''hard''\<rparr>)))) 7
   = Some (demo_game\<lparr>leftPlayerMode := Some ''normal'', rightPlayerMode := Some ''hard'',
                      gameMode := Some ''normal'', initialBallSpeed := Some 40\<rparr>)"
  using gameModeSelect_outsider_rerolls [of "match_world (demo_game\<lparr>leftPlayerMode := Some ''normal'',
      rightPlayerMode := Some ''hard''\<rparr>)" 7 "demo_game\<lparr>leftPlayerMode := Some ''normal'', rightPlayerMode := Some ''hard''\<rparr>"
      103 "1/4" "''hard''"]
  by simp

theorem mapSelect_second_ready_witness:
  "outbox (mapSelect 102 7 (match_world (demo_game\<lparr>leftPlayerMap := True\<rparr>))) = [(ToRooms [GameRoom 7], MapSelected)]"
proof -
  have "\<not> hasLeft demo_game" by (simp add: demo_game_def)
  then show ?thesis
    using mapSelect_second_ready [of "match_world (demo_game\<lparr>leftPlayerMap := True\<rparr>)" 7 "demo_game\<lparr>leftPlayerMap := True\<rparr>" 102]
    by simp
qed

theorem initGame_rejects_witness:
  "initGame ''s3'' 103 7 (match_world demo_game) = emit (ToRooms [SockRoom ''s3'']) InitGameRejected (match_world demo_game)"
  using initGame_rejects [of "match_world demo_game" 7 demo_game 103 "''s3''"] by simp

theorem initGame_player_witness:
  "''s1'' \<in> set (rooms (initGame ''s1'' 101 7 (match_world demo_game)) (GameRoom 7))
   \<and> checkStatus (store (initGame ''s1'' 101 7 (match_world demo_game))) 102 = Some INGAME
   \<and> outbox (initGame ''s1'' 101 7 (match_world demo_game)) =
       [(Everyone, Update 28), (ToRooms [GameRoom 7], InitGameMsg demo_game ''alice'' ''bob'')]"
  using initGame_player [of "match_world demo_game" 7 demo_game 101 "\<lparr>u_id = 1, u_authId = 101, u_username = ''alice'',
      u_status = INGAME, wins = 0, loses = 0, usersBlocked = []\<rparr>" "\<lparr>u_id = 2, u_authId = 102, u_username = ''bob'',
      u_status = INGAME, wins = 0, loses = 0, usersBlocked = []\<rparr>" "''s1''"]
  by (simp add: demo_game_def)

theorem leaveGame_forfeit_notice_witness:
  "outbox (leaveGame ''s1'' 101 7 PLAY (match_world demo_game)) =
     [(Everyone, Update 28), (to_socks [Some ''s2''], GameStatusMsg LEAVE), (to_socks [Some ''s2''], GameStatusSelectMsg LEAVE)]"
  using leaveGame_forfeit_notice [of "match_world demo_game" 7 demo_game PLAY "''s1''" 101]
  by (simp add: demo_game_def Let_def os_del_def last_opt_def)

theorem gameStart_starts_witness:
  "\<exists>w' p. gameStart (demo_ball\<lparr>gd_gameStatus := INIT\<rparr>) [1/4] (match_world demo_game) = Some w'
      \<and> outbox w' = [(ToRooms [GameRoom 7], GameStartMsg p), (ToRooms [GameRoom 7], GameStatusMsg PLAY)]
      \<and> gd_gameStatus p = PLAY \<and> 0.2 < \<bar>fst (ballDirection p)\<bar> \<and> \<bar>fst (ballDirection p)\<bar> < 0.9"
  using gameStart_starts [of "demo_ball\<lparr>gd_gameStatus := INIT\<rparr>" "[1/4]" "match_world demo_game"] quarter_accepted
  by (simp add: demo_ball_def)

end
