(* ===== verification/ChatGateway.thy ===== *)
theory ChatGateway
  imports Gateway
begin

text \<open>
  The message handlers of \<open>ChatGateway\<close>
  (\<open>src/app/backend/src/chat/chat.gateway.ts\<close>) over the shared world.
  Every handler body is a \<open>try\<close> whose \<open>catch\<close> only logs: a Prisma
  failure (\<open>None\<close> from the services) or a \<open>TypeError\<close> ends the handler
  with the effects it already had, and nothing is recorded.  The query
  handlers (\<open>getMessages\<close>, \<open>getOnlineUsers\<close>, \<open>getChannelUsers\<close>,
  \<open>getChannelsJoined\<close>, \<open>getPublicChannels\<close>) only return the service's
  answer to the caller; the services are in \<open>ChatStore\<close>.
\<close>

subsection \<open>Helpers\<close>

text \<open>\<open>client.emit('alert', text)\<close>: to the calling socket only.\<close>

definition alert :: "sid \<Rightarrow> string \<Rightarrow> world \<Rightarrow> world" where
  "alert c s w = emit (ToRooms [SockRoom c]) (Alert s) w"

text \<open>\<open>'#user' + channel.ownerId\<close>: a \<open>null\<close> owner names a room nobody is in.\<close>

definition owner_room :: "userid option \<Rightarrow> target" where
  "owner_room o' = ToRooms (case o' of None \<Rightarrow> [] | Some u \<Rightarrow> [UserRoom u])"

subsection \<open>Connection\<close>

text \<open>\<open>handleConnection\<close> (lines 77-119): an unknown user is disconnected
  (\<open>True\<close>); otherwise the socket joins its user room, \<open>general\<close>, the
  channels it is in and its conversations.  \<open>getChannelsJoined\<close> answers
  \<open>undefined\<close> for a user in no channel, and its \<open>forEach\<close> throws.\<close>

definition chat_handleConnection :: "sid \<Rightarrow> authid \<Rightarrow> int \<Rightarrow> world \<Rightarrow> world \<times> bool" where
  "chat_handleConnection c a now w =
     (case getUserByAuthId (store w) a of
        None \<Rightarrow> (w, True)
      | Some u \<Rightarrow>
          let w1 = join c (UserRoom (u_id u)) (w\<lparr>sock_user := am_set (sock_user w) c (u_id u)\<rparr>) in
          (case joinGeneral (store w1) (chat w1) (u_id u) now of
             None \<Rightarrow> (w1, False)
           | Some c1 \<Rightarrow>
               let w2 = w1\<lparr>chat := c1\<rparr> in
               (case getChannelsJoined (store w2) c1 (u_id u) of
                  None \<Rightarrow> (w2, False)
                | Some chs \<Rightarrow>
                    let w3 = fold (\<lambda>ch. join c (ChanRoom (ch_id ch))) chs w2;
                        w4 = fold (\<lambda>ch. join c (NameRoom (ch_name ch))) (getPrivateConvo c1 (u_id u)) w3
                    in (emit Everyone (Update 28) w4, False))))"

text \<open>The \<open>disconnecting\<close> listener (lines 125-140).\<close>

definition chat_disconnecting :: "sid \<Rightarrow> world \<Rightarrow> world" where
  "chat_disconnecting c w =
     (case map_of (sock_user w) c of
        Some uid \<Rightarrow> if uid \<noteq> 0 then emit Everyone (Update 24) w else w
      | None \<Rightarrow> w)"

subsection \<open>Messages\<close>

text \<open>The receiver of a direct message: the other row of the conversation
  (\<open>users[1]\<close> may be missing, which throws).\<close>

definition dm_peer :: "channelUser list \<Rightarrow> userid \<Rightarrow> userid option" where
  "dm_peer ms fromId =
     (case ms of
        [] \<Rightarrow> None
      | m0 # rest \<Rightarrow> if cu_userId m0 = fromId then (case rest of [] \<Rightarrow> None | m1 # _ \<Rightarrow> Some (cu_userId m1))
                     else Some (cu_userId m0))"

text \<open>\<open>sendMessage\<close> (lines 142-198).  The sender id is the one of the
  payload.  In a channel, any row of the sender is enough, whether it has
  left or not; the socket joins the room before the mute test.\<close>

definition on_sendMessage :: "sid \<Rightarrow> userid \<Rightarrow> nat \<Rightarrow> string \<Rightarrow> bool \<Rightarrow> string \<Rightarrow> int \<Rightarrow> world \<Rightarrow> world" where
  "on_sendMessage c fromId toId name dm content now w =
     (if dm then
        (case findPrivateConvoById (chat w) toId of
           None \<Rightarrow> w
         | Some conv \<Rightarrow>
             let ms = members (chat w) (ch_id conv);
                 w1 = fold (\<lambda>m. emit (ToRooms [UserRoom (cu_userId m)]) (Update 4)) ms w
             in (case dm_peer ms fromId of
                   None \<Rightarrow> w1
                 | Some t \<Rightarrow>
                     if isBlocked (store w1) fromId t
                     then alert c ''You cannot send messages to that user: you blocked the user'' w1
                     else if isBlocked (store w1) t fromId
                     then alert c ''You cannot send messages to that user: you are blocked'' w1
                     else let (c1, m) = sendMessage (chat w1) fromId toId name dm content
                          in emit (ToRooms [NameRoom (ch_name conv)]) (NewMessage m) (w1\<lparr>chat := c1\<rparr>)))
      else
        (case findUserInChannel (chat w) toId fromId of
           None \<Rightarrow> alert c ''You cannot send messages in that channel'' w
         | Some u \<Rightarrow>
             let w1 = join c (ChanRoom toId) w in
             if now < muteEnd u then alert c ''You cannot send messages in that channel: you are muted'' w1
             else let (c1, m) = sendMessage (chat w1) fromId toId name dm content
                  in emit (ToRooms [ChanRoom toId]) (NewMessage m) (w1\<lparr>chat := c1\<rparr>)))"

subsection \<open>Channels\<close>

text \<open>\<open>createChannel\<close> (lines 212-237).\<close>

definition on_createChannel :: "sid \<Rightarrow> string \<Rightarrow> channelType \<Rightarrow> string option \<Rightarrow> userid \<Rightarrow> int \<Rightarrow> world \<Rightarrow> world" where
  "on_createChannel c name t pw owner now w =
     (case channel_create (store w) (chat w) name t pw owner now of
        None \<Rightarrow> w
      | Some (c1, Some e) \<Rightarrow> alert c e (w\<lparr>chat := c1\<rparr>)
      | Some (c1, None) \<Rightarrow>
          (case getChannelByName c1 name of
             None \<Rightarrow> w\<lparr>chat := c1\<rparr>
           | Some ch \<Rightarrow> emit Everyone (Update 3) (join c (ChanRoom (ch_id ch)) (w\<lparr>chat := c1\<rparr>))))"

text \<open>\<open>joinChannel\<close> (lines 239-281); a status-1 answer always carries a text.\<close>

definition on_joinChannel :: "sid \<Rightarrow> string \<Rightarrow> userid \<Rightarrow> string option \<Rightarrow> int \<Rightarrow> world \<Rightarrow> world" where
  "on_joinChannel c name uid pw now w =
     (case channel_join (store w) (chat w) name uid pw now of
        None \<Rightarrow> w
      | Some (c1, st, resp) \<Rightarrow>
          let w1 = w\<lparr>chat := c1\<rparr> in
          if st = 1 then (case resp of Some e \<Rightarrow> alert c e w1 | None \<Rightarrow> w1)
          else (case getChannelByName c1 name of
                  None \<Rightarrow> w1
                | Some ch \<Rightarrow>
                    if st = 2 then w1
                    else (case getUserById (store w1) uid of
                            None \<Rightarrow> w1
                          | Some u \<Rightarrow>
                              emit (ToRooms [ChanRoom (ch_id ch)])
                                (Announcement (u_username u @ '' joined this channel'') (ch_id ch))
                                (join c (ChanRoom (ch_id ch))
                                  (emit (ToRooms [ChanRoom (ch_id ch)]) (UpdateChan 11 (ch_id ch))
                                    (emit (ToRooms [UserRoom (u_id u)]) (UpdateChan 11 (ch_id ch)) w1))))))"

text \<open>\<open>leaveChannel\<close> (lines 283-324).\<close>

definition on_leaveChannel :: "sid \<Rightarrow> nat \<Rightarrow> userid \<Rightarrow> int \<Rightarrow> world \<Rightarrow> world" where
  "on_leaveChannel c cid uid now w =
     (case channel_leave (chat w) cid uid now of
        None \<Rightarrow> w
      | Some (c1, st, resp) \<Rightarrow>
          if st = 1 then w\<lparr>chat := c1\<rparr>
          else
            let w2 = emit Everyone (UpdateChan 11 cid) (leave c (ChanRoom cid) (w\<lparr>chat := c1\<rparr>)) in
            (case getUserById (store w2) uid of
               None \<Rightarrow> w2
             | Some u \<Rightarrow>
                 let w3 = emit (ToRooms [ChanRoom cid]) (Announcement (u_username u @ '' left this channel'') cid) w2 in
                 if st = 2 then
                   (case (getChannelById c1 cid, resp) of
                      (Some ch, Some r) \<Rightarrow> emit (owner_room (ch_ownerId ch)) (Announcement r cid) w3
                    | _ \<Rightarrow> w3)
                 else w3))"

text \<open>\<open>startPrivateConvo\<close> (lines 326-346): no socket joins the new
  conversation's room here.\<close>

definition on_startPrivateConvo :: "userid \<Rightarrow> userid \<Rightarrow> int \<Rightarrow> world \<Rightarrow> world" where
  "on_startPrivateConvo fromId toId now w =
     (case findPrivateConvo (chat w) fromId toId of
        Some _ \<Rightarrow> emit (ToRooms [UserRoom fromId]) (Update 4) w
      | None \<Rightarrow>
          (case startPrivateConvo (store w) (chat w) fromId toId now of
             None \<Rightarrow> w
           | Some (c1, _) \<Rightarrow> emit (ToRooms [UserRoom fromId]) (Update 4) (w\<lparr>chat := c1\<rparr>)))"

text \<open>\<open>getPrivateConvo\<close> (lines 399-417): joins the conversation rooms.\<close>

definition on_getPrivateConvo :: "sid \<Rightarrow> userid \<Rightarrow> world \<Rightarrow> world" where
  "on_getPrivateConvo c uid w = fold (\<lambda>ch. join c (NameRoom (ch_name ch))) (getPrivateConvo (chat w) uid) w"

subsection \<open>Administration\<close>

text \<open>\<open>handlePassword\<close> (lines 419-436).\<close>

definition on_handlePassword :: "sid \<Rightarrow> userid \<Rightarrow> nat \<Rightarrow> string option \<Rightarrow> world \<Rightarrow> world" where
  "on_handlePassword c uid cid pw w =
     (case handlePassword (chat w) uid cid pw of
        None \<Rightarrow> w
      | Some (c1, r) \<Rightarrow> alert c r (w\<lparr>chat := c1\<rparr>))"

text \<open>\<open>handleAdmin\<close> (lines 438-473).\<close>

definition on_handleAdmin :: "sid \<Rightarrow> userid \<Rightarrow> nat \<Rightarrow> userid \<Rightarrow> world \<Rightarrow> world" where
  "on_handleAdmin c owner cid uid w =
     (if owner = uid then w
      else case handleAdmin (chat w) owner cid uid of
             None \<Rightarrow> w
           | Some (c1, st, r) \<Rightarrow>
               if st = 1 then alert c r (w\<lparr>chat := c1\<rparr>)
               else emit (ToRooms [UserRoom uid]) (Announcement r cid)
                      (emit (ToRooms [ChanRoom cid]) (UpdateChan 8 cid) (w\<lparr>chat := c1\<rparr>)))"

text \<open>The notices \<open>kickUser\<close> and \<open>banUser\<close> send after the service call,
  whatever it answered: the channel and the target are read first, each is
  dereferenced when its notice is built.\<close>

definition sanction_notices :: "string \<Rightarrow> string \<Rightarrow> nat \<Rightarrow> userid \<Rightarrow> world \<Rightarrow> world" where
  "sanction_notices pre post cid t w =
     (let ch = getChannelById (chat w) cid; tu = getUserById (store w) t;
          w1 = emit (ToRooms [UserRoom t]) (Update 1) w
      in case ch of
           None \<Rightarrow> w1
         | Some chn \<Rightarrow>
             let w3 = emit (ToRooms [ChanRoom cid]) (UpdateChan 8 cid)
                        (emit (ToRooms [UserRoom t]) (Alert (pre @ ch_name chn)) w1)
             in case tu of
                  None \<Rightarrow> w3
                | Some u \<Rightarrow> emit (ToRooms [ChanRoom cid]) (Announcement (u_username u @ post) cid) w3)"

definition alert_opt :: "sid \<Rightarrow> string option \<Rightarrow> world \<Rightarrow> world" where
  "alert_opt c r w = (case r of Some e \<Rightarrow> alert c e w | None \<Rightarrow> w)"

text \<open>\<open>kickUser\<close> (lines 475-518).\<close>

definition on_kickUser :: "sid \<Rightarrow> userid \<Rightarrow> nat \<Rightarrow> userid \<Rightarrow> int \<Rightarrow> world \<Rightarrow> world" where
  "on_kickUser c uid cid tid now w =
     (if uid = tid then w
      else case kickUser (chat w) uid cid tid now of
             None \<Rightarrow> w
           | Some (c1, r) \<Rightarrow>
               sanction_notices ''You got kicked out of channel '' '' got kicked out of this channel'' cid tid
                 (alert_opt c r (w\<lparr>chat := c1\<rparr>)))"

text \<open>\<open>banUser\<close> (lines 520-563).\<close>

definition on_banUser :: "sid \<Rightarrow> userid \<Rightarrow> nat \<Rightarrow> userid \<Rightarrow> int \<Rightarrow> world \<Rightarrow> world" where
  "on_banUser c uid cid tid now w =
     (if uid = tid then w
      else case banUser (chat w) uid cid tid now of
             None \<Rightarrow> w
           | Some (c1, r) \<Rightarrow>
               sanction_notices ''You are banned from channel '' '' is banned from this channel'' cid tid
                 (alert_opt c r (w\<lparr>chat := c1\<rparr>)))"

text \<open>\<open>muteUser\<close> (lines 565-587).\<close>

definition on_muteUser :: "sid \<Rightarrow> userid \<Rightarrow> nat \<Rightarrow> userid \<Rightarrow> int \<Rightarrow> world \<Rightarrow> world" where
  "on_muteUser c uid cid tid now w =
     (if uid = tid then w
      else case muteUser (chat w) uid cid tid now of
             None \<Rightarrow> w
           | Some (c1, r) \<Rightarrow> alert_opt c r (w\<lparr>chat := c1\<rparr>))"

text \<open>\<open>blockUser\<close> (lines 589-607).\<close>

definition on_blockUser :: "userid \<Rightarrow> userid \<Rightarrow> world \<Rightarrow> world" where
  "on_blockUser uid tid w =
     (case chat_blockUser (store w) uid tid of
        None \<Rightarrow> w
      | Some (d1, _) \<Rightarrow> emit (ToRooms [UserRoom tid]) (Update 24) (w\<lparr>store := d1\<rparr>))"

subsection \<open>A sample chat\<close>

text \<open>The lobby with the channel \<open>room\<close> of \<open>demo_chat\<close>.\<close>

definition chat_world :: world where
  "chat_world = lobby_world\<lparr>chat := demo_chat\<rparr>"

subsection \<open>Properties\<close>

text \<open>C31 (posting needs only a row): a channel message is stored and broadcast to the channel room for any sender who has a membership row and is not muted, including a member who has left or is banned, and the sending socket is put back into the channel room.\<close>

theorem sendMessage_any_row_posts:
  assumes u: "findUserInChannel (chat w) cid uid = Some u" and nm: "\<not> now < muteEnd u"
  shows "let m = \<lparr>m_id = next_mid (chat w), m_fromId = uid, m_toId = cid, m_fromUsername = name,
                 m_dm = False, m_content = txt\<rparr>;
             w' = on_sendMessage c uid cid name False txt now w
         in getMessages (chat w') cid = getMessages (chat w) cid @ [m]
          \<and> c \<in> set (rooms w' (ChanRoom cid))
          \<and> last (outbox w') = (ToRooms [ChanRoom cid], NewMessage m)"
  using assms by (simp add: on_sendMessage_def sendMessage_def getMessages_def Let_def set_os_add)

text \<open>C32 (refused kicks are announced): when kickUser refuses (a USER actor, an OWNER target, or an ADMIN against an ADMIN), the chat tables are unchanged, yet the target is still told it got kicked out of the channel.\<close>

theorem kick_refused_still_notifies:
  assumes "uid \<noteq> tid" and u: "findUserInChannel (chat w) cid uid = Some u"
    and t: "findUserInChannel (chat w) cid tid = Some t"
    and refused: "cu_role u = USER \<or> cu_role t = OWNER \<or> (cu_role u = ADMIN \<and> cu_role t = ADMIN)"
    and ch: "getChannelById (chat w) cid = Some chn"
  shows "chat (on_kickUser c uid cid tid now w) = chat w
       \<and> (ToRooms [UserRoom tid], Alert (''You got kicked out of channel '' @ ch_name chn))
           \<in> set (outbox (on_kickUser c uid cid tid now w))"
proof -
  obtain e where "mod_check ''kick'' u t = Some e" using mod_check_refuses [OF refused] by blast
  then have k: "kickUser (chat w) uid cid tid now = Some (chat w, Some e)"
    using u t by (simp add: kickUser_def moderate_def)
  show ?thesis
    using assms by (simp add: on_kickUser_def k sanction_notices_def alert_opt_def alert_def Let_def
        split: option.split)
qed

theorem sendMessage_any_row_posts_witness:
  "getMessages (chat (on_sendMessage ''s2'' 2 1 ''bob'' False ''hi'' 1000 chat_world)) 1 =
     [\<lparr>m_id = 1, m_fromId = 2, m_toId = 1, m_fromUsername = ''bob'', m_dm = False, m_content = ''hi''\<rparr>]
   \<and> ''s2'' \<in> set (rooms (on_sendMessage ''s2'' 2 1 ''bob'' False ''hi'' 1000 chat_world) (ChanRoom 1))"
  using sendMessage_any_row_posts [of chat_world 1 2 "cusers demo_chat ! 1" 1000 "''bob''" "''hi''" "''s2''"]
  by (simp add: chat_world_def demo_chat_def findUserInChannel_def same_cu_def getMessages_def Let_def)

theorem kick_refused_still_notifies_witness:
  "chat (on_kickUser ''s3'' 3 1 1 1000 chat_world) = demo_chat
   \<and> (ToRooms [UserRoom 1], Alert (''You got kicked out of channel '' @ ''room''))
       \<in> set (outbox (on_kickUser ''s3'' 3 1 1 1000 chat_world))"
  using kick_refused_still_notifies [of 3 1 chat_world 1 "cusers demo_chat ! 2" "cusers demo_chat ! 0"
      "hd (channels demo_chat)" "''s3''" 1000]
  by (simp add: chat_world_def demo_chat_def findUserInChannel_def same_cu_def getChannelById_def)

end
