(* ===== verification/Connection.thy ===== *)
theory Connection
  imports ChatGateway Session
begin

text \<open>
  Connecting and disconnecting a socket.  Both gateways listen on the same
  socket.io server: \<open>GameGateway.handleConnection\<close> and
  \<open>handleDisconnect\<close> (\<open>game.gateway.ts\<close>, lines 67-178) keep \<open>players\<close>,
  the queue, the invitations and the presence; \<open>ChatGateway\<close> joins the
  socket to its user, channel and conversation rooms.  The composed events
  run the game handler first, then the chat handler, each atomically.  On a
  disconnection socket.io fires \<open>disconnecting\<close> while the socket is still
  in its rooms, then removes it from every room, then runs the
  \<open>disconnect\<close> handlers.
\<close>

subsection \<open>GameGateway\<close>

text \<open>\<open>handleConnection\<close> (lines 67-84): a missing or zero \<open>authId\<close> is
  ignored; a second socket of a queued identity, or a socket of an identity in
  game, does not change the presence.\<close>

definition game_handleConnection :: "sid \<Rightarrow> authid \<Rightarrow> world \<Rightarrow> world" where
  "game_handleConnection c a w =
     (if a = 0 then w
      else
        let w1 = w\<lparr>players := am_set (players w) c a\<rparr>;
            online = emit Everyone (Update 28) (on_store (\<lambda>d. setStatusWithauthId d a ONLINE) w1)
        in case find_index (\<lambda>u. iu_authId u = a) (waitingQueue w1) of
             Some i \<Rightarrow> if socketId (waitingQueue w1 ! i) \<noteq> Some c then w1 else online
           | None \<Rightarrow> if checkStatus (store w1) a = Some INGAME then w1 else online)"

text \<open>The forfeit written by \<open>handleDisconnect\<close> (lines 128-154): the
  counters first, then a partial update of the row.\<close>

definition disconnect_forfeit :: "db \<Rightarrow> game \<Rightarrow> authid \<Rightarrow> db" where
  "disconnect_forfeit d g a =
     (let (wn, ls) = (if a = leftPlayerId g then (rightPlayerId g, leftPlayerId g) else (leftPlayerId g, rightPlayerId g));
          d1 = addLose (addWin d wn) ls
      in caught (upd_game (game_id g) (\<lambda>x. x\<lparr>winnerId := Some wn, loserId := Some ls, isFinished := True,
                                             hasLeft := True\<rparr>) d1) d1)"

text \<open>\<open>handleDisconnect\<close> (lines 86-178).  When no socket of the game room
  resolves to a user, \<open>winner.id\<close> throws before \<open>players.delete\<close>.\<close>

definition game_handleDisconnect :: "sid \<Rightarrow> authid \<Rightarrow> world \<Rightarrow> world" where
  "game_handleDisconnect c a w =
     (if a = 0 then w
      else
        let w1 = w\<lparr>invitations := filter (\<lambda>iv. iu_authId (inviter iv) \<noteq> a \<and> iu_authId (invited iv) \<noteq> a)
                                     (invitations w)\<rparr>;
            game = findLastGame (store w1) a;
            w2 = (case find_index (\<lambda>u. socketId u = Some c) (waitingQueue w1) of
                    None \<Rightarrow> w1
                  | Some i \<Rightarrow> w1\<lparr>waitingQueue := remove_nth i (waitingQueue w1)\<rparr>);
            w3 = (if \<not> checkDuplicateUser (players w2) a
                  then emit Everyone (Update 28) (on_store (\<lambda>d. setStatusWithauthId d a OFFLINE) w2) else w2)
        in case game of
             None \<Rightarrow> w3\<lparr>players := am_delete (players w3) c\<rparr>
           | Some g \<Rightarrow>
               if isFinished g \<or> (Some c \<noteq> leftPlayerSocket g \<and> Some c \<noteq> rightPlayerSocket g)
               then (leave c (GameRoom (game_id g)) w3)\<lparr>players := am_delete (players w3) c\<rparr>
               else
                 let w4 = (if winnerId g = None \<and> loserId g = None
                           then on_store (\<lambda>d. disconnect_forfeit d g a) w3 else w3);
                     winner = Option.bind (last_in_room w4 (GameRoom (game_id g)))
                                (\<lambda>s. Option.bind (map_of (players w4) s) (getUserByAuthId (store w4)))
                 in case winner of
                      None \<Rightarrow> throw ''TypeError'' w4
                    | Some u \<Rightarrow>
                        (leave c (GameRoom (game_id g))
                          (emit (ToRooms [UserRoom (u_id u)]) (GameStatusSelectMsg LEAVE)
                            (emit (ToRooms [UserRoom (u_id u)]) (GameStatusMsg LEAVE) w4)))
                        \<lparr>players := am_delete (players w4) c\<rparr>)"

subsection \<open>The composed socket events\<close>

text \<open>A disconnection: \<open>disconnecting\<close>, then socket.io removes the socket
  from its rooms and from the connected sockets, then the game handler runs
  (the chat \<open>handleDisconnect\<close> only logs).\<close>

definition disconnect :: "sid \<Rightarrow> authid \<Rightarrow> world \<Rightarrow> world" where
  "disconnect c a w =
     game_handleDisconnect c a
       ((leave_all c (chat_disconnecting c w))\<lparr>sockets := os_del c (sockets w),
                                               sock_user := am_delete (sock_user w) c\<rparr>)"

text \<open>A connection: the socket joins the server, the game handler runs, then
  the chat handler, which may disconnect the socket again.\<close>

definition connect :: "sid \<Rightarrow> authid \<Rightarrow> int \<Rightarrow> world \<Rightarrow> world" where
  "connect c a now w =
     (let (w1, drop) = chat_handleConnection c a now (game_handleConnection c a (w\<lparr>sockets := os_add c (sockets w)\<rparr>))
      in if drop then disconnect c a w1 else w1)"

subsection \<open>Disconnection lemmas\<close>

lemma findLastGame_Some:
  "findLastGame d a = Some g \<Longrightarrow> g \<in> set (games d) \<and> (leftPlayerId g = a \<or> rightPlayerId g = a)"
  by (auto simp: findLastGame_def dest!: last_opt_Some_in)

lemma getGameById_distinct:
  "distinct (map game_id (games d)) \<Longrightarrow> g \<in> set (games d) \<Longrightarrow> getGameById d (game_id g) = Some g"
proof -
  have "distinct (map game_id gs) \<Longrightarrow> g \<in> set gs \<Longrightarrow> find (\<lambda>x. game_id x = game_id g) gs = Some g" for gs
    by (induction gs) (auto simp: image_iff)
  then show "distinct (map game_id (games d)) \<Longrightarrow> g \<in> set (games d) \<Longrightarrow> getGameById d (game_id g) = Some g"
    by (simp add: getGameById_def)
qed

lemma setStatusWithauthId_frame [simp]:
  "wins_of (setStatusWithauthId d a s) = wins_of d" "loses_of (setStatusWithauthId d a s) = loses_of d"
  "games (setStatusWithauthId d a s) = games d"
  "getUserByAuthId (setStatusWithauthId d a s) b = None \<longleftrightarrow> getUserByAuthId d b = None"
  by (auto simp: fun_eq_iff setStatusWithauthId_def wins_of_def loses_of_def model_simps split: option.split)

lemma disconnect_forfeit_effect:
  assumes g: "getGameById d (game_id g) = Some g" and p: "a = leftPlayerId g \<or> a = rightPlayerId g"
    and ne: "leftPlayerId g \<noteq> rightPlayerId g"
    and ul: "getUserByAuthId d (leftPlayerId g) \<noteq> None" and ur: "getUserByAuthId d (rightPlayerId g) \<noteq> None"
  shows "let o' = (if a = leftPlayerId g then rightPlayerId g else leftPlayerId g); d' = disconnect_forfeit d g a
         in getGameById d' (game_id g) = Some (g\<lparr>winnerId := Some o', loserId := Some a, isFinished := True, hasLeft := True\<rparr>)
          \<and> (\<forall>b. wins_of d' b = wins_of d b + (if b = o' then 1 else 0))
          \<and> (\<forall>b. loses_of d' b = loses_of d b + (if b = a then 1 else 0))"
  using p ne ul ur g
  by (auto simp: disconnect_forfeit_def Let_def getGameById_caught_upd_game model_simps)

lemma game_handleDisconnect_playing:
  assumes "a \<noteq> 0" "findLastGame (store w) a = Some g" "\<not> isFinished g"
    and "Some c = leftPlayerSocket g \<or> Some c = rightPlayerSocket g"
    and "winnerId g = None" "loserId g = None"
  shows "store (game_handleDisconnect c a w) =
           disconnect_forfeit (if checkDuplicateUser (players w) a then store w
                               else setStatusWithauthId (store w) a OFFLINE) g a"
    and "rooms w (GameRoom (game_id g)) = [] \<Longrightarrow>
           game_handleDisconnect c a w =
             (let w1 = w\<lparr>invitations := filter (\<lambda>iv. iu_authId (inviter iv) \<noteq> a \<and> iu_authId (invited iv) \<noteq> a)
                                          (invitations w)\<rparr>;
                  w2 = (case find_index (\<lambda>u. socketId u = Some c) (waitingQueue w1) of
                          None \<Rightarrow> w1 | Some i \<Rightarrow> w1\<lparr>waitingQueue := remove_nth i (waitingQueue w1)\<rparr>);
                  w3 = (if \<not> checkDuplicateUser (players w2) a
                        then emit Everyone (Update 28) (on_store (\<lambda>d. setStatusWithauthId d a OFFLINE) w2) else w2)
              in throw ''TypeError'' (on_store (\<lambda>d. disconnect_forfeit d g a) w3))"
  using assms
  by (auto simp: game_handleDisconnect_def Let_def last_in_room_def split: option.split)

text \<open>C24 (forfeit on disconnection): when a player's socket disconnects from a game that is still running and has no result, \<open>handleDisconnect\<close> records the game as won by the opponent and lost by the leaver, marks it finished and left, and adds exactly one win to the opponent and one loss to the leaver; no other counter changes.\<close>

theorem disconnect_forfeit_correct:
  assumes a: "a \<noteq> 0" and wf: "distinct (map game_id (games (store w)))"
    and g: "findLastGame (store w) a = Some g" and "\<not> isFinished g"
    and "Some c = leftPlayerSocket g \<or> Some c = rightPlayerSocket g"
    and "winnerId g = None" "loserId g = None" and ne: "leftPlayerId g \<noteq> rightPlayerId g"
    and ul: "getUserByAuthId (store w) (leftPlayerId g) \<noteq> None"
    and ur: "getUserByAuthId (store w) (rightPlayerId g) \<noteq> None"
  shows "let o' = (if a = leftPlayerId g then rightPlayerId g else leftPlayerId g);
             d' = store (game_handleDisconnect c a w)
         in getGameById d' (game_id g) = Some (g\<lparr>winnerId := Some o', loserId := Some a, isFinished := True,
                                                 hasLeft := True\<rparr>)
          \<and> (\<forall>b. wins_of d' b = wins_of (store w) b + (if b = o' then 1 else 0))
          \<and> (\<forall>b. loses_of d' b = loses_of (store w) b + (if b = a then 1 else 0))"
proof -
  define d0 where "d0 = (if checkDuplicateUser (players w) a then store w else setStatusWithauthId (store w) a OFFLINE)"
  have gs: "games d0 = games (store w)" by (simp add: d0_def)
  have gid: "getGameById d0 (game_id g) = Some g"
    using getGameById_distinct [OF wf] findLastGame_Some [OF g] getGameById_games_eq [OF gs] by simp
  have cnt: "wins_of d0 = wins_of (store w)" "loses_of d0 = loses_of (store w)" by (simp_all add: d0_def)
  have us: "getUserByAuthId d0 (leftPlayerId g) \<noteq> None" "getUserByAuthId d0 (rightPlayerId g) \<noteq> None"
    using ul ur by (simp_all add: d0_def del: not_None_eq)
  have "a = leftPlayerId g \<or> a = rightPlayerId g" using findLastGame_Some [OF g] by auto
  from disconnect_forfeit_effect [OF gid this ne us] show ?thesis
    using game_handleDisconnect_playing(1) [OF assms(1,3-7)] cnt by (simp add: d0_def [symmetric] Let_def)
qed

text \<open>C25 (disconnection from an empty game room): when the game room of the running game no longer holds any socket, \<open>winner.id\<close> throws a TypeError after the forfeit is written and before \<open>players.delete\<close>, so the closed socket stays in \<open>players\<close>.\<close>

lemma disconnect_stale_player:
  assumes "a \<noteq> 0" "findLastGame (store w) a = Some g" "\<not> isFinished g"
    and "Some c = leftPlayerSocket g \<or> Some c = rightPlayerSocket g"
    and "winnerId g = None" "loserId g = None" and "rooms w (GameRoom (game_id g)) = []"
  shows "thrown (game_handleDisconnect c a w) = thrown w @ [''TypeError'']
       \<and> players (game_handleDisconnect c a w) = players w"
  using game_handleDisconnect_playing(2) [OF assms]
  by (simp add: Let_def split: option.split)

theorem disconnect_forfeit_correct_witness:
  "getGameById (store (game_handleDisconnect ''s1'' 101 (match_world demo_game))) 7 =
     Some (demo_game\<lparr>winnerId := Some 102, loserId := Some 101, isFinished := True, hasLeft := True\<rparr>)
   \<and> wins_of (store (game_handleDisconnect ''s1'' 101 (match_world demo_game))) 102 = 1
   \<and> loses_of (store (game_handleDisconnect ''s1'' 101 (match_world demo_game))) 101 = 1"
proof -
  have "findLastGame (store (match_world demo_game)) 101 = Some demo_game"
    by (simp add: findLastGame_def demo_db_def last_opt_def)
  moreover have "distinct (map game_id (games (store (match_world demo_game))))" by (simp add: demo_db_def)
  moreover have "getUserByAuthId (store (match_world demo_game)) 101 \<noteq> None"
    "getUserByAuthId (store (match_world demo_game)) 102 \<noteq> None" by simp_all
  moreover have "wins_of (store (match_world demo_game)) 102 = 0" "loses_of (store (match_world demo_game)) 101 = 0"
    by (simp_all add: wins_of_def loses_of_def)
  ultimately show ?thesis
    using disconnect_forfeit_correct [of 101 "match_world demo_game" demo_game "''s1''"]
    by (simp add: demo_game_def Let_def)
qed

theorem disconnect_stale_player_witness:
  "thrown (game_handleDisconnect ''s1'' 101 ((match_world demo_game)\<lparr>rooms := (\<lambda>_. [])\<rparr>)) = [''TypeError'']
   \<and> map_of (players (game_handleDisconnect ''s1'' 101 ((match_world demo_game)\<lparr>rooms := (\<lambda>_. [])\<rparr>))) ''s1'' = Some 101"
proof -
  have "findLastGame (store (match_world demo_game)) 101 = Some demo_game"
    by (simp add: findLastGame_def demo_db_def last_opt_def)
  moreover have "thrown (match_world demo_game) = []"
    by (simp add: match_world_def lobby_world_def init_world_def)
  ultimately show ?thesis
    using disconnect_stale_player [of 101 "(match_world demo_game)\<lparr>rooms := (\<lambda>_. [])\<rparr>" demo_game "''s1''"]
    by (simp add: demo_game_def)
qed

end
