(* ===== verification/Server.thy ===== *)
theory Server
  imports Matchmaking Invites Session ChatGateway Connection
begin

text \<open>
  The server as one state machine: every socket event both gateways handle
  is a constructor of \<open>event\<close>, \<open>step\<close> runs its handler on the world
  (\<open>None\<close> only for a \<open>gameStart\<close> whose draws never end the rejection
  loop), and \<open>reachable d\<close> holds the worlds reached from the empty
  gateway over the store \<open>d\<close> by any sequence of events.  The
  \<open>lobby_state\<close> frame lemmas say which handlers leave the queue, the
  invitations, the \<open>players\<close> map and the connected sockets alone, and
  \<open>step_lobby_inv\<close> shows that every event preserves \<open>lobby_inv\<close>.
\<close>

subsection \<open>Events\<close>

text \<open>One constructor per socket event: the connection and disconnection of
  a socket (\<open>Connection\<close>), the \<open>@SubscribeMessage\<close> handlers of
  \<open>GameGateway\<close> (\<open>join-room\<close>, \<open>leaveQueue\<close>, the invitations,
  \<open>initGame\<close> to \<open>gameFinished\<close>), a due \<open>setTimeout\<close> callback
  (\<open>Tick\<close>) and the state-changing handlers of \<open>ChatGateway\<close>.  The
  arguments are the payload fields the handlers read, the clock and the
  random draws.\<close>

datatype event =
    Connect sid authid int
  | Disconnect sid authid
  | JoinRoom sid userid authid
  | LeaveQueue sid authid
  | InviteInit sid userid
  | InviteAccepted userid userid
  | InviteDeclined userid userid
  | InitGame sid authid gid
  | CheckGame gid
  | LeaveGame sid authid gid gameStatus
  | MapSelect authid gid
  | GameMode authid gid string real
  | UpdateUser authid gid gameStatus
  | PaddleMove gamedata authid
  | BallMove gamedata
  | GameStart gamedata "real list"
  | GameFinished gid
  | Tick
  | SendMessage sid userid nat string bool string int
  | CreateChannel sid string channelType "string option" userid int
  | JoinChannel sid string userid "string option" int
  | LeaveChannel sid nat userid int
  | StartPrivateConvo userid userid int
  | GetPrivateConvo sid userid
  | HandlePassword sid userid nat "string option"
  | HandleAdmin sid userid nat userid
  | KickUser sid userid nat userid int
  | BanUser sid userid nat userid int
  | MuteUser sid userid nat userid int
  | BlockUser userid userid

fun step :: "event \<Rightarrow> world \<Rightarrow> world option" where
  "step (Connect c a now) w = Some (connect c a now w)"
| "step (Disconnect c a) w = Some (disconnect c a w)"
| "step (JoinRoom c uid a) w = Some (joinRoom c uid a w)"
| "step (LeaveQueue c a) w = Some (leaveQueue c a w)"
| "step (InviteInit c t) w = Some (inviteInit c t w)"
| "step (InviteAccepted x y) w = Some (inviteAccepted x y w)"
| "step (InviteDeclined x y) w = Some (inviteDeclined x y w)"
| "step (InitGame c a i) w = Some (initGame c a i w)"
| "step (CheckGame i) w = Some (checkGame i w)"
| "step (LeaveGame c a i st) w = Some (leaveGame c a i st w)"
| "step (MapSelect a i) w = Some (mapSelect a i w)"
| "step (GameMode a i m r) w = Some (gameModeSelect a i m r w)"
| "step (UpdateUser a i st) w = Some (updateUser a i st w)"
| "step (PaddleMove p a) w = Some (paddleMove p a w)"
| "step (BallMove gd) w = Some (ballMove gd w)"
| "step (GameStart gd rs) w = gameStart gd rs w"
| "step (GameFinished i) w = Some (gameFinishedH i w)"
| "step Tick w = Some (tick w)"
| "step (SendMessage c u t n dm m now) w = Some (on_sendMessage c u t n dm m now w)"
| "step (CreateChannel c n ty p u now) w = Some (on_createChannel c n ty p u now w)"
| "step (JoinChannel c n u p now) w = Some (on_joinChannel c n u p now w)"
| "step (LeaveChannel c ch u now) w = Some (on_leaveChannel c ch u now w)"
| "step (StartPrivateConvo u v now) w = Some (on_startPrivateConvo u v now w)"
| "step (GetPrivateConvo c u) w = Some (on_getPrivateConvo c u w)"
| "step (HandlePassword c u ch p) w = Some (on_handlePassword c u ch p w)"
| "step (HandleAdmin c u ch t) w = Some (on_handleAdmin c u ch t w)"
| "step (KickUser c u ch t now) w = Some (on_kickUser c u ch t now w)"
| "step (BanUser c u ch t now) w = Some (on_banUser c u ch t now w)"
| "step (MuteUser c u ch t now) w = Some (on_muteUser c u ch t now w)"
| "step (BlockUser u t) w = Some (on_blockUser u t w)"

text \<open>The worlds the server reaches from a fresh start over the store \<open>d\<close>.\<close>

inductive reachable :: "db \<Rightarrow> world \<Rightarrow> bool" for d :: db where
  init: "reachable d (init_world d)"
| step: "reachable d w \<Longrightarrow> step e w = Some w' \<Longrightarrow> reachable d w'"

subsection \<open>The lobby state and its invariant\<close>

definition lobby_state :: "world \<Rightarrow> iuser list \<times> invite list \<times> (sid \<times> authid) list \<times> sid list" where
  "lobby_state w = (waitingQueue w, invitations w, players w, sockets w)"

definition lobby_inv :: "world \<Rightarrow> bool" where
  "lobby_inv w \<longleftrightarrow> length (waitingQueue w) \<le> 1 \<and> invites_unique w
                   \<and> distinct (map fst (players w)) \<and> distinct (sockets w)"

lemma lobby_state_fold:
  "(\<And>x w. lobby_state (g x w) = lobby_state w) \<Longrightarrow> lobby_state (fold g xs w) = lobby_state w"
  by (induction xs arbitrary: w) simp_all

lemma lobby_state_basic [simp]:
  "lobby_state (emit t m w) = lobby_state w" "lobby_state (throw e w) = lobby_state w"
  "lobby_state (join s r w) = lobby_state w" "lobby_state (leave s r w) = lobby_state w"
  "lobby_state (on_store f w) = lobby_state w" "lobby_state (alert s txt w) = lobby_state w"
  "lobby_state (alert_opt s mo w) = lobby_state w"
  "lobby_state (w\<lparr>chat := x\<rparr>) = lobby_state w" "lobby_state (w\<lparr>store := d\<rparr>) = lobby_state w"
  "lobby_state (w\<lparr>rooms := rs\<rparr>) = lobby_state w" "lobby_state (w\<lparr>timers := ts\<rparr>) = lobby_state w"
  "lobby_state (w\<lparr>sock_user := su\<rparr>) = lobby_state w"
  by (simp_all add: lobby_state_def alert_def alert_opt_def split: option.split)

lemma fire_lobby_state: "lobby_state (fire t w) = lobby_state w"
  by (cases t) simp

lemma end_phase_lobby_state:
  "end_phase gd w = Inl w' \<Longrightarrow> lobby_state w' = lobby_state w"
  "end_phase gd w = Inr w' \<Longrightarrow> lobby_state w' = lobby_state w"
  by (auto simp: end_phase_def Let_def split: if_splits option.splits prod.splits)

lemma session_lobby_state [simp]:
  "lobby_state (initGame c a i w) = lobby_state w"
  "lobby_state (checkGame i w) = lobby_state w"
  "lobby_state (leaveGame c a i st w) = lobby_state w"
  "lobby_state (mapSelect a i w) = lobby_state w"
  "lobby_state (gameModeSelect a i m r w) = lobby_state w"
  "lobby_state (updateUser a i st w) = lobby_state w"
  "lobby_state (paddleMove p a w) = lobby_state w"
  "lobby_state (gameFinishedH i w) = lobby_state w"
  "lobby_state (tick w) = lobby_state w"
  subgoal by (simp add: initGame_def Let_def split: option.split)
  subgoal by (simp add: checkGame_def Let_def split: option.split)
  subgoal by (simp add: leaveGame_def Let_def split: option.split)
  subgoal by (simp add: mapSelect_def Let_def split: option.split)
  subgoal by (simp add: gameModeSelect_def Let_def split: option.split)
  subgoal by (simp add: updateUser_def Let_def split: option.split)
  subgoal by (simp add: paddleMove_def)
  subgoal by (simp add: gameFinishedH_def)
  subgoal by (simp add: tick_def fire_lobby_state split: list.split)
  done

lemma ballMove_lobby_state [simp]: "lobby_state (ballMove gd w) = lobby_state w"
proof -
  have "lobby_state (score_phase g gd w) = lobby_state w" for g gd w
    by (simp add: score_phase_def Let_def split: option.split prod.split)
  then show ?thesis
    by (auto simp: ballMove_def Let_def split: sum.split dest: end_phase_lobby_state)
qed

lemma gameStart_lobby_state: "gameStart gd rs w = Some w' \<Longrightarrow> lobby_state w' = lobby_state w"
  by (auto simp: gameStart_def Let_def split: if_splits option.splits)

lemma sanction_notices_lobby_state [simp]: "lobby_state (sanction_notices v t ch u w) = lobby_state w"
  by (simp add: sanction_notices_def Let_def split: option.split)

lemma chat_lobby_state [simp]:
  "lobby_state (on_sendMessage c u t n dm m now w) = lobby_state w"
  "lobby_state (on_createChannel c n ty p u now w) = lobby_state w"
  "lobby_state (on_joinChannel c n u p now w) = lobby_state w"
  "lobby_state (on_leaveChannel c ch u now w) = lobby_state w"
  "lobby_state (on_startPrivateConvo u v now w) = lobby_state w"
  "lobby_state (on_getPrivateConvo c u w) = lobby_state w"
  "lobby_state (on_handlePassword c u ch p w) = lobby_state w"
  "lobby_state (on_handleAdmin c u ch t w) = lobby_state w"
  "lobby_state (on_kickUser c u ch t now w) = lobby_state w"
  "lobby_state (on_banUser c u ch t now w) = lobby_state w"
  "lobby_state (on_muteUser c u ch t now w) = lobby_state w"
  "lobby_state (on_blockUser u t w) = lobby_state w"
  "lobby_state (chat_disconnecting c w) = lobby_state w"
  subgoal by (simp add: on_sendMessage_def Let_def lobby_state_fold split: option.split prod.split sum.split)
  subgoal by (simp add: on_createChannel_def Let_def lobby_state_fold split: option.split prod.split sum.split)
  subgoal by (simp add: on_joinChannel_def Let_def lobby_state_fold split: option.split prod.split sum.split)
  subgoal by (simp add: on_leaveChannel_def Let_def lobby_state_fold split: option.split prod.split sum.split)
  subgoal by (simp add: on_startPrivateConvo_def Let_def lobby_state_fold split: option.split prod.split sum.split)
  subgoal by (simp add: on_getPrivateConvo_def Let_def lobby_state_fold split: option.split prod.split sum.split)
  subgoal by (simp add: on_handlePassword_def Let_def lobby_state_fold split: option.split prod.split sum.split)
  subgoal by (simp add: on_handleAdmin_def Let_def lobby_state_fold split: option.split prod.split sum.split)
  subgoal by (simp add: on_kickUser_def Let_def lobby_state_fold split: option.split prod.split sum.split)
  subgoal by (simp add: on_banUser_def Let_def lobby_state_fold split: option.split prod.split sum.split)
  subgoal by (simp add: on_muteUser_def Let_def lobby_state_fold split: option.split prod.split sum.split)
  subgoal by (simp add: on_blockUser_def Let_def lobby_state_fold split: option.split prod.split sum.split)
  subgoal by (simp add: chat_disconnecting_def split: option.split)
  done

lemma chat_handleConnection_lobby_state:
  "chat_handleConnection c a now w = (w', b) \<Longrightarrow>
     lobby_state w' = lobby_state w"
  by (auto simp: chat_handleConnection_def Let_def lobby_state_fold split: option.splits)

lemma lobby_inv_state: "lobby_state w' = lobby_state w \<Longrightarrow> lobby_inv w' = lobby_inv w"
  by (simp add: lobby_inv_def lobby_state_def invites_unique_def)

lemma joinRoom_lobby:
  "invitations (joinRoom c uid a w) = invitations w \<and> players (joinRoom c uid a w) = players w
   \<and> sockets (joinRoom c uid a w) = sockets w"
  by (simp add: joinRoom_def Let_def split: prod.split)

lemma leaveQueue_lobby:
  "invitations (leaveQueue c a w) = invitations w \<and> players (leaveQueue c a w) = players w
   \<and> sockets (leaveQueue c a w) = sockets w"
  by (simp add: leaveQueue_def Let_def split: option.split)

lemma invites_lobby:
  "waitingQueue (inviteInit c t w) = waitingQueue w \<and> players (inviteInit c t w) = players w
   \<and> sockets (inviteInit c t w) = sockets w"
  "waitingQueue (inviteAccepted x y w) = waitingQueue w \<and> players (inviteAccepted x y w) = players w
   \<and> sockets (inviteAccepted x y w) = sockets w"
  "waitingQueue (inviteDeclined x y w) = waitingQueue w \<and> players (inviteDeclined x y w) = players w
   \<and> sockets (inviteDeclined x y w) = sockets w"
  by (simp_all add: inviteInit_def inviteAccepted_def inviteDeclined_def Let_def
      split: option.split prod.split list.split)

lemma game_handleConnection_inv: "lobby_inv w \<Longrightarrow> lobby_inv (game_handleConnection c a w)"
  by (simp add: game_handleConnection_def Let_def lobby_inv_def invites_unique_def distinct_am_set
      split: option.split)

lemma game_handleDisconnect_sockets: "sockets (game_handleDisconnect c a w) = sockets w"
  unfolding game_handleDisconnect_def Let_def
  by (simp add: option.case_distrib [where h = sockets] if_distrib [where f = sockets] option.case_eq_if
      cong: option.case_cong if_cong)

lemma game_handleDisconnect_queue: "length (waitingQueue (game_handleDisconnect c a w)) \<le> length (waitingQueue w)"
  unfolding game_handleDisconnect_def Let_def
  by (simp add: option.case_distrib [where h = "\<lambda>x. length (waitingQueue x)"]
        if_distrib [where f = "\<lambda>x. length (waitingQueue x)"] option.case_eq_if length_remove_nth_le
      cong: option.case_cong if_cong)

lemma game_handleDisconnect_invitations:
  "invitations (game_handleDisconnect c a w) =
     (if a = 0 then invitations w
      else filter (\<lambda>iv. iu_authId (inviter iv) \<noteq> a \<and> iu_authId (invited iv) \<noteq> a) (invitations w))"
  unfolding game_handleDisconnect_def Let_def
  by (simp add: option.case_distrib [where h = invitations] if_distrib [where f = invitations] option.case_eq_if
      cong: option.case_cong if_cong)

lemma game_handleDisconnect_players:
  "distinct (map fst (players w)) \<Longrightarrow> distinct (map fst (players (game_handleDisconnect c a w)))"
  unfolding game_handleDisconnect_def Let_def
  by (simp add: option.case_distrib [where h = "\<lambda>x. distinct (map fst (players x))"]
        if_distrib [where f = "\<lambda>x. distinct (map fst (players x))"] option.case_eq_if distinct_am_delete
      cong: option.case_cong if_cong)

lemma game_handleDisconnect_inv: "lobby_inv w \<Longrightarrow> lobby_inv (game_handleDisconnect c a w)"
  using game_handleDisconnect_queue [of c a w] game_handleDisconnect_players [of w c a]
  unfolding lobby_inv_def invites_unique_def
  by (simp add: game_handleDisconnect_sockets game_handleDisconnect_invitations distinct_map_filter)

lemma disconnect_inv: "lobby_inv w \<Longrightarrow> lobby_inv (disconnect c a w)"
proof -
  assume "lobby_inv w"
  then have "lobby_inv ((leave_all c (chat_disconnecting c w))\<lparr>sockets := os_del c (sockets w),
                                                              sock_user := am_delete (sock_user w) c\<rparr>)"
    using chat_lobby_state(13) [of c w]
    by (simp add: lobby_inv_def invites_unique_def leave_all_def lobby_state_def distinct_os_del)
  then show ?thesis by (simp add: disconnect_def game_handleDisconnect_inv)
qed

lemma connect_inv: "lobby_inv w \<Longrightarrow> lobby_inv (connect c a now w)"
proof -
  assume "lobby_inv w"
  then have w0: "lobby_inv (game_handleConnection c a (w\<lparr>sockets := os_add c (sockets w)\<rparr>))"
    by (intro game_handleConnection_inv) (simp add: lobby_inv_def invites_unique_def distinct_os_add)
  obtain w1 b where eq: "chat_handleConnection c a now (game_handleConnection c a (w\<lparr>sockets := os_add c (sockets w)\<rparr>)) = (w1, b)"
    by (cases "chat_handleConnection c a now (game_handleConnection c a (w\<lparr>sockets := os_add c (sockets w)\<rparr>))")
  with w0 have "lobby_inv w1"
    using chat_handleConnection_lobby_state lobby_inv_state by metis
  with eq show ?thesis by (simp add: connect_def disconnect_inv)
qed

lemma step_lobby_inv:
  assumes st: "step e w = Some w'" and inv: "lobby_inv w"
  shows "lobby_inv w'"
proof -
  have frame: "\<And>v. lobby_state v = lobby_state w \<Longrightarrow> lobby_inv v" using inv lobby_inv_state by blast
  show ?thesis
  proof (cases e)
    case (Connect c a now)
    with st inv show ?thesis by (auto intro: connect_inv)
  next
    case (Disconnect c a)
    with st inv show ?thesis by (auto intro: disconnect_inv)
  next
    case (JoinRoom c uid a)
    with st inv show ?thesis
      using joinRoom_queue_le1 [of w c uid a] joinRoom_lobby [of c uid a w]
      by (auto simp: lobby_inv_def invites_unique_def)
  next
    case (LeaveQueue c a)
    with st inv show ?thesis
      using leaveQueue_queue_le1 [of w c a] leaveQueue_lobby [of c a w]
      by (auto simp: lobby_inv_def invites_unique_def)
  next
    case (InviteInit c t)
    with st inv show ?thesis
      using inviteInit_unique [of w c t] invites_lobby(1) [of c t w] by (auto simp: lobby_inv_def)
  next
    case (InviteAccepted x y)
    with st inv show ?thesis
      using inviteAccepted_unique [of w x y] invites_lobby(2) [of x y w] by (auto simp: lobby_inv_def)
  next
    case (InviteDeclined x y)
    with st inv show ?thesis
      using inviteDeclined_unique [of w x y] invites_lobby(3) [of x y w] by (auto simp: lobby_inv_def)
  next
    case (GameStart gd rs)
    with st show ?thesis by (auto intro: frame dest: gameStart_lobby_state)
  qed (use st in \<open>auto intro!: frame\<close>)
qed

end
