(* ===== verification/Profile.thy ===== *)
theory Profile
  imports ChatStore "HOL-Library.Sublist"
begin

text \<open>
  The profile part of \<open>src/app/backend/src/user/user.service.ts\<close> and the
  avatar upload of \<open>user.controller.ts\<close>: the username check and change
  (which rewrites the names copied into game and message rows), the profile
  and home-page queries (match history, total score, mutual and one-way
  friends, ranking by win ratio), adding a friend, and the file filter and
  random file name of the avatar upload.  The Prisma schema is not in the
  sources: \<open>username\<close> is taken to be unique (the service reads it with
  \<open>findUnique\<close>) and \<open>friends\<close>/\<open>friendsRelation\<close> to be the two sides of
  one self-relation, returned in the order of the user table.
\<close>

subsection \<open>Username\<close>

text \<open>\<open>userAlreadyExists\<close> (lines 61-71).\<close>

definition userAlreadyExists :: "db \<Rightarrow> string \<Rightarrow> bool" where
  "userAlreadyExists d n \<longleftrightarrow> list_ex (\<lambda>u. u_username u = n) (users d)"

text \<open>\<open>changeName\<close> (lines 73-114).  The user row is read before the
  \<open>try\<close>.  The row update fails when the row is missing or another row has
  the name (unique column); the exception is caught and nothing else runs.
  Otherwise the left names, then the right names of the user's games, then
  the sender names of its messages are rewritten (\<open>updateMany\<close> never fails).\<close>

definition changeName :: "db \<Rightarrow> chatdb \<Rightarrow> userid \<Rightarrow> string \<Rightarrow> db \<times> chatdb" where
  "changeName d c i n =
     (case getUserById d i of
        None \<Rightarrow> (d, c)
      | Some u \<Rightarrow>
          if list_ex (\<lambda>v. u_username v = n \<and> u_id v \<noteq> i) (users d) then (d, c)
          else
            let d1 = d\<lparr>users := map (\<lambda>v. if u_id v = i then v\<lparr>u_username := n\<rparr> else v) (users d)\<rparr>;
                d2 = d1\<lparr>games := map (\<lambda>g. if leftPlayerId g = u_authId u then g\<lparr>leftPlayerName := Some n\<rparr> else g)
                                   (games d1)\<rparr>;
                d3 = d2\<lparr>games := map (\<lambda>g. if rightPlayerId g = u_authId u then g\<lparr>rightPlayerName := Some n\<rparr> else g)
                                   (games d2)\<rparr>
            in (d3, c\<lparr>messages := map (\<lambda>m. if m_fromId m = u_id u then m\<lparr>m_fromUsername := n\<rparr> else m)
                                     (messages c)\<rparr>))"

subsection \<open>Profile\<close>

text \<open>What \<open>getUserProfileInformation\<close> returns.\<close>

record profile =
  p_user :: user
  p_games :: "game list"
  p_wins :: nat
  p_losses :: nat
  p_score :: int
  p_mutual :: "user list"
  p_oneway :: "user list"

text \<open>The games of an identity, \<open>orderBy: {id: 'desc'}\<close>.\<close>

definition games_of :: "db \<Rightarrow> authid \<Rightarrow> game list" where
  "games_of d a = sort_key (\<lambda>g. - int (game_id g)) (filter (\<lambda>g. leftPlayerId g = a \<or> rightPlayerId g = a) (games d))"

text \<open>The \<open>reduce\<close> that sums the user's side of each game.\<close>

definition totalScore :: "authid \<Rightarrow> game list \<Rightarrow> int" where
  "totalScore a gs = foldl (\<lambda>acc g. acc + (if leftPlayerId g = a then scoreLeftPlayer g else scoreRightPlayer g)) 0 gs"

definition friendsIAdded :: "db \<Rightarrow> userid \<Rightarrow> user list" where
  "friendsIAdded d i = filter (\<lambda>v. (i, u_id v) \<in> set (friends d)) (users d)"

definition friendsAddedMe :: "db \<Rightarrow> userid \<Rightarrow> user list" where
  "friendsAddedMe d i = filter (\<lambda>v. (u_id v, i) \<in> set (friends d)) (users d)"

text \<open>The two nested loops of the profile: a friend I added is mutual when
  the inner loop finds it among those who added me (and breaks); it is
  one-way when the inner loop does not find it among the mutual ones.\<close>

fun found_in :: "user \<Rightarrow> user list \<Rightarrow> bool" where
  "found_in f1 [] = False"
| "found_in f1 (f2 # fs) = (if u_id f1 = u_id f2 then True else found_in f1 fs)"

fun mutual_loop :: "user list \<Rightarrow> user list \<Rightarrow> user list" where
  "mutual_loop [] ys = []"
| "mutual_loop (x # xs) ys = (if found_in x ys then x # mutual_loop xs ys else mutual_loop xs ys)"

fun oneway_loop :: "user list \<Rightarrow> user list \<Rightarrow> user list" where
  "oneway_loop [] ms = []"
| "oneway_loop (x # xs) ms = (if found_in x ms then oneway_loop xs ms else x # oneway_loop xs ms)"

text \<open>\<open>getUserProfileInformation\<close> (lines 239-324): \<open>None\<close> is the
  \<open>NotFoundException\<close> for a missing user, rethrown as an internal error.\<close>

definition getUserProfileInformation :: "db \<Rightarrow> userid \<Rightarrow> profile option" where
  "getUserProfileInformation d i =
     (case getUserById d i of
        None \<Rightarrow> None
      | Some u \<Rightarrow>
          let gs = games_of d (u_authId u);
              mutual = mutual_loop (friendsIAdded d i) (friendsAddedMe d i)
          in Some \<lparr>p_user = u, p_games = gs, p_wins = wins u, p_losses = loses u,
                   p_score = totalScore (u_authId u) gs, p_mutual = mutual,
                   p_oneway = oneway_loop (friendsIAdded d i) mutual\<rparr>)"

subsection \<open>Home page\<close>

text \<open>The ranking key: wins over losses, or the wins when there is no loss.\<close>

definition ratio :: "user \<Rightarrow> real" where
  "ratio u = (if loses u = 0 then real (wins u) else real (wins u) / real (loses u))"

text \<open>\<open>getGeneralInformation\<close> (lines 326-357): the users sorted by
  decreasing ratio (\<open>Array.sort\<close> is stable), the games by decreasing id,
  the users who are neither a friend nor the caller, and the friends.  A
  missing caller row makes \<open>user.friends\<close> throw.\<close>

definition getGeneralInformation :: "db \<Rightarrow> authid \<Rightarrow> userid \<Rightarrow> (user list \<times> game list \<times> user list \<times> user list) option" where
  "getGeneralInformation d a i =
     (let ranking = sort_key (\<lambda>u. - ratio u) (users d);
          gs = sort_key (\<lambda>g. - int (game_id g)) (games d)
      in case getUserById d i of
           None \<Rightarrow> None
         | Some _ \<Rightarrow>
             let fr = friendsIAdded d i;
                 friendIds = map u_id fr
             in Some (ranking, gs, filter (\<lambda>v. u_id v \<notin> set (friendIds @ [i])) (users d), fr))"

subsection \<open>Friends\<close>

text \<open>\<open>addFriend\<close> (lines 359-404): \<open>None\<close> is the internal error raised
  for a missing user (\<open>user.friends\<close> of \<open>null\<close>) or a missing friend row
  (\<open>connect\<close> fails).  Nothing compares the two ids.\<close>

definition addFriend :: "db \<Rightarrow> userid \<Rightarrow> userid \<Rightarrow> db option" where
  "addFriend d i f =
     (case getUserById d i of
        None \<Rightarrow> None
      | Some _ \<Rightarrow>
          if (i, f) \<in> set (friends d) then Some d
          else if getUserById d f = None then None
          else Some (d\<lparr>friends := friends d @ [(i, f)]\<rparr>))"

subsection \<open>Avatar upload\<close>

text \<open>\<open>fileFilter\<close> (\<open>user.controller.ts\<close>, lines 101-111): the regular
  expression \<open>/\.(jpg|jpeg|png)$/\<close>, case-sensitive, anchored at the end.\<close>

definition image_name_ok :: "string \<Rightarrow> bool" where
  "image_name_ok n \<longleftrightarrow> suffix ''.jpg'' n \<or> suffix ''.jpeg'' n \<or> suffix ''.png'' n"

text \<open>\<open>Number.prototype.toString(16)\<close> on a natural number.\<close>

function hex_of_nat :: "nat \<Rightarrow> string" where
  "hex_of_nat n = (if n < 16 then [''0123456789abcdef'' ! n]
                   else hex_of_nat (n div 16) @ [''0123456789abcdef'' ! (n mod 16)])"
  by pat_completeness auto
termination
  by (relation "measure id") auto

text \<open>\<open>Math.round(Math.random() * 16).toString(16)\<close>, one draw.\<close>

definition hex_draw :: "real \<Rightarrow> string" where
  "hex_draw r = hex_of_nat (nat \<lfloor>r * 16 + 1 / 2\<rfloor>)"

text \<open>The random part of the stored file name (lines 92-95): 32 draws,
  joined.\<close>

definition randomName :: "real list \<Rightarrow> string" where
  "randomName rs = concat (map hex_draw rs)"

subsection \<open>Well-formedness of the user table\<close>

text \<open>The constraints the schema puts on the user table and the friend
  relation: unique ids and usernames, no repeated pair, both ends existing.\<close>

definition user_table_wf :: "db \<Rightarrow> bool" where
  "user_table_wf d \<longleftrightarrow> distinct (map u_id (users d)) \<and> distinct (map u_username (users d))
     \<and> distinct (friends d) \<and> list_all (\<lambda>(x, y). getUserById d x \<noteq> None \<and> getUserById d y \<noteq> None) (friends d)"

subsection \<open>Lemmas\<close>

lemma found_in_iff [simp]: "found_in x ys \<longleftrightarrow> (\<exists>y\<in>set ys. u_id y = u_id x)"
  by (induction ys) auto

lemma mutual_loop_filter: "mutual_loop xs ys = filter (\<lambda>x. found_in x ys) xs"
  by (induction xs) simp_all

lemma oneway_loop_filter: "oneway_loop xs ms = filter (\<lambda>x. \<not> found_in x ms) xs"
  by (induction xs) simp_all

lemma getUserById_Some: "getUserById d i = Some u \<Longrightarrow> u \<in> set (users d) \<and> u_id u = i"
  by (auto simp: getUserById_def dest: find_Some_iff [THEN iffD1] simp: find_Some_iff in_set_conv_nth)

lemma getUserById_None: "getUserById d i = None \<longleftrightarrow> (\<forall>u\<in>set (users d). u_id u \<noteq> i)"
  by (auto simp: getUserById_def find_None_iff)

lemma profile_mutual:
  "mutual_loop (friendsIAdded d i) (friendsAddedMe d i) =
     filter (\<lambda>v. (i, u_id v) \<in> set (friends d) \<and> (u_id v, i) \<in> set (friends d)) (users d)"
  unfolding mutual_loop_filter friendsIAdded_def friendsAddedMe_def filter_filter
  by (rule filter_cong) auto

text \<open>C17 (profile friends): the two nested loops of \<open>getUserProfileInformation\<close> compute exactly the users the caller added who added it back (mutual) and the users the caller added who did not (one-way), in the order of the user table.\<close>

theorem getUserProfileInformation_friends:
  assumes "getUserProfileInformation d i = Some p"
  shows "p_mutual p = filter (\<lambda>v. (i, u_id v) \<in> set (friends d) \<and> (u_id v, i) \<in> set (friends d)) (users d)
       \<and> p_oneway p = filter (\<lambda>v. (i, u_id v) \<in> set (friends d) \<and> (u_id v, i) \<notin> set (friends d)) (users d)"
proof -
  from assms obtain u where u: "getUserById d i = Some u"
    and p: "p_mutual p = mutual_loop (friendsIAdded d i) (friendsAddedMe d i)"
           "p_oneway p = oneway_loop (friendsIAdded d i) (p_mutual p)"
    by (auto simp: getUserProfileInformation_def Let_def split: option.splits)
  have "oneway_loop (friendsIAdded d i) (p_mutual p) =
          filter (\<lambda>v. (i, u_id v) \<in> set (friends d) \<and> (u_id v, i) \<notin> set (friends d)) (users d)"
    unfolding p(1) profile_mutual
    unfolding oneway_loop_filter friendsIAdded_def filter_filter
    by (rule filter_cong) auto
  with p show ?thesis by (simp add: profile_mutual)
qed

lemma changeName_Some:
  assumes "getUserById d i = Some u" "\<not> list_ex (\<lambda>v. u_username v = n \<and> u_id v \<noteq> i) (users d)"
  shows "changeName d c i n =
     (d\<lparr>users := map (\<lambda>v. if u_id v = i then v\<lparr>u_username := n\<rparr> else v) (users d),
        games := map (\<lambda>g. if rightPlayerId g = u_authId u then g\<lparr>rightPlayerName := Some n\<rparr> else g)
                   (map (\<lambda>g. if leftPlayerId g = u_authId u then g\<lparr>leftPlayerName := Some n\<rparr> else g) (games d))\<rparr>,
      c\<lparr>messages := map (\<lambda>m. if m_fromId m = u_id u then m\<lparr>m_fromUsername := n\<rparr> else m) (messages c)\<rparr>)"
  using assms by (simp add: changeName_def Let_def)

lemma list_all_map_upd:
  "(\<And>x. P x \<Longrightarrow> Q (f x)) \<Longrightarrow> (\<And>x. \<not> P x \<Longrightarrow> Q x) \<Longrightarrow> list_all Q (map (\<lambda>x. if P x then f x else x) xs)"
  by (induction xs) auto

lemma rename_ids [simp]:
  "map u_id (map (\<lambda>v. if u_id v = i then v\<lparr>u_username := n\<rparr> else v) xs) = map u_id xs"
  by (induction xs) auto

lemma distinct_rename:
  assumes "distinct (map u_id xs)" "distinct (map u_username xs)"
    and "\<not> list_ex (\<lambda>v. u_username v = n \<and> u_id v \<noteq> i) xs"
  shows "distinct (map u_username (map (\<lambda>v. if u_id v = i then v\<lparr>u_username := n\<rparr> else v) xs))"
  using assms
proof (induction xs)
  case Nil
  then show ?case by simp
next
  case (Cons a xs)
  let ?r = "\<lambda>v. if u_id v = i then v\<lparr>u_username := n\<rparr> else v"
  have notin: "u_username (?r a) \<notin> u_username ` ?r ` set xs"
  proof
    assume "u_username (?r a) \<in> u_username ` ?r ` set xs"
    then obtain x where x: "x \<in> set xs" "u_username (?r x) = u_username (?r a)"
      unfolding image_image by (rule imageE) simp
    have "u_id x \<noteq> u_id a" using Cons.prems(1) x(1) by (metis distinct.simps(2) list.simps(9) image_eqI set_map)
    have "u_username x \<noteq> u_username a" using Cons.prems(2) x(1) by (metis distinct.simps(2) list.simps(9) image_eqI set_map)
    moreover have "u_id x \<noteq> i \<Longrightarrow> u_username x \<noteq> n" "u_id a \<noteq> i \<Longrightarrow> u_username a \<noteq> n"
      using Cons.prems(3) x(1) by (auto simp: list_ex_iff)
    ultimately show False using x(2) \<open>u_id x \<noteq> u_id a\<close> by (cases "u_id a = i"; cases "u_id x = i") simp_all
  qed
  have IH: "distinct (map u_username (map ?r xs))" using Cons.prems by (intro Cons.IH) simp_all
  show ?case using IH notin by (simp only: list.map(2) distinct.simps(2) set_map) simp
qed

lemma getUserById_rename:
  "getUserById (d\<lparr>users := map (\<lambda>v. if u_id v = i then v\<lparr>u_username := n\<rparr> else v) (users d), games := gs\<rparr>) j =
     map_option (\<lambda>v. if u_id v = i then v\<lparr>u_username := n\<rparr> else v) (getUserById d j)"
  by (simp add: getUserById_def find_map_keep_key)

text \<open>C15 (username change): when the user exists and no row has the new name, \<open>changeName\<close> gives the user row the new name, every game of its identity names it so on its side, the game rows stay the same rows, every message it sent carries the new sender name, and no other user row changes.\<close>

theorem changeName_renames:
  assumes u: "getUserById d i = Some u" and free: "\<not> userAlreadyExists d n"
  shows "getUserById (fst (changeName d c i n)) i = Some (u\<lparr>u_username := n\<rparr>)
       \<and> list_all (\<lambda>g. (leftPlayerId g = u_authId u \<longrightarrow> leftPlayerName g = Some n)
                     \<and> (rightPlayerId g = u_authId u \<longrightarrow> rightPlayerName g = Some n)) (games (fst (changeName d c i n)))
       \<and> map game_id (games (fst (changeName d c i n))) = map game_id (games d)
       \<and> list_all (\<lambda>m. m_fromId m = i \<longrightarrow> m_fromUsername m = n) (messages (snd (changeName d c i n)))
       \<and> (\<forall>j. j \<noteq> i \<longrightarrow> getUserById (fst (changeName d c i n)) j = getUserById d j)"
proof -
  have ui: "u_id u = i" using getUserById_Some [OF u] by simp
  have nc: "\<not> list_ex (\<lambda>v. u_username v = n \<and> u_id v \<noteq> i) (users d)"
    using free by (auto simp: userAlreadyExists_def list_ex_iff)
  note eq = changeName_Some [OF u nc]
  have look: "getUserById (fst (changeName d c i n)) j =
          map_option (\<lambda>v. if u_id v = i then v\<lparr>u_username := n\<rparr> else v) (getUserById d j)" for j
    by (simp add: eq getUserById_rename)
  have "getUserById (fst (changeName d c i n)) i = Some (u\<lparr>u_username := n\<rparr>)"
    using look [of i] u ui by simp
  moreover have "j \<noteq> i \<Longrightarrow> getUserById (fst (changeName d c i n)) j = getUserById d j" for j
    using look [of j] getUserById_Some [of d j] by (cases "getUserById d j") auto
  moreover have "list_all (\<lambda>g. (leftPlayerId g = u_authId u \<longrightarrow> leftPlayerName g = Some n)
                     \<and> (rightPlayerId g = u_authId u \<longrightarrow> rightPlayerName g = Some n)) (games (fst (changeName d c i n)))"
    by (auto simp: eq list_all_iff)
  moreover have "map game_id (games (fst (changeName d c i n))) = map game_id (games d)"
    by (simp add: eq comp_def)
  moreover have "list_all (\<lambda>m. m_fromId m = i \<longrightarrow> m_fromUsername m = n)
      (map (\<lambda>m. if m_fromId m = u_id u then m\<lparr>m_fromUsername := n\<rparr> else m) (messages c))"
    by (rule list_all_map_upd) (simp_all add: ui)
  then have "list_all (\<lambda>m. m_fromId m = i \<longrightarrow> m_fromUsername m = n) (messages (snd (changeName d c i n)))"
    by (simp add: eq)
  ultimately show ?thesis by blast
qed

text \<open>C16 (username taken): when another user row already has the name, the unique-constraint failure is caught and \<open>changeName\<close> changes neither the store nor the chat tables.\<close>

theorem changeName_taken:
  "list_ex (\<lambda>v. u_username v = n \<and> u_id v \<noteq> i) (users d) \<Longrightarrow> changeName d c i n = (d, c)"
  by (simp add: changeName_def split: option.split)

text \<open>C14 (user table well-formedness): unique user ids and usernames, and distinct friend pairs between existing users, are preserved by \<open>changeName\<close> and by a successful \<open>addFriend\<close>.\<close>

theorem profile_ops_wf:
  assumes wf: "user_table_wf d"
  shows "user_table_wf (fst (changeName d c i n)) \<and> (addFriend d i f = Some d' \<longrightarrow> user_table_wf d')"
proof (intro conjI impI)
  show "user_table_wf (fst (changeName d c i n))"
  proof (cases "getUserById d i = None \<or> list_ex (\<lambda>v. u_username v = n \<and> u_id v \<noteq> i) (users d)")
    case True
    with wf show ?thesis by (auto simp: changeName_def split: option.split)
  next
    case False
    then obtain u where u: "getUserById d i = Some u"
      and nc: "\<not> list_ex (\<lambda>v. u_username v = n \<and> u_id v \<noteq> i) (users d)" by auto
    have "distinct (map u_username (map (\<lambda>v. if u_id v = i then v\<lparr>u_username := n\<rparr> else v) (users d)))"
      using wf nc by (intro distinct_rename) (simp_all add: user_table_wf_def)
    with wf show ?thesis
      by (simp add: changeName_Some [OF u nc] user_table_wf_def getUserById_rename del: map_map)
  qed
next
  assume a: "addFriend d i f = Some d'"
  show "user_table_wf d'"
  proof (cases "(i, f) \<in> set (friends d)")
    case True
    with a wf show ?thesis by (simp add: addFriend_def split: option.splits)
  next
    case False
    with a have "d' = d\<lparr>friends := friends d @ [(i, f)]\<rparr>" "getUserById d i \<noteq> None" "getUserById d f \<noteq> None"
      by (auto simp: addFriend_def split: option.splits if_splits)
    with wf False show ?thesis by (simp add: user_table_wf_def getUserById_def)
  qed
qed

lemma round_digit:
  fixes r :: real
  assumes "0 \<le> r" "r < 1"
  shows "nat \<lfloor>r * 16 + 1 / 2\<rfloor> \<le> 16 \<and> (nat \<lfloor>r * 16 + 1 / 2\<rfloor> = 16 \<longleftrightarrow> 31 / 32 \<le> r)"
proof -
  have "\<lfloor>r * 16 + 1 / 2\<rfloor> \<le> 16" using assms by (simp add: floor_le_iff)
  moreover have "\<lfloor>r * 16 + 1 / 2\<rfloor> = 16 \<longleftrightarrow> 31 / 32 \<le> r"
    using assms by (auto simp: floor_eq_iff)
  ultimately show ?thesis by linarith
qed

lemma hex_of_nat_length: "n \<le> 16 \<Longrightarrow> length (hex_of_nat n) = (if n = 16 then 2 else 1)"
  by simp

lemma hex_draw_length:
  assumes "0 \<le> r" "r < 1"
  shows "length (hex_draw r) = (if r < 31 / 32 then 1 else 2)"
  using round_digit [OF assms] hex_of_nat_length [of "nat \<lfloor>r * 16 + 1 / 2\<rfloor>"]
  by (auto simp: hex_draw_def simp del: hex_of_nat.simps)


text \<open>C19 (avatar file name length): for draws in [0, 1), each \<open>Math.round(Math.random() * 16).toString(16)\<close> gives one hex digit, or the two characters 10 when the draw is at least 31/32, so the name has one character per draw plus one per such draw.\<close>

theorem randomName_length:
  "list_all (\<lambda>r. 0 \<le> r \<and> r < 1) rs \<Longrightarrow>
     length (randomName rs) = length rs + length (filter (\<lambda>r. 31 / 32 \<le> r) rs)"
  by (induction rs) (auto simp: randomName_def hex_draw_length)

text \<open>C18 (self friendship): \<open>addFriend\<close> never compares the two ids, so a user can add itself, and then appears among its own mutual friends on its profile.\<close>

theorem addFriend_self_mutual:
  assumes u: "getUserById d i = Some u" and new: "(i, i) \<notin> set (friends d)"
  shows "\<exists>d' p. addFriend d i i = Some d' \<and> getUserProfileInformation d' i = Some p \<and> u \<in> set (p_mutual p)"
proof -
  let ?d' = "d\<lparr>friends := friends d @ [(i, i)]\<rparr>"
  have a: "addFriend d i i = Some ?d'" using u new by (simp add: addFriend_def)
  have u': "getUserById ?d' i = Some u" using u by (simp add: getUserById_def)
  have "u \<in> set (mutual_loop (friendsIAdded ?d' i) (friendsAddedMe ?d' i))"
    using getUserById_Some [OF u] by (simp add: profile_mutual)
  with a u' show ?thesis by (simp add: getUserProfileInformation_def Let_def)
qed

theorem randomName_length_witness:
  "length (randomName [1 / 2, 99 / 100]) = 3"
  using randomName_length [of "[1 / 2, 99 / 100]"] by simp

theorem addFriend_self_mutual_witness:
  "\<exists>d' p. addFriend demo_db 2 2 = Some d' \<and> getUserProfileInformation d' 2 = Some p
          \<and> \<lparr>u_id = 2, u_authId = 102, u_username = ''bob'', u_status = INGAME,
             wins = 0, loses = 0, usersBlocked = []\<rparr> \<in> set (p_mutual p)"
  by (rule addFriend_self_mutual) (simp_all add: demo_db_def getUserById_def)

theorem getUserProfileInformation_friends_witness:
  "p_mutual (the (getUserProfileInformation (demo_db\<lparr>friends := [(2, 1), (1, 2)]\<rparr>) 2)) =
     [\<lparr>u_id = 1, u_authId = 101, u_username = ''alice'', u_status = INGAME, wins = 0, loses = 0, usersBlocked = []\<rparr>]
   \<and> p_oneway (the (getUserProfileInformation (demo_db\<lparr>friends := [(2, 1), (1, 2)]\<rparr>) 2)) = []"
proof -
  have "getUserProfileInformation (demo_db\<lparr>friends := [(2, 1), (1, 2)]\<rparr>) 2 \<noteq> None"
    by (simp add: getUserProfileInformation_def demo_db_def getUserById_def Let_def)
  then obtain p where p: "getUserProfileInformation (demo_db\<lparr>friends := [(2, 1), (1, 2)]\<rparr>) 2 = Some p"
    by blast
  from getUserProfileInformation_friends [OF p] p show ?thesis by (simp add: demo_db_def)
qed

theorem changeName_renames_witness:
  "getUserById (fst (changeName demo_db empty_chat 2 ''robert'')) 2 =
     Some \<lparr>u_id = 2, u_authId = 102, u_username = ''robert'', u_status = INGAME, wins = 0, loses = 0, usersBlocked = []\<rparr>
   \<and> map game_id (games (fst (changeName demo_db empty_chat 2 ''robert''))) = [7]"
proof -
  have u: "getUserById demo_db 2 = Some \<lparr>u_id = 2, u_authId = 102, u_username = ''bob'', u_status = INGAME,
              wins = 0, loses = 0, usersBlocked = []\<rparr>" by (simp add: demo_db_def getUserById_def)
  have f: "\<not> userAlreadyExists demo_db ''robert''" by (simp add: demo_db_def userAlreadyExists_def)
  from changeName_renames [OF u f, of empty_chat] show ?thesis by (simp add: demo_db_def)
qed

theorem changeName_taken_witness: "changeName demo_db empty_chat 2 ''alice'' = (demo_db, empty_chat)"
  by (rule changeName_taken) (simp add: demo_db_def)

theorem profile_ops_wf_witness:
  "user_table_wf (fst (changeName demo_db empty_chat 2 ''robert''))
   \<and> user_table_wf (demo_db\<lparr>friends := [(2, 1)]\<rparr>)"
proof -
  have wf: "user_table_wf demo_db" by (simp add: user_table_wf_def demo_db_def)
  have "addFriend demo_db 2 1 = Some (demo_db\<lparr>friends := [(2, 1)]\<rparr>)"
    by (simp add: addFriend_def demo_db_def getUserById_def)
  with profile_ops_wf [OF wf, of empty_chat 2 "''robert''" 1 "demo_db\<lparr>friends := [(2, 1)]\<rparr>"] show ?thesis
    by simp
qed

end
