(* ===== verification/Client.thy ===== *)
theory Client
  imports Session
begin

text \<open>
  The browser side of a match, \<open>src/app/frontend/src/components/Game/Pong.tsx\<close>:
  the key listeners that keep \<open>allVar.key\<close> (with the \<open>curr\<close>/\<open>prev\<close>
  variables of the component), the animation-frame loop that throttles to
  60 frames per second and decides which messages a frame sends, and the
  socket listeners that copy the server's broadcasts into \<open>allVar\<close>.
  Together with \<open>Session\<close> this closes the loop of a match: a frame sends
  \<open>ballMove\<close>, the server answers \<open>ballUpdate\<close>, the listener stores it.
\<close>

subsection \<open>Keys\<close>

text \<open>The \<open>curr\<close> and \<open>prev\<close> variables of the component (lines 59-60).\<close>

record keyvars =
  kcurr :: string
  kprev :: string

text \<open>The keys both listeners and the frame loop look at.\<close>

definition tracked_key :: "string \<Rightarrow> bool" where
  "tracked_key k \<longleftrightarrow> k = ''W'' \<or> k = ''w'' \<or> k = ''S'' \<or> k = ''s'' \<or> k = ''z'' \<or> k = ''Z''
                     \<or> k = ''ArrowUp'' \<or> k = ''ArrowDown''"

text \<open>\<open>paddleMove\<close>, the \<open>keydown\<close> listener (lines 116-131).\<close>

definition paddleMove_key :: "string \<Rightarrow> gamedata \<times> keyvars \<Rightarrow> gamedata \<times> keyvars" where
  "paddleMove_key k s =
     (let (gd, kv) = s
      in if tracked_key k then
           let kv1 = (if kcurr kv \<noteq> k then kv\<lparr>kprev := kcurr kv\<rparr> else kv)
           in (gd\<lparr>key := k\<rparr>, kv1\<lparr>kcurr := k\<rparr>)
         else s)"

text \<open>The test of \<open>paddleStop\<close>, which reads \<open>event.code\<close> for the upper-case W
  and \<open>event.key\<close> for the others.\<close>

definition stop_test :: "string \<Rightarrow> string \<Rightarrow> bool" where
  "stop_test k c \<longleftrightarrow> c = ''W'' \<or> k = ''w'' \<or> k = ''S'' \<or> k = ''s'' \<or> k = ''z'' \<or> k = ''Z''
                     \<or> k = ''ArrowUp'' \<or> k = ''ArrowDown''"

text \<open>\<open>paddleStop\<close>, the \<open>keyup\<close> listener (lines 133-148), on an event with
  \<open>key\<close> \<open>k\<close> and \<open>code\<close> \<open>c\<close>.\<close>

definition paddleStop_key :: "string \<Rightarrow> string \<Rightarrow> gamedata \<times> keyvars \<Rightarrow> gamedata \<times> keyvars" where
  "paddleStop_key k c s =
     (let (gd, kv) = s
      in if stop_test k c then
           let kv1 = (if k \<noteq> kprev kv then kv\<lparr>kcurr := kprev kv\<rparr> else kv)
           in (gd\<lparr>key := kcurr kv1\<rparr>, kv1\<lparr>kprev := ''''\<rparr>)
         else s)"

subsection \<open>The frame loop\<close>

text \<open>What a frame sends.\<close>

datatype cmsg =
    CPaddleMove gamedata
  | CGameStart gamedata
  | CUpdateUser gameStatus
  | CGameFinished gid
  | CBallMove gamedata

text \<open>The message part of \<open>render\<close> (lines 398-425): nothing before both
  selections are ready; \<open>paddleMove\<close> while a tracked key is held; then
  \<open>gameStart\<close> in INIT, the end reports in WIN, LOSE and LEAVE (which also
  cancel the next frame, \<open>True\<close>), \<open>ballMove\<close> in PLAY.\<close>

definition render_emits :: "bool \<Rightarrow> bool \<Rightarrow> gamedata \<Rightarrow> cmsg list \<times> bool" where
  "render_emits readyMap readyMode gd =
     (if readyMap \<and> readyMode then
        let pm = (if tracked_key (key gd) then [CPaddleMove gd] else [])
        in if gd_gameStatus gd = INIT then (pm @ [CGameStart gd], False)
           else if gd_gameStatus gd = WIN \<or> gd_gameStatus gd = LOSE \<or> gd_gameStatus gd = LEAVE
           then (pm @ [CUpdateUser (gd_gameStatus gd), CGameFinished (gd_gameId gd)], True)
           else if gd_gameStatus gd = PLAY then (pm @ [CBallMove gd], False)
           else (pm, False)
      else ([], False))"

text \<open>The throttle of \<open>render\<close> (lines 299-302 and 337-341): a frame runs when
  more than \<open>1000 / fps\<close> ms have passed since \<open>then\<close>, which moves to
  \<open>now - elapsed % fpsInterval\<close>.  \<open>Date.now()\<close> is the parameter \<open>now\<close>.\<close>

definition frame_due :: "real \<Rightarrow> real \<Rightarrow> real \<Rightarrow> bool \<times> real" where
  "frame_due fps now thn =
     (let fpsInterval = 1000 / fps; elapsed = now - thn
      in if elapsed > fpsInterval
         then (True, now - (elapsed - fpsInterval * of_int \<lfloor>elapsed / fpsInterval\<rfloor>))
         else (False, thn))"

subsection \<open>Listeners\<close>

text \<open>The socket listeners of the game page (lines 259-285 and 453-456):
  each copies fields of the broadcast snapshot into \<open>allVar\<close>.\<close>

fun client_recv :: "msg \<Rightarrow> gamedata \<Rightarrow> gamedata" where
  "client_recv (PaddleUpdate p) gd = gd\<lparr>leftPaddleY := leftPaddleY p, rightPaddleY := rightPaddleY p\<rparr>"
| "client_recv (BallUpdate p) gd =
     gd\<lparr>ballX := ballX p, ballY := ballY p, ballDirection := ballDirection p, ballSpeed := ballSpeed p\<rparr>"
| "client_recv (ScoreUpdate p) gd =
     gd\<lparr>gd_scoreRightPlayer := gd_scoreRightPlayer p, gd_scoreLeftPlayer := gd_scoreLeftPlayer p,
        ballSpeed := ballSpeed p\<rparr>"
| "client_recv (GameStartMsg p) gd = gd\<lparr>ballDirection := ballDirection p\<rparr>"
| "client_recv (GameStatusMsg s) gd = gd\<lparr>gd_gameStatus := s\<rparr>"
| "client_recv (GameStatusSelectMsg s) gd = gd\<lparr>gd_gameStatus := s\<rparr>"
| "client_recv _ gd = gd"

text \<open>The ball as the client draws it.\<close>

definition ball_of :: "gamedata \<Rightarrow> real \<times> real \<times> (real \<times> real) \<times> int" where
  "ball_of gd = (ballX gd, ballY gd, ballDirection gd, ballSpeed gd)"

subsection \<open>Lemmas and properties\<close>

text \<open>C21 (stuck upper-case W): the keyup listener tests \<open>event.code === "W"\<close>, which no real key event has, so after an upper-case W is pressed and released \<open>allVar.key\<close> stays W and every later frame still sends \<open>paddleMove\<close>.\<close>

theorem paddleStop_upper_W_stuck:
  assumes "c \<noteq> ''W''"
  shows "key (fst (paddleStop_key ''W'' c (paddleMove_key ''W'' (gd, kv)))) = ''W''
       \<and> fst (render_emits True True (fst (paddleStop_key ''W'' c (paddleMove_key ''W'' (gd, kv))))) \<noteq> []
       \<and> hd (fst (render_emits True True (fst (paddleStop_key ''W'' c (paddleMove_key ''W'' (gd, kv)))))) =
           CPaddleMove (fst (paddleStop_key ''W'' c (paddleMove_key ''W'' (gd, kv))))"
  using assms
  by (simp add: paddleMove_key_def paddleStop_key_def stop_test_def tracked_key_def render_emits_def Let_def)

text \<open>C22 (key roll-back): when a second tracked key is pressed while a first is held and then released (with a key the keyup test recognises), \<open>allVar.key\<close> returns to the first key.\<close>

theorem key_rollback:
  assumes "tracked_key a" "tracked_key b" "a \<noteq> b" "stop_test b c"
  shows "key (fst (paddleStop_key b c (paddleMove_key b (paddleMove_key a s)))) = a"
  using assms by (cases s) (simp add: paddleMove_key_def paddleStop_key_def Let_def)

lemma frame_due_phase:
  fixes e i :: real
  assumes "0 < i" "i < e"
  shows "i \<le> e - (e - i * of_int \<lfloor>e / i\<rfloor>) \<and> 0 \<le> e - i * of_int \<lfloor>e / i\<rfloor>
       \<and> e - i * of_int \<lfloor>e / i\<rfloor> < i"
proof -
  have f1: "of_int \<lfloor>e / i\<rfloor> \<le> e / i" "e / i < of_int \<lfloor>e / i\<rfloor> + 1" by linarith+
  have "1 \<le> e / i" using assms by simp
  then have "1 \<le> \<lfloor>e / i\<rfloor>" by (metis le_floor_iff of_int_1)
  then have f2: "(1::real) \<le> of_int \<lfloor>e / i\<rfloor>" by simp
  have "i * of_int \<lfloor>e / i\<rfloor> \<le> i * (e / i)" using f1(1) assms(1) by (intro mult_left_mono) simp_all
  then have "i * of_int \<lfloor>e / i\<rfloor> \<le> e" using assms(1) by simp
  moreover have "i * (e / i) < i * (of_int \<lfloor>e / i\<rfloor> + 1)" using f1(2) assms(1) by (intro mult_strict_left_mono)
  then have "e < i * (of_int \<lfloor>e / i\<rfloor> + 1)" using assms(1) by simp
  moreover have "i \<le> i * of_int \<lfloor>e / i\<rfloor>" using f2 assms(1) by simp
  ultimately show ?thesis by (simp add: algebra_simps)
qed

text \<open>C23 (frame throttle): when a frame runs, \<open>then\<close> moves forward by a whole number (at least one) of frame intervals, keeping the phase of the schedule, and ends within one interval before \<open>now\<close>.\<close>

theorem frame_due_bounds:
  assumes "0 < fps" "frame_due fps now thn = (True, thn')"
  shows "(\<exists>k::int. 1 \<le> k \<and> thn' = thn + of_int k * (1000 / fps)) \<and> now - 1000 / fps < thn' \<and> thn' \<le> now"
proof -
  have due: "1000 / fps < now - thn" and t: "thn' = now - ((now - thn) - 1000 / fps * of_int \<lfloor>(now - thn) / (1000 / fps)\<rfloor>)"
    using assms(2) by (auto simp: frame_due_def Let_def split: if_splits)
  define k where "k = \<lfloor>(now - thn) / (1000 / fps)\<rfloor>"
  have "thn' = thn + of_int k * (1000 / fps)" using t by (simp add: k_def algebra_simps)
  moreover have "1000 < (now - thn) * fps" using due assms(1) by (simp add: pos_divide_less_eq)
  then have "1 \<le> (now - thn) / (1000 / fps)" using assms(1) by simp
  then have "1 \<le> k" unfolding k_def by (metis le_floor_iff of_int_1)
  moreover have "now - 1000 / fps < thn' \<and> thn' \<le> now"
    using frame_due_phase [OF _ due] assms(1) unfolding t by simp
  ultimately show ?thesis by blast
qed

text \<open>C20 (one frame of play, client and server): in PLAY with no key held, a frame sends only \<open>ballMove\<close>; when no side scores the server broadcasts the collided and advanced snapshot to the game room, and the client's \<open>ballUpdate\<close> listener leaves its ball exactly as the server computed it, with paddles and scores untouched.\<close>

theorem play_round_trip:
  assumes "gd_gameStatus gd = PLAY" "\<not> tracked_key (key gd)" "\<not> limit_reached gd" "\<not> ball_out gd"
  shows "render_emits True True gd = ([CBallMove gd], False)
       \<and> outbox (ballMove gd w) = outbox w @ [(ToRooms [GameRoom (gd_gameId gd)], BallUpdate (advance (collide gd)))]
       \<and> ball_of (client_recv (BallUpdate (advance (collide gd))) gd) = ball_of (advance (collide gd))
       \<and> leftPaddleY (client_recv (BallUpdate (advance (collide gd))) gd) = leftPaddleY gd
       \<and> rightPaddleY (client_recv (BallUpdate (advance (collide gd))) gd) = rightPaddleY gd
       \<and> gd_scoreLeftPlayer (client_recv (BallUpdate (advance (collide gd))) gd) = gd_scoreLeftPlayer gd
       \<and> gd_scoreRightPlayer (client_recv (BallUpdate (advance (collide gd))) gd) = gd_scoreRightPlayer gd"
  using assms ballMove_step [OF assms(3,4), of w]
  by (simp add: render_emits_def ball_of_def)

theorem paddleStop_upper_W_stuck_witness:
  "key (fst (paddleStop_key ''W'' ''KeyW'' (paddleMove_key ''W'' (demo_ball, \<lparr>kcurr = [], kprev = []\<rparr>)))) = ''W''
   \<and> hd (fst (render_emits True True (fst (paddleStop_key ''W'' ''KeyW'' (paddleMove_key ''W'' (demo_ball, \<lparr>kcurr = [], kprev = []\<rparr>)))))) =
       CPaddleMove (fst (paddleStop_key ''W'' ''KeyW'' (paddleMove_key ''W'' (demo_ball, \<lparr>kcurr = [], kprev = []\<rparr>))))"
  using paddleStop_upper_W_stuck [of "''KeyW''" demo_ball "\<lparr>kcurr = [], kprev = []\<rparr>"] by simp

theorem key_rollback_witness:
  "key (fst (paddleStop_key ''ArrowDown'' ''ArrowDown'' (paddleMove_key ''ArrowDown''
      (paddleMove_key ''ArrowUp'' (demo_ball, \<lparr>kcurr = [], kprev = []\<rparr>))))) = ''ArrowUp''"
  by (rule key_rollback) (simp_all add: tracked_key_def stop_test_def)

theorem frame_due_bounds_witness:
  "\<exists>k::int. 1 \<le> k \<and> (100::real) - (50 - 1000 / 60 * of_int \<lfloor>(50::real) / (1000 / 60)\<rfloor>) = 50 + of_int k * (1000 / 60)"
proof -
  have "frame_due 60 100 50 = (True, 100 - (50 - 1000 / 60 * of_int \<lfloor>(50::real) / (1000 / 60)\<rfloor>))"
    by (simp add: frame_due_def Let_def)
  from frame_due_bounds [OF _ this] show ?thesis by simp
qed

theorem play_round_trip_witness:
  "ball_of (client_recv (BallUpdate (advance (collide demo_ball))) demo_ball) = ball_of (advance (collide demo_ball))
   \<and> outbox (ballMove demo_ball (match_world demo_game)) =
       [(ToRooms [GameRoom 7], BallUpdate (advance (collide demo_ball)))]"
  using play_round_trip [of demo_ball "match_world demo_game"]
  by (simp add: demo_ball_def tracked_key_def limit_reached_def ball_out_def)

end
