(* ===== verification/Spec2Isabelle.thy ===== *)
theory Spec2Isabelle
  imports Server Profile Client
begin

text \<open>
  Verification model of Ft_transcendence: the real-time Pong back end
  (NestJS and socket.io, \<open>src/app/backend/src/game\<close>), the chat back end
  (\<open>src/app/backend/src/chat\<close>), the user service both call
  (\<open>src/app/backend/src/user\<close>), and the game page of the browser client
  (\<open>src/app/frontend/src/components/Game/Pong.tsx\<close>).  It is a shallow
  embedding: every handler and service method is a HOL function over explicit
  state, executable, so that each witness evaluates the model on a concrete
  world.

  \<^bold>\<open>How the parts interact.\<close>  One socket.io server carries both gateways.
  \<open>GameGateway\<close> keeps three in-memory collections (the matchmaking queue,
  the pending invitations, the map from socket to auth id) and runs the game:
  the browser drives it, sending its whole snapshot \<open>allVar\<close> every frame
  (\<open>ballMove\<close>, \<open>paddleMove\<close>), and the server computes one step, writes
  outcomes through the services and broadcasts the result to the game room.
  \<open>ChatGateway\<close> handles channels, direct conversations, moderation and
  blocking through \<open>ChannelService\<close>, \<open>ChatService\<close> and \<open>UserService\<close>.
  The services reach the Prisma store.

  \<^bold>\<open>Theories.\<close>
  \<^item> \<open>Prelude\<close>: identifier types, the presence enum, the JavaScript
    containers (\<open>findIndex\<close>, \<open>splice\<close>, insertion-ordered \<open>Map\<close> and
    \<open>Set\<close>) and their lemmas (collection \<open>model_simps\<close>).
  \<^item> \<open>Store\<close>: the user and game tables and the friend relation as
    lists (record \<open>db\<close>); the methods of \<open>game.service.ts\<close> and the presence,
    counter and lookup methods of \<open>user.service.ts\<close>.  A failed Prisma update
    is caught and leaves the store unchanged (\<open>caught\<close>).
  \<^item> \<open>Physics\<close>: the pure computations of \<open>paddleMove\<close> and \<open>ballMove\<close>
    (collisions, speed gain, scoring, reset, motion) and the rejection loop of
    \<open>generateRandomBallDirection\<close> over \<open>Math.random()\<close> draws.
  \<^item> \<open>ChatStore\<close>: the chat tables and every method of
    \<open>channel.service.ts\<close> and \<open>chat.service.ts\<close>, with the block-list
    methods of \<open>user.service.ts\<close>; Prisma failures are \<open>None\<close> in the option
    monad.
  \<^item> \<open>Gateway\<close>: the shared world (record \<open>world\<close>: store, chat tables,
    connected sockets, \<open>players\<close>, queue, invitations, rooms, pending timers,
    the outbox of emitted events, escaped TypeErrors) and the socket.io
    primitives (\<open>emit\<close>, \<open>join\<close>, \<open>leave\<close>, \<open>throw\<close>).
  \<^item> \<open>Matchmaking\<close>, \<open>Invites\<close>, \<open>Session\<close>: the \<open>GameGateway\<close> handlers
    \<open>join-room\<close> and \<open>leaveQueue\<close>; \<open>inviteInit\<close>, \<open>inviteAccepted\<close>,
    \<open>inviteDeclined\<close>; \<open>initGame\<close> to \<open>gameFinished\<close> and the deferred
    score write of \<open>ballMove\<close> (\<open>tick\<close>).
  \<^item> \<open>ChatGateway\<close>: the state-changing handlers of \<open>ChatGateway\<close>.
  \<^item> \<open>Connection\<close>: \<open>handleConnection\<close> and \<open>handleDisconnect\<close> of both
    gateways, composed in the order socket.io runs them (\<open>connect\<close>,
    \<open>disconnect\<close>).
  \<^item> \<open>Server\<close>: the datatype \<open>event\<close> of all socket events, the dispatch
    \<open>step\<close>, the reachable worlds (\<open>reachable\<close>, an inductive predicate
    from \<open>init_world\<close>), the frame lemmas saying which handlers leave the
    lobby state alone, and \<open>step_lobby_inv\<close>.
  \<^item> \<open>Profile\<close>: username check and change, profile and home-page queries,
    \<open>addFriend\<close>, and the avatar file filter and random file name of
    \<open>user.controller.ts\<close>.
  \<^item> \<open>Client\<close>: the key listeners, the throttled frame loop and the messages
    a frame sends, and the socket listeners of \<open>Pong.tsx\<close>.
  \<^item> this theory: the invariant of the reachable worlds.

  \<^bold>\<open>What the theorems show.\<close>  Each claim is a theorem right after a text
  block naming it.  They cover the invariant of all reachable worlds
  (\<open>reachable_lobby_inv\<close>, by rule induction over \<open>reachable\<close>), the
  outcome and counters of every way a match ends (\<open>Store\<close>, \<open>Session\<close>,
  \<open>Connection\<close>), FIFO pairing, the invitation guards, the paddle step as a
  clamped move (refinement), the bounds of the initial direction and of the
  frame throttle, the well-formedness of the user table, the friend lists as
  filters (equivalence), the moderation guards, blocking as a toggle (round
  trip), and one frame of play composed across client and server.  Several
  theorems pin defects of the code; \<open>PROJECT.json\<close> lists them as findings.

  \<^bold>\<open>Modelling choices.\<close>
  \<^item> Handlers run atomically, one whole message at a time; the interleavings
    at \<open>await\<close> points are not modelled.  On a connection the game hook runs
    before the chat hook.
  \<^item> JavaScript numbers are exact reals; identifiers are naturals.  The clock
    (\<open>Date.now()\<close>, \<open>new Date()\<close>) is a parameter.
  \<^item> \<open>Math.random()\<close> is an explicit list of draws.  This list is the fuel of
    the rejection loop of \<open>generateRandomBallDirection\<close>: \<open>None\<close> means the
    draws ran out.  \<open>gameStart_starts\<close> shows that one accepted draw suffices,
    which is enough.  The avatar file name takes one draw per digit.
  \<^item> The Prisma schema is not in the sources.  Enum values, column defaults,
    unique columns (user name, channel name) and the default referential
    action are assumed, as are relation lists returned in table order.
    \<open>createGame\<close> is assumed to succeed.  bcrypt is a constructor
    (\<open>Hashed\<close>).  \<open>Array.sort\<close> is a stable sort.  \<open>toLowerCase\<close> is
    ASCII only.

  \<^bold>\<open>Not modelled.\<close>
  \<^item> Authentication: 42 OAuth, JWT issuance, two-factor authentication
    (\<open>src/app/backend/src/auth\<close>).  This is an external collaborator in the
    spec.
  \<^item> The HTTP routing of the controllers beyond the avatar upload, and
    \<open>uploadAvatar\<close>, which only writes a column nothing else reads.
  \<^item> The React pages other than the game loop (home page, chat page,
    settings, menus).  They are UI rendering.
  \<^item> Canvas drawing, countdowns and navigation in \<open>Pong.tsx\<close>.
  \<^item> Prisma itself, the database and the socket.io transport, beyond the
    primitives above.
\<close>

text \<open>C1 (lobby invariant): in every world reachable from a fresh start, whatever
  the events and their order, at most one identity waits in the matchmaking queue,
  no two pending invitations share their (inviter, invited) pair, no socket id is
  mapped twice in \<open>players\<close>, and no socket is listed twice as connected.\<close>

theorem reachable_lobby_inv:
  "reachable d w \<Longrightarrow>
     length (waitingQueue w) \<le> 1 \<and> invites_unique w \<and> distinct (map fst (players w)) \<and> distinct (sockets w)"
proof -
  assume "reachable d w"
  then have "lobby_inv w"
  proof (induction rule: reachable.induct)
    case init
    then show ?case by (simp add: init_world_def lobby_inv_def invites_unique_def)
  next
    case (step w e w')
    then show ?case using step_lobby_inv by blast
  qed
  then show ?thesis by (simp add: lobby_inv_def)
qed

theorem reachable_lobby_inv_witness:
  "length (waitingQueue (joinRoom ''s1'' 1 101 (init_world lobby_db))) \<le> 1
   \<and> invites_unique (joinRoom ''s1'' 1 101 (init_world lobby_db))
   \<and> distinct (map fst (players (joinRoom ''s1'' 1 101 (init_world lobby_db))))
   \<and> distinct (sockets (joinRoom ''s1'' 1 101 (init_world lobby_db)))"
proof -
  have "reachable lobby_db (joinRoom ''s1'' 1 101 (init_world lobby_db))"
    using reachable.step [OF reachable.init, where e = "JoinRoom ''s1'' 1 101"] by simp
  then show ?thesis by (rule reachable_lobby_inv)
qed

end
